theory Spec2Isabelle
  imports Complex_Main "HOL-Library.Word"
begin

unbundle bit_operations_syntax

section \<open>The relay backend (backend.py) as state-passing functions\<close>

text \<open>
  The module keeps three dictionaries in memory (\<open>connected\<close>, \<open>rate_limits\<close>,
  \<open>ip_connections\<close>) and two MongoDB collections (\<open>servers_col\<close>,
  \<open>member_tokens_col\<close>). Every handler is modelled as a function from the state before
  to the state after, one handler body (or one iteration of the receive loop) being one
  atomic step. Server ids, tokens and addresses are strings; a request body, a frame
  and the \<open>user_id\<close> of a join are whatever JSON value the client sent; a WebSocket
  object is known by a handle number. A character is a code point below 256, and a
  JSON number is an integer or a finite float. \<open>time.time()\<close> is a real number of
  seconds (float rounding is not modelled), \<open>datetime.utcnow()\<close> an integer count of
  microseconds, and the values of \<open>uuid.uuid4()\<close>, the clocks, the digits of a float
  and the failure of \<open>send_json\<close> are arguments of the handlers.
\<close>

subsection \<open>Configuration constants\<close>

definition MESSAGE_LIMIT :: nat where
  "MESSAGE_LIMIT = 10"

definition WINDOW_SEC :: real where
  "WINDOW_SEC = 60"

definition SIZE_LIMIT :: nat where
  "SIZE_LIMIT = 4096"

definition CONN_LIMIT_PER_IP :: int where
  "CONN_LIMIT_PER_IP = 5"

subsection \<open>Rate limiter\<close>

type_synonym rate_limits = "string \<rightharpoonup> real list"

text \<open>
  \<open>is_rate_limited(key, now)\<close>: a missing key starts with the empty list; the list is
  filtered to the timestamps with \<open>now - t < WINDOW_SEC\<close> and stored back; with
  \<open>MESSAGE_LIMIT\<close> or more left the answer is \<open>True\<close>; otherwise \<open>now\<close> is appended
  to the very list object that was stored, and the answer is \<open>False\<close>.
\<close>

definition is_rate_limited :: "string \<Rightarrow> real \<Rightarrow> rate_limits \<Rightarrow> bool \<times> rate_limits" where
  "is_rate_limited key now rl =
     (let messages = (case rl key of None \<Rightarrow> [] | Some m \<Rightarrow> m);
          messages' = filter (\<lambda>t. now - t < WINDOW_SEC) messages
      in if length messages' \<ge> MESSAGE_LIMIT
         then (True, rl(key \<mapsto> messages'))
         else (False, rl(key \<mapsto> messages' @ [now])))"

text \<open>Successive checks of one key at the given times, earliest first.\<close>

fun rate_checks :: "string \<Rightarrow> real list \<Rightarrow> rate_limits \<Rightarrow> bool list \<times> rate_limits" where
  "rate_checks key [] rl = ([], rl)"
| "rate_checks key (t # ts) rl =
     (let (b, rl') = is_rate_limited key t rl;
          (bs, rl'') = rate_checks key ts rl'
      in (b # bs, rl''))"

subsection \<open>Admission per address\<close>

type_synonym ip_connections = "string \<rightharpoonup> int"

text \<open>
  The exceptions the handlers can leave uncaught. \<open>JSONDecodeError\<close> is raised by
  \<open>request.json()\<close> on a body that is no JSON, \<open>OverflowError\<close> and
  \<open>InvalidDocument\<close> by the database driver while it encodes an update,
  \<open>WriteError\<close> by the database when it refuses one, and \<open>SendError\<close> stands for
  whatever \<open>send_json\<close> raises on a socket that is gone.
\<close>

datatype py_error =
    KeyError | TypeError | AttributeError | DuplicateKeyError | JSONDecodeError
  | OverflowError | InvalidDocument | WriteError | SendError

text \<open>
  The admission test of \<open>websocket_endpoint\<close> (the lines under "Check IP conn limit"):
  a missing address gets the count 0; a count of \<open>CONN_LIMIT_PER_IP\<close> or more refuses
  (the socket is closed with 1013 and the handler returns); otherwise the count is
  incremented.
\<close>

definition try_admit :: "string \<Rightarrow> ip_connections \<Rightarrow> bool \<times> ip_connections" where
  "try_admit ip ipc =
     (let ipc0 = (if ipc ip = None then ipc(ip \<mapsto> 0) else ipc);
          n = (case ipc0 ip of None \<Rightarrow> 0 | Some c \<Rightarrow> c)
      in if n \<ge> CONN_LIMIT_PER_IP then (False, ipc0) else (True, ipc0(ip \<mapsto> n + 1)))"

text \<open>
  The last three lines of the \<open>finally\<close> block: decrement, and delete the entry at
  zero. Reading a missing address raises \<open>KeyError\<close>.
\<close>

definition release :: "string \<Rightarrow> ip_connections \<Rightarrow> py_error + ip_connections" where
  "release ip ipc =
     (case ipc ip of
        None \<Rightarrow> Inl KeyError
      | Some c \<Rightarrow> if c - 1 = 0 then Inr (ipc(ip := None)) else Inr (ipc(ip \<mapsto> c - 1)))"

text \<open>\<open>n\<close> admissions in a row from one address.\<close>

fun admit_times :: "nat \<Rightarrow> string \<Rightarrow> ip_connections \<Rightarrow> bool list \<times> ip_connections" where
  "admit_times 0 ip ipc = ([], ipc)"
| "admit_times (Suc n) ip ipc =
     (let (b, ipc') = try_admit ip ipc;
          (bs, ipc'') = admit_times n ip ipc'
      in (b # bs, ipc''))"

subsection \<open>JSON values and Python's view of them\<close>

text \<open>
  What \<open>receive_json()\<close> and \<open>request.json()\<close> hand to the handlers. An object is
  the decoded dict as an association list in key order; its keys are distinct, and a
  lookup reads the first entry of a key.
\<close>

datatype json =
    JNull
  | JBool bool
  | JInt int
  | JFloat real
  | JStr string
  | JArr "json list"
  | JObj "(string \<times> json) list"

text \<open>Truth value of a decoded value, as \<open>not x\<close> and \<open>x and ...\<close> read it.\<close>

fun py_truthy :: "json \<Rightarrow> bool" where
  "py_truthy JNull = False"
| "py_truthy (JBool b) = b"
| "py_truthy (JInt n) = (n \<noteq> 0)"
| "py_truthy (JFloat r) = (r \<noteq> 0)"
| "py_truthy (JStr s) = (s \<noteq> [])"
| "py_truthy (JArr xs) = (xs \<noteq> [])"
| "py_truthy (JObj kvs) = (kvs \<noteq> [])"

text \<open>
  \<open>data.get(k)\<close>: only a dict has \<open>get\<close> (anything else raises \<open>AttributeError\<close>); a
  missing key gives \<open>None\<close>.
\<close>

fun py_get :: "json \<Rightarrow> string \<Rightarrow> py_error + json" where
  "py_get (JObj kvs) k = Inr (case map_of kvs k of None \<Rightarrow> JNull | Some v \<Rightarrow> v)"
| "py_get _ k = Inl AttributeError"

text \<open>
  \<open>x in d\<close> for a dict \<open>d\<close> with string keys: lists and dicts are unhashable and raise
  \<open>TypeError\<close>; a string is looked up; every other value is hashable and equal to no
  string.
\<close>

fun py_in :: "json \<Rightarrow> (string \<times> 'v) list \<Rightarrow> py_error + bool" where
  "py_in (JStr s) d = Inr (map_of d s \<noteq> None)"
| "py_in (JArr xs) d = Inl TypeError"
| "py_in (JObj kvs) d = Inl TypeError"
| "py_in _ d = Inr False"

subsection \<open>Dictionaries in insertion order\<close>

text \<open>
  \<open>d[k] = v\<close> keeps the position of a key that is already there and appends a new one;
  \<open>del d[k]\<close> removes the key. The inner dictionaries of \<open>connected\<close> and the
  \<open>members\<close> and \<open>tokens\<close> sub-documents are iterated by the source, so they are
  association lists with distinct keys.
\<close>

fun dict_set :: "'k \<Rightarrow> 'v \<Rightarrow> ('k \<times> 'v) list \<Rightarrow> ('k \<times> 'v) list" where
  "dict_set k v [] = [(k, v)]"
| "dict_set k v ((k', v') # kvs) =
     (if k' = k then (k, v) # kvs else (k', v') # dict_set k v kvs)"

fun dict_del :: "'k \<Rightarrow> ('k \<times> 'v) list \<Rightarrow> ('k \<times> 'v) list" where
  "dict_del k [] = []"
| "dict_del k ((k', v') # kvs) = (if k' = k then dict_del k kvs else (k', v') # dict_del k kvs)"

subsection \<open>Base64\<close>

text \<open>
  \<open>base64.b64encode\<close> and \<open>base64.b64decode\<close> (with its default \<open>validate=False\<close>)
  after CPython's \<open>binascii\<close>: the encoder turns three bytes into four characters of
  the alphabet and pads the last group with \<open>=\<close>; the decoder skips every character
  outside the alphabet, stops at a complete padding, and raises when the input ends
  inside a group.
\<close>

type_synonym byte = "8 word"

definition b64_alphabet :: string where
  "b64_alphabet = ''ABCDEFGHIJKLMNOPQRSTUVWXYZabcdefghijklmnopqrstuvwxyz0123456789+/''"

definition table_b2a_base64 :: "byte \<Rightarrow> char" where
  "table_b2a_base64 v = b64_alphabet ! unat v"

fun index_of :: "'a \<Rightarrow> 'a list \<Rightarrow> nat option" where
  "index_of x [] = None"
| "index_of x (y # ys) = (if x = y then Some 0 else map_option Suc (index_of x ys))"

definition table_a2b_base64 :: "char \<Rightarrow> byte option" where
  "table_a2b_base64 c = map_option of_nat (index_of c b64_alphabet)"

fun b64encode :: "byte list \<Rightarrow> string" where
  "b64encode [] = []"
| "b64encode [a] =
     [table_b2a_base64 (drop_bit 2 a),
      table_b2a_base64 (push_bit 4 (a AND 3)),
      CHR ''='', CHR ''='']"
| "b64encode [a, b] =
     [table_b2a_base64 (drop_bit 2 a),
      table_b2a_base64 (push_bit 4 (a AND 3) OR drop_bit 4 b),
      table_b2a_base64 (push_bit 2 (b AND 15)),
      CHR ''='']"
| "b64encode (a # b # c # rest) =
     [table_b2a_base64 (drop_bit 2 a),
      table_b2a_base64 (push_bit 4 (a AND 3) OR drop_bit 4 b),
      table_b2a_base64 (push_bit 2 (b AND 15) OR drop_bit 6 c),
      table_b2a_base64 (c AND 63)] @ b64encode rest"

text \<open>
  The decoding loop of \<open>binascii.a2b_base64\<close>: \<open>quad_pos\<close> is the position inside the
  group of four, \<open>leftchar\<close> the bits left over from the last character, \<open>pads\<close> the
  padding characters seen since the last data character. \<open>None\<close> is
  \<open>binascii.Error\<close>.
\<close>

fun a2b_base64 :: "string \<Rightarrow> nat \<Rightarrow> byte \<Rightarrow> nat \<Rightarrow> byte list \<Rightarrow> byte list option" where
  "a2b_base64 [] quad_pos leftchar pads bin_data =
     (if quad_pos \<noteq> 0 then None else Some bin_data)"
| "a2b_base64 (this_ch # rest) quad_pos leftchar pads bin_data =
     (if this_ch = CHR ''='' then
        (if quad_pos \<ge> 2 \<and> quad_pos + (pads + 1) \<ge> 4 then Some bin_data
         else a2b_base64 rest quad_pos leftchar
                (if quad_pos \<ge> 2 then pads + 1 else pads) bin_data)
      else
        (case table_a2b_base64 this_ch of
           None \<Rightarrow> a2b_base64 rest quad_pos leftchar pads bin_data
         | Some v \<Rightarrow>
             (if quad_pos = 0 then a2b_base64 rest 1 v 0 bin_data
              else if quad_pos = 1 then
                a2b_base64 rest 2 (v AND 15) 0
                  (bin_data @ [push_bit 2 leftchar OR drop_bit 4 v])
              else if quad_pos = 2 then
                a2b_base64 rest 3 (v AND 3) 0
                  (bin_data @ [push_bit 4 leftchar OR drop_bit 2 v])
              else
                a2b_base64 rest 0 0 0
                  (bin_data @ [push_bit 6 leftchar OR v]))))"

text \<open>
  \<open>base64.b64decode(s)\<close> for a \<open>str\<close>: a character outside ASCII raises
  \<open>ValueError\<close> before decoding starts.
\<close>

definition b64decode :: "string \<Rightarrow> byte list option" where
  "b64decode s =
     (if list_ex (\<lambda>c. of_char c \<ge> (128::nat)) s then None
      else a2b_base64 s 0 0 0 [])"

subsection \<open>Python's \<open>str\<close> and the JSON text of a value\<close>

text \<open>
  \<open>str(data)\<close> on a decoded value. A character is a code point below 256. A string
  is itself under \<open>str\<close> and is quoted and escaped by \<open>repr\<close> inside a list or a
  dict: single quotes, unless the string has a single quote and no double quote; the
  quote in use, the backslash, tab, newline and return escaped with a backslash;
  every other unprintable character as \<open>\xhh\<close>. The digits of a float are given by
  \<open>float_repr\<close>, an argument.
\<close>

fun dec_nat :: "nat \<Rightarrow> string" where
  "dec_nat n = (if n < 10 then [char_of (48 + n)] else dec_nat (n div 10) @ [char_of (48 + n mod 10)])"

declare dec_nat.simps [simp del]

definition py_int_str :: "int \<Rightarrow> string" where
  "py_int_str n = (if n < 0 then CHR ''-'' # dec_nat (nat (- n)) else dec_nat (nat n))"

definition hex_digit :: "nat \<Rightarrow> char" where
  "hex_digit d = (if d < 10 then char_of (48 + d) else char_of (87 + d))"

definition py_repr_char :: "char \<Rightarrow> char \<Rightarrow> string" where
  "py_repr_char q c =
     (let n = (of_char c :: nat) in
      if c = q \<or> n = 92 then [CHR 92, c]
      else if n = 9 then [CHR 92, CHR ''t'']
      else if n = 10 then [CHR 92, CHR ''n'']
      else if n = 13 then [CHR 92, CHR ''r'']
      else if n < 32 \<or> n = 127 \<or> (128 \<le> n \<and> n \<le> 160) \<or> n = 173
      then [CHR 92, CHR ''x'', hex_digit (n div 16), hex_digit (n mod 16)]
      else [c])"

definition py_repr_str :: "string \<Rightarrow> string" where
  "py_repr_str s =
     (let q = (if CHR 39 \<in> set s \<and> CHR 34 \<notin> set s then CHR 34 else CHR 39)
      in q # concat (map (py_repr_char q) s) @ [q])"

fun py_repr :: "(real \<Rightarrow> string) \<Rightarrow> json \<Rightarrow> string"
  and py_repr_list :: "(real \<Rightarrow> string) \<Rightarrow> json list \<Rightarrow> string"
  and py_repr_items :: "(real \<Rightarrow> string) \<Rightarrow> (string \<times> json) list \<Rightarrow> string" where
  "py_repr float_repr JNull = ''None''"
| "py_repr float_repr (JBool b) = (if b then ''True'' else ''False'')"
| "py_repr float_repr (JInt n) = py_int_str n"
| "py_repr float_repr (JFloat r) = float_repr r"
| "py_repr float_repr (JStr s) = py_repr_str s"
| "py_repr float_repr (JArr xs) = ''['' @ py_repr_list float_repr xs @ '']''"
| "py_repr float_repr (JObj kvs) = ''{'' @ py_repr_items float_repr kvs @ ''}''"
| "py_repr_list float_repr [] = []"
| "py_repr_list float_repr [x] = py_repr float_repr x"
| "py_repr_list float_repr (x # y # ys) =
     py_repr float_repr x @ '', '' @ py_repr_list float_repr (y # ys)"
| "py_repr_items float_repr [] = []"
| "py_repr_items float_repr [(k, v)] = py_repr_str k @ '': '' @ py_repr float_repr v"
| "py_repr_items float_repr ((k, v) # kv # kvs) =
     py_repr_str k @ '': '' @ py_repr float_repr v @ '', '' @ py_repr_items float_repr (kv # kvs)"

fun py_str :: "(real \<Rightarrow> string) \<Rightarrow> json \<Rightarrow> string" where
  "py_str float_repr (JStr s) = s"
| "py_str float_repr v = py_repr float_repr v"

text \<open>
  The JSON text of a value as \<open>send_json\<close> writes it (\<open>json.dumps\<close> with the
  separators \<open>,\<close> and \<open>:\<close> and without \<open>ensure_ascii\<close>), and its size in UTF-8
  bytes. No JSON text of the value is shorter than this one, apart from the way a
  number is written.
\<close>

definition json_char :: "char \<Rightarrow> string" where
  "json_char c =
     (let n = (of_char c :: nat) in
      if n = 34 \<or> n = 92 then [CHR 92, c]
      else if n = 8 then [CHR 92, CHR ''b'']
      else if n = 9 then [CHR 92, CHR ''t'']
      else if n = 10 then [CHR 92, CHR ''n'']
      else if n = 12 then [CHR 92, CHR ''f'']
      else if n = 13 then [CHR 92, CHR ''r'']
      else if n < 32
      then [CHR 92, CHR ''u'', CHR ''0'', CHR ''0'', hex_digit (n div 16), hex_digit (n mod 16)]
      else [c])"

definition json_str :: "string \<Rightarrow> string" where
  "json_str s = CHR 34 # concat (map json_char s) @ [CHR 34]"

fun json_dumps :: "(real \<Rightarrow> string) \<Rightarrow> json \<Rightarrow> string"
  and json_dumps_list :: "(real \<Rightarrow> string) \<Rightarrow> json list \<Rightarrow> string"
  and json_dumps_items :: "(real \<Rightarrow> string) \<Rightarrow> (string \<times> json) list \<Rightarrow> string" where
  "json_dumps float_repr JNull = ''null''"
| "json_dumps float_repr (JBool b) = (if b then ''true'' else ''false'')"
| "json_dumps float_repr (JInt n) = py_int_str n"
| "json_dumps float_repr (JFloat r) = float_repr r"
| "json_dumps float_repr (JStr s) = json_str s"
| "json_dumps float_repr (JArr xs) = ''['' @ json_dumps_list float_repr xs @ '']''"
| "json_dumps float_repr (JObj kvs) = ''{'' @ json_dumps_items float_repr kvs @ ''}''"
| "json_dumps_list float_repr [] = []"
| "json_dumps_list float_repr [x] = json_dumps float_repr x"
| "json_dumps_list float_repr (x # y # ys) =
     json_dumps float_repr x @ '','' @ json_dumps_list float_repr (y # ys)"
| "json_dumps_items float_repr [] = []"
| "json_dumps_items float_repr [(k, v)] = json_str k @ '':'' @ json_dumps float_repr v"
| "json_dumps_items float_repr ((k, v) # kv # kvs) =
     json_str k @ '':'' @ json_dumps float_repr v @ '','' @ json_dumps_items float_repr (kv # kvs)"

definition utf8_size :: "string \<Rightarrow> nat" where
  "utf8_size s = sum_list (map (\<lambda>c. if (of_char c :: nat) < 128 then 1 else 2) s)"

definition json_size :: "(real \<Rightarrow> string) \<Rightarrow> json \<Rightarrow> nat" where
  "json_size float_repr data = utf8_size (json_dumps float_repr data)"

subsection \<open>Stored values and the two collections\<close>

text \<open>
  What the handlers put into a document: numbers, strings, bytes and sub-documents (a
  document is an association list in field order). A key bundle is the sub-document of
  its five fields.
\<close>

datatype bson = BInt int | BStr string | BBytes "byte list" | BDoc "(string \<times> bson) list"

record key_bundle =
  registration_id :: int
  identity :: "byte list"
  signed_prekey :: "byte list"
  signed_prekey_sig :: "byte list"
  one_time_prekey :: "byte list"

definition bundle_doc :: "key_bundle \<Rightarrow> bson" where
  "bundle_doc b =
     BDoc [(''registration_id'', BInt (registration_id b)),
           (''identity'', BBytes (identity b)),
           (''signed_prekey'', BBytes (signed_prekey b)),
           (''signed_prekey_sig'', BBytes (signed_prekey_sig b)),
           (''one_time_prekey'', BBytes (one_time_prekey b))]"

text \<open>
  A bundle on the wire: the registration id as stored, the four binary fields as base64
  text.
\<close>

record wire_bundle =
  w_registration_id :: bson
  w_identity :: string
  w_signed_prekey :: string
  w_signed_prekey_sig :: string
  w_one_time_prekey :: string

text \<open>
  The room document and the token document. \<open>admin_user_id\<close> holds the \<open>user_id\<close>
  of a request as it came (\<open>JNull\<close> is Python's \<open>None\<close>); \<open>members\<close> and \<open>tokens\<close>
  are sub-documents.
\<close>

record server_doc =
  join_token :: string
  admin_user_id :: json
  members :: "(string \<times> bson) list"
  created_at :: int
  last_activity :: int

record tokens_doc =
  tokens :: "(string \<times> bson) list"
  t_created_at :: int
  t_last_activity :: int

text \<open>
  A WebSocket object is a handle number. An \<open>update_one\<close> that matches no document
  changes nothing. Expiry by the TTL index is the database's own and is no step of the
  model.
\<close>

type_synonym ws = nat

record state =
  servers_col :: "string \<rightharpoonup> server_doc"
  member_tokens_col :: "string \<rightharpoonup> tokens_doc"
  connected :: "string \<rightharpoonup> (string \<times> ws) list"
  rate_limits :: rate_limits
  ip_connections :: ip_connections

definition update_activity :: "string \<Rightarrow> int \<Rightarrow> state \<Rightarrow> state" where
  "update_activity server_id now s =
     s\<lparr>servers_col :=
         (case servers_col s server_id of
            None \<Rightarrow> servers_col s
          | Some d \<Rightarrow> (servers_col s)(server_id \<mapsto> d\<lparr>last_activity := now\<rparr>)),
       member_tokens_col :=
         (case member_tokens_col s server_id of
            None \<Rightarrow> member_tokens_col s
          | Some d \<Rightarrow> (member_tokens_col s)(server_id \<mapsto> d\<lparr>t_last_activity := now\<rparr>))\<rparr>"


subsection \<open>\<open>$set\<close> on a dotted path\<close>

text \<open>
  \<open>{"$set": {"members.<key>": v}}\<close> acts on the \<open>members\<close> sub-document along the
  path that the dots of the key cut out: the last name is set in place (or appended),
  a missing name on the way becomes a new sub-document, and a name on the way that
  holds something else than a sub-document makes the database refuse the update. An
  empty name is refused as well, and so is a name that starts with a dollar sign (these
  are the positional operators, which find no array here; servers before version 5
  refuse every such name). \<open>None\<close> is the refusal (a \<open>WriteError\<close>), and a refused
  update changes nothing. The size and depth limits of a document are not modelled.
\<close>

fun split_dots :: "string \<Rightarrow> string list" where
  "split_dots [] = [] # []"
| "split_dots (c # cs) =
     (if c = CHR ''.'' then [] # split_dots cs
      else (case split_dots cs of [] \<Rightarrow> [c] # [] | p # ps \<Rightarrow> (c # p) # ps))"

definition valid_field :: "string \<Rightarrow> bool" where
  "valid_field name = (name \<noteq> [] \<and> hd name \<noteq> CHR ''$'')"

fun set_path :: "string list \<Rightarrow> bson \<Rightarrow> (string \<times> bson) list \<Rightarrow> (string \<times> bson) list option" where
  "set_path [] v d = None"
| "set_path [k] v d = Some (dict_set k v d)"
| "set_path (k # k' # ks) v d =
     (case map_of d k of
        None \<Rightarrow> map_option (\<lambda>sub. dict_set k (BDoc sub) d) (set_path (k' # ks) v [])
      | Some (BDoc sub) \<Rightarrow> map_option (\<lambda>sub'. dict_set k (BDoc sub') d) (set_path (k' # ks) v sub)
      | Some _ \<Rightarrow> None)"

definition mongo_set :: "string \<Rightarrow> bson \<Rightarrow> (string \<times> bson) list \<Rightarrow> (string \<times> bson) list option" where
  "mongo_set key v d =
     (if list_all valid_field (split_dots key) then set_path (split_dots key) v d else None)"

text \<open>
  What the driver refuses to encode: an integer outside eight bytes
  (\<open>OverflowError\<close>) and a key with a NUL character (\<open>InvalidDocument\<close>). The first
  problem met in the value decides. The driver does not look at the dots and dollar
  signs of the keys of an update.
\<close>

definition int64_ok :: "int \<Rightarrow> bool" where
  "int64_ok n = (- (2 ^ 63) \<le> n \<and> n < 2 ^ 63)"

definition has_nul :: "string \<Rightarrow> bool" where
  "has_nul k = (CHR 0x00 \<in> set k)"

fun bson_error :: "json \<Rightarrow> py_error option"
  and bson_error_list :: "json list \<Rightarrow> py_error option"
  and bson_error_items :: "(string \<times> json) list \<Rightarrow> py_error option" where
  "bson_error (JInt n) = (if int64_ok n then None else Some OverflowError)"
| "bson_error (JArr xs) = bson_error_list xs"
| "bson_error (JObj kvs) = bson_error_items kvs"
| "bson_error JNull = None"
| "bson_error (JBool b) = None"
| "bson_error (JFloat r) = None"
| "bson_error (JStr s) = None"
| "bson_error_list [] = None"
| "bson_error_list (x # xs) =
     (case bson_error x of Some e \<Rightarrow> Some e | None \<Rightarrow> bson_error_list xs)"
| "bson_error_items [] = None"
| "bson_error_items ((k, v) # kvs) =
     (if has_nul k then Some InvalidDocument
      else (case bson_error v of Some e \<Rightarrow> Some e | None \<Rightarrow> bson_error_items kvs))"

subsection \<open>Decoding and encoding a bundle\<close>

text \<open>
  \<open>prekey[k]\<close> raises unless \<open>prekey\<close> is a dict that has \<open>k\<close>; \<open>int(x)\<close> takes an
  int, a bool, a float (truncated towards zero) or a string (parsed by \<open>int_of_str\<close>,
  an argument: Python's number syntax is not modelled); \<open>b64decode\<close> takes a string.
  Every exception of the \<open>try\<close> block is \<open>None\<close> here, since the source answers all of
  them alike.
\<close>

fun py_item :: "json \<Rightarrow> string \<Rightarrow> json option" where
  "py_item (JObj kvs) k = map_of kvs k"
| "py_item _ k = None"

fun py_int :: "(string \<Rightarrow> int option) \<Rightarrow> json \<Rightarrow> int option" where
  "py_int int_of_str (JInt n) = Some n"
| "py_int int_of_str (JBool b) = Some (if b then 1 else 0)"
| "py_int int_of_str (JFloat r) = Some (if r \<ge> 0 then \<lfloor>r\<rfloor> else \<lceil>r\<rceil>)"
| "py_int int_of_str (JStr s) = int_of_str s"
| "py_int int_of_str _ = None"

fun b64decode_json :: "json \<Rightarrow> byte list option" where
  "b64decode_json (JStr s) = b64decode s"
| "b64decode_json _ = None"

definition decode_bundle :: "(string \<Rightarrow> int option) \<Rightarrow> json \<Rightarrow> key_bundle option" where
  "decode_bundle int_of_str prekey =
     Option.bind (Option.bind (py_item prekey ''registration_id'') (py_int int_of_str)) (\<lambda>r.
     Option.bind (Option.bind (py_item prekey ''identity'') b64decode_json) (\<lambda>i.
     Option.bind (Option.bind (py_item prekey ''signed_prekey'') b64decode_json) (\<lambda>sp.
     Option.bind (Option.bind (py_item prekey ''signed_prekey_sig'') b64decode_json) (\<lambda>sg.
     Option.bind (Option.bind (py_item prekey ''one_time_prekey'') b64decode_json) (\<lambda>ot.
       Some \<lparr>registration_id = r, identity = i, signed_prekey = sp,
             signed_prekey_sig = sg, one_time_prekey = ot\<rparr>)))))"

text \<open>
  The dict built from a stored member \<open>b\<close> in the \<open>others\<close> loop and in
  \<open>get_prekey\<close>: \<open>b['registration_id']\<close> as it is and the four other fields through
  \<open>b64encode\<close>, in this order. A missing field raises \<open>KeyError\<close>, a field that is
  not bytes \<open>TypeError\<close>.
\<close>

definition b64_field :: "(string \<times> bson) list \<Rightarrow> string \<Rightarrow> py_error + string" where
  "b64_field d k =
     (case map_of d k of
        None \<Rightarrow> Inl KeyError
      | Some (BBytes x) \<Rightarrow> Inr (b64encode x)
      | Some _ \<Rightarrow> Inl TypeError)"

fun encode_member :: "bson \<Rightarrow> py_error + wire_bundle" where
  "encode_member (BDoc d) =
     (case map_of d ''registration_id'' of
        None \<Rightarrow> Inl KeyError
      | Some r \<Rightarrow>
     (case b64_field d ''identity'' of Inl e \<Rightarrow> Inl e | Inr i \<Rightarrow>
     (case b64_field d ''signed_prekey'' of Inl e \<Rightarrow> Inl e | Inr sp \<Rightarrow>
     (case b64_field d ''signed_prekey_sig'' of Inl e \<Rightarrow> Inl e | Inr sg \<Rightarrow>
     (case b64_field d ''one_time_prekey'' of Inl e \<Rightarrow> Inl e | Inr ot \<Rightarrow>
        Inr \<lparr>w_registration_id = r, w_identity = i, w_signed_prekey = sp,
             w_signed_prekey_sig = sg, w_one_time_prekey = ot\<rparr>)))))"
| "encode_member _ = Inl TypeError"

subsection \<open>Sending to a list of sockets\<close>

text \<open>
  \<open>for ws in ...values(): await ws.send_json(data)\<close> with no \<open>try\<close> around the
  send: the first send that raises ends the loop. \<open>fails\<close> says which sockets raise.
  The result is whether the loop ran to its end, and the frames delivered, in order.
\<close>

fun send_all :: "(ws \<Rightarrow> bool) \<Rightarrow> json \<Rightarrow> ws list \<Rightarrow> bool \<times> (ws \<times> json) list" where
  "send_all fails data [] = (True, [])"
| "send_all fails data (w # wss) =
     (if fails w then (False, [])
      else (let (ok, sent) = send_all fails data wss in (ok, (w, data) # sent)))"

subsection \<open>The HTTP handlers\<close>

text \<open>
  A handler returns its value, raises \<open>HTTPException\<close> (status code and detail), or
  leaves another exception uncaught (a 500 for the client).
\<close>

datatype 'a outcome = Returned 'a | HTTPException nat string | Raised py_error

record join_response =
  member_token :: string
  others :: "(string \<times> wire_bundle) list"
  r_admin_user_id :: json

definition join_notification :: "json \<Rightarrow> json" where
  "join_notification user_id =
     JObj [(''type'', JStr ''join_notification''), (''user_id'', user_id)]"

text \<open>
  The checks of \<open>join_server\<close> between the lookup of the room and the store update
  (from \<open>body.get('join_token')\<close> to the end of the \<open>try\<close> block), on the decoded
  body: they end in an answer, or hand on the \<open>user_id\<close> as it came and the decoded
  bundle. \<open>body.get\<close> raises on a body that is no object. The stored join token is a
  string, so a presented value equals it only as that string.
\<close>

definition join_checks ::
  "(string \<Rightarrow> int option) \<Rightarrow> json \<Rightarrow> server_doc \<Rightarrow> (json \<times> key_bundle) outcome" where
  "join_checks int_of_str body server =
     (case py_get body ''join_token'' of
        Inl e \<Rightarrow> Raised e
      | Inr presented \<Rightarrow>
          if presented \<noteq> JStr (join_token server)
          then HTTPException 401 ''Invalid join token''
          else
            (case py_get body ''user_id'' of
               Inl e \<Rightarrow> Raised e
             | Inr user_id \<Rightarrow>
                 if \<not> py_truthy user_id then HTTPException 400 ''Missing user_id''
                 else
                   (case py_get body ''prekey_bundle'' of
                      Inl e \<Rightarrow> Raised e
                    | Inr prekey \<Rightarrow>
                        if \<not> py_truthy prekey
                        then HTTPException 400 ''Missing prekey_bundle''
                        else
                          (case decode_bundle int_of_str prekey of
                             None \<Rightarrow> HTTPException 400 ''Invalid prekey format''
                           | Some bundle \<Rightarrow> Returned (user_id, bundle)))))"

text \<open>
  The first \<open>update_one\<close>, on the room document: \<open>key\<close> is the text that the
  f-string puts behind \<open>members.\<close>, that is \<open>str(user_id)\<close>. The driver encodes the
  update first (the key, the bundle, then the \<open>admin_user_id\<close> when the room had
  none) and raises on what it cannot encode; then the database applies both settings
  or refuses both.
\<close>

definition servers_update ::
  "string \<Rightarrow> json \<Rightarrow> key_bundle \<Rightarrow> server_doc \<Rightarrow> py_error + server_doc" where
  "servers_update key user_id bundle server =
     (if has_nul key then Inl InvalidDocument
      else if \<not> int64_ok (registration_id bundle) then Inl OverflowError
      else
        (case (if admin_user_id server = JNull then bson_error user_id else None) of
           Some e \<Rightarrow> Inl e
         | None \<Rightarrow>
             (case mongo_set key (bundle_doc bundle) (members server) of
                None \<Rightarrow> Inl WriteError
              | Some ms \<Rightarrow>
                  Inr (server\<lparr>members := ms,
                              admin_user_id :=
                                (if admin_user_id server = JNull then user_id
                                 else admin_user_id server)\<rparr>))))"

text \<open>
  The second \<open>update_one\<close>, on the token document, which may be missing: then
  nothing is written.
\<close>

definition member_tokens_update ::
  "string \<Rightarrow> string \<Rightarrow> tokens_doc option \<Rightarrow> py_error + tokens_doc option" where
  "member_tokens_update key new_token td =
     (if has_nul key then Inl InvalidDocument
      else if \<not> list_all valid_field (split_dots key) then Inl WriteError
      else
        (case td of
           None \<Rightarrow> Inr None
         | Some d \<Rightarrow>
             (case mongo_set key (BStr new_token) (tokens d) of
                None \<Rightarrow> Inl WriteError
              | Some ts \<Rightarrow> Inr (Some (d\<lparr>tokens := ts\<rparr>)))))"

text \<open>
  The \<open>others\<close> loop over the refreshed \<open>members\<close>: \<open>u != user_id\<close> compares a key,
  which is a string, with the \<open>user_id\<close> of the request, whatever that is.
\<close>

fun others_of :: "json \<Rightarrow> (string \<times> bson) list \<Rightarrow> py_error + (string \<times> wire_bundle) list" where
  "others_of user_id [] = Inr []"
| "others_of user_id ((u, b) # ms) =
     (if JStr u \<noteq> user_id then
        (case encode_member b of
           Inl e \<Rightarrow> Inl e
         | Inr w \<Rightarrow>
             (case others_of user_id ms of
                Inl e \<Rightarrow> Inl e
              | Inr os \<Rightarrow> Inr ((u, w) # os)))
      else others_of user_id ms)"

text \<open>
  \<open>join_server\<close>. The body is \<open>None\<close> when the request carries no JSON
  (\<open>request.json()\<close> raises); \<open>new_token\<close> is the fresh uuid. The result is the
  outcome, the state, and the notifications delivered.
\<close>

definition join_server ::
  "(ws \<Rightarrow> bool) \<Rightarrow> (real \<Rightarrow> string) \<Rightarrow> (string \<Rightarrow> int option) \<Rightarrow> string \<Rightarrow> int \<Rightarrow> string
     \<Rightarrow> json option \<Rightarrow> state \<Rightarrow> join_response outcome \<times> state \<times> (ws \<times> json) list" where
  "join_server fails float_repr int_of_str new_token now server_id request_json s =
     (let s1 = update_activity server_id now s in
      case request_json of
        None \<Rightarrow> (Raised JSONDecodeError, s1, [])
      | Some body \<Rightarrow>
     (case servers_col s1 server_id of
        None \<Rightarrow> (HTTPException 404 ''Server not found'', s1, [])
      | Some server \<Rightarrow>
     (case join_checks int_of_str body server of
        HTTPException code detail \<Rightarrow> (HTTPException code detail, s1, [])
      | Raised e \<Rightarrow> (Raised e, s1, [])
      | Returned (user_id, bundle) \<Rightarrow>
     (case servers_update (py_str float_repr user_id) user_id bundle server of
        Inl e \<Rightarrow> (Raised e, s1, [])
      | Inr server' \<Rightarrow>
     (let s2 = s1\<lparr>servers_col := (servers_col s1)(server_id \<mapsto> server')\<rparr> in
      case member_tokens_update (py_str float_repr user_id) new_token (member_tokens_col s2 server_id) of
        Inl e \<Rightarrow> (Raised e, s2, [])
      | Inr td' \<Rightarrow>
     (let s3 = s2\<lparr>member_tokens_col := (member_tokens_col s2)(server_id := td')\<rparr> in
      case others_of user_id (members server') of
        Inl e \<Rightarrow> (Raised e, s3, [])
      | Inr os \<Rightarrow>
          (let response =
                 \<lparr>member_token = new_token, others = os,
                  r_admin_user_id = admin_user_id server'\<rparr>;
               (ok, sent) =
                 (case connected s3 server_id of
                    None \<Rightarrow> (True, [])
                  | Some d \<Rightarrow> send_all fails (join_notification user_id) (map snd d))
           in if ok then (Returned response, s3, sent)
              else (Raised SendError, s3, sent))))))))"

definition get_prekey ::
  "int \<Rightarrow> string \<Rightarrow> string \<Rightarrow> state \<Rightarrow> wire_bundle outcome \<times> state" where
  "get_prekey now server_id user_id s =
     (let s1 = update_activity server_id now s in
      case servers_col s1 server_id of
        None \<Rightarrow> (HTTPException 404 ''Not found'', s1)
      | Some server \<Rightarrow>
          (case map_of (members server) user_id of
             None \<Rightarrow> (HTTPException 404 ''Not found'', s1)
           | Some b \<Rightarrow>
               (case encode_member b of
                  Inl e \<Rightarrow> (Raised e, s1)
                | Inr w \<Rightarrow> (Returned w, s1))))"



subsection \<open>The WebSocket endpoint\<close>

text \<open>
  The handler in three parts: everything up to the registration in \<open>connected\<close>
  (\<open>ws_connect\<close>), one turn of the receive loop (\<open>handle_frame\<close>), and the
  \<open>finally\<close> block (\<open>ws_teardown\<close>).
\<close>

datatype connect_result = Closed nat | Accepted string

text \<open>
  The token search: the first user whose stored token equals the presented one, which
  is a string.
\<close>

fun find_user :: "(string \<times> bson) list \<Rightarrow> string \<Rightarrow> string option" where
  "find_user [] tok = None"
| "find_user ((u, t) # kvs) tok = (if t = BStr tok then Some u else find_user kvs tok)"

definition registry_put :: "string \<Rightarrow> string \<Rightarrow> ws \<Rightarrow> state \<Rightarrow> state" where
  "registry_put server_id user_id w s =
     s\<lparr>connected := (connected s)(server_id \<mapsto>
          dict_set user_id w (case connected s server_id of None \<Rightarrow> [] | Some d \<Rightarrow> d))\<rparr>"

definition ws_connect ::
  "ws \<Rightarrow> int \<Rightarrow> string \<Rightarrow> string \<Rightarrow> string \<Rightarrow> state \<Rightarrow> connect_result \<times> state" where
  "ws_connect w now server_id token ip s =
     (let s1 = update_activity server_id now s in
      case servers_col s1 server_id of
        None \<Rightarrow> (Closed 1008, s1)
      | Some server \<Rightarrow>
          (case (case member_tokens_col s1 server_id of
                   None \<Rightarrow> None
                 | Some td \<Rightarrow> find_user (tokens td) token) of
             None \<Rightarrow> (Closed 1008, s1)
           | Some user_id \<Rightarrow>
               (let (ok, ipc) = try_admit ip (ip_connections s1) in
                if \<not> ok then (Closed 1013, s1\<lparr>ip_connections := ipc\<rparr>)
                else (Accepted user_id,
                      registry_put server_id user_id w (s1\<lparr>ip_connections := ipc\<rparr>)))))"

text \<open>
  The first two lines of the \<open>finally\<close> block: the entry of the user is deleted when
  the user has one. The handler's own socket is not looked at.
\<close>

definition registry_remove :: "string \<Rightarrow> string \<Rightarrow> state \<Rightarrow> state" where
  "registry_remove server_id user_id s =
     (case connected s server_id of
        None \<Rightarrow> s
      | Some d \<Rightarrow>
          if map_of d user_id \<noteq> None
          then s\<lparr>connected := (connected s)(server_id \<mapsto> dict_del user_id d)\<rparr>
          else s)"

text \<open>Which socket the registry holds for a user of a room.\<close>

definition registry_get :: "state \<Rightarrow> string \<Rightarrow> string \<Rightarrow> ws option" where
  "registry_get s server_id user_id =
     (case connected s server_id of None \<Rightarrow> None | Some d \<Rightarrow> map_of d user_id)"

definition ws_teardown :: "string \<Rightarrow> string \<Rightarrow> string \<Rightarrow> state \<Rightarrow> py_error option \<times> state" where
  "ws_teardown server_id user_id ip s =
     (let s1 = registry_remove server_id user_id s in
      case release ip (ip_connections s1) of
        Inl e \<Rightarrow> (Some e, s1)
      | Inr ipc \<Rightarrow> (None, s1\<lparr>ip_connections := ipc\<rparr>))"

text \<open>
  \<open>connected[server_id][to_user]\<close> once \<open>to_user in connected[server_id]\<close> was true.
\<close>

fun py_lookup :: "json \<Rightarrow> (string \<times> 'v) list \<Rightarrow> 'v option" where
  "py_lookup (JStr k) d = map_of d k"
| "py_lookup _ d = None"

text \<open>
  The routing part of a loop turn (from \<open>msg_type = data.get('type')\<close> on). The result
  is \<open>None\<close> when the turn ends normally and the loop goes on, or the exception that
  leaves the loop, together with the frames delivered.
\<close>

definition dispatch ::
  "(ws \<Rightarrow> bool) \<Rightarrow> string \<Rightarrow> json \<Rightarrow> state \<Rightarrow> py_error option \<times> (ws \<times> json) list" where
  "dispatch fails server_id data s =
     (case py_get data ''type'' of
        Inl e \<Rightarrow> (Some e, [])
      | Inr msg_type \<Rightarrow>
          if msg_type = JStr ''private'' then
            (case py_get data ''to'' of
               Inl e \<Rightarrow> (Some e, [])
             | Inr to_user \<Rightarrow>
                 if \<not> py_truthy to_user then (None, [])
                 else
                   (case connected s server_id of
                      None \<Rightarrow> (None, [])
                    | Some d \<Rightarrow>
                        (case py_in to_user d of
                           Inl e \<Rightarrow> (Some e, [])
                         | Inr False \<Rightarrow> (None, [])
                         | Inr True \<Rightarrow>
                             (case py_lookup to_user d of
                                None \<Rightarrow> (Some KeyError, [])
                              | Some w \<Rightarrow>
                                  if fails w then (Some SendError, [])
                                  else (None, [(w, data)])))))
          else if msg_type = JStr ''group'' \<or> msg_type = JStr ''join_notification'' then
            (case connected s server_id of
               None \<Rightarrow> (Some KeyError, [])
             | Some d \<Rightarrow>
                 (let (ok, sent) = send_all fails data (map snd d)
                  in (if ok then None else Some SendError, sent)))
          else (None, []))"

text \<open>
  One turn of the loop on a received \<open>data\<close>: \<open>now\<close> is \<open>time.time()\<close> and \<open>utc\<close>
  is the \<open>utcnow()\<close> of \<open>update_activity\<close>. The size test is on the number of
  characters of \<open>str(data)\<close>.
\<close>

definition handle_frame ::
  "(ws \<Rightarrow> bool) \<Rightarrow> (real \<Rightarrow> string) \<Rightarrow> real \<Rightarrow> int \<Rightarrow> string \<Rightarrow> string \<Rightarrow> string \<Rightarrow> json
     \<Rightarrow> state \<Rightarrow> py_error option \<times> state \<times> (ws \<times> json) list" where
  "handle_frame fails float_repr now utc server_id user_id ip data s =
     (if length (py_str float_repr data) > SIZE_LIMIT then (None, s, [])
      else
        (let (limited, rl1) = is_rate_limited user_id now (rate_limits s);
             s1 = s\<lparr>rate_limits := rl1\<rparr>
         in if limited then (None, s1, [])
            else
              (let (limited', rl2) = is_rate_limited ip now (rate_limits s1);
                   s2 = s1\<lparr>rate_limits := rl2\<rparr>
               in if limited' then (None, s2, [])
                  else
                    (let s3 = update_activity server_id utc s2;
                         (err, sent) = dispatch fails server_id data s3
                     in (err, s3, sent)))))"

text \<open>
  The loop over the frames a client sends, each with its two clock readings. When the
  frames are used up the client has gone: \<open>receive_json\<close> raises
  \<open>WebSocketDisconnect\<close>, which the handler catches. Any exception ends the loop.
\<close>

fun ws_loop ::
  "(ws \<Rightarrow> bool) \<Rightarrow> (real \<Rightarrow> string) \<Rightarrow> string \<Rightarrow> string \<Rightarrow> string \<Rightarrow> (json \<times> real \<times> int) list
     \<Rightarrow> state \<Rightarrow> py_error option \<times> state \<times> (ws \<times> json) list" where
  "ws_loop fails float_repr server_id user_id ip [] s = (None, s, [])"
| "ws_loop fails float_repr server_id user_id ip ((data, now, utc) # frames) s =
     (let (err, s', sent) = handle_frame fails float_repr now utc server_id user_id ip data s
      in if err \<noteq> None then (err, s', sent)
         else (let (err', s'', sent') = ws_loop fails float_repr server_id user_id ip frames s'
               in (err', s'', sent @ sent')))"

text \<open>The whole handler for a client that sends the given frames and then leaves.\<close>

definition websocket_endpoint ::
  "(ws \<Rightarrow> bool) \<Rightarrow> (real \<Rightarrow> string) \<Rightarrow> ws \<Rightarrow> int \<Rightarrow> string \<Rightarrow> string \<Rightarrow> string
     \<Rightarrow> (json \<times> real \<times> int) list \<Rightarrow> state \<Rightarrow> connect_result \<times> state \<times> (ws \<times> json) list" where
  "websocket_endpoint fails float_repr w now server_id token ip frames s =
     (case ws_connect w now server_id token ip s of
        (Closed code, s1) \<Rightarrow> (Closed code, s1, [])
      | (Accepted user_id, s1) \<Rightarrow>
          (let (err, s2, sent) = ws_loop fails float_repr server_id user_id ip frames s1;
               (err', s3) = ws_teardown server_id user_id ip s2
           in (Accepted user_id, s3, sent)))"

text \<open>
  Connection attempts one after the other, each on its own socket, none of the
  connections ending in between.
\<close>

record connect_call =
  cc_ws :: ws
  cc_now :: int
  cc_server_id :: string
  cc_token :: string
  cc_ip :: string

fun connect_all :: "connect_call list \<Rightarrow> state \<Rightarrow> connect_result list \<times> state" where
  "connect_all [] s = ([], s)"
| "connect_all (c # cs) s =
     (let (r, s') = ws_connect (cc_ws c) (cc_now c) (cc_server_id c) (cc_token c) (cc_ip c) s;
          (rs, s'') = connect_all cs s'
      in (r # rs, s''))"

subsection \<open>A small room to run the handlers on\<close>

text \<open>
  A room whose creator alice has joined, with nobody connected yet, and the same room
  after alice has connected on socket 1 and then again on socket 2 from the same address
  (the first handler still being in its loop).
\<close>

definition demo_bundle :: key_bundle where
  "demo_bundle =
     \<lparr>registration_id = 7, identity = [1, 2, 3], signed_prekey = [4],
      signed_prekey_sig = [5, 6], one_time_prekey = []\<rparr>"

definition demo_state :: state where
  "demo_state =
     \<lparr>servers_col = [''room'' \<mapsto>
        \<lparr>join_token = ''secret'', admin_user_id = JStr ''alice'',
         members = [(''alice'', bundle_doc demo_bundle)], created_at = 0, last_activity = 0\<rparr>],
      member_tokens_col = [''room'' \<mapsto>
        \<lparr>tokens = [(''alice'', BStr ''tok-a'')], t_created_at = 0, t_last_activity = 0\<rparr>],
      connected = [''room'' \<mapsto> []],
      rate_limits = Map.empty,
      ip_connections = Map.empty\<rparr>"

definition demo_reconnected :: state where
  "demo_reconnected =
     snd (ws_connect 2 20 ''room'' ''tok-a'' ''10.0.0.1''
       (snd (ws_connect 1 10 ''room'' ''tok-a'' ''10.0.0.1'' demo_state)))"

text \<open>
  The room with alice on socket 1 and bob on socket 2, and a well-formed join request
  of carol, whose four binary fields are the base64 text of \<open>demo_bundle\<close>'s.
\<close>

definition demo_two_online :: state where
  "demo_two_online =
     \<lparr>servers_col = [''room'' \<mapsto>
        \<lparr>join_token = ''secret'', admin_user_id = JStr ''alice'',
         members = [(''alice'', bundle_doc demo_bundle), (''bob'', bundle_doc demo_bundle)],
         created_at = 0, last_activity = 0\<rparr>],
      member_tokens_col = [''room'' \<mapsto>
        \<lparr>tokens = [(''alice'', BStr ''tok-a''), (''bob'', BStr ''tok-b'')],
         t_created_at = 0, t_last_activity = 0\<rparr>],
      connected = [''room'' \<mapsto> [(''alice'', 1), (''bob'', 2)]],
      rate_limits = Map.empty,
      ip_connections = [''10.0.0.1'' \<mapsto> 2]\<rparr>"

text \<open>
  The room after the handler of alice's first socket has ended while the second one is
  still in its loop.
\<close>

definition demo_evicted :: state where
  "demo_evicted = snd (ws_teardown ''room'' ''alice'' ''10.0.0.1'' demo_reconnected)"

text \<open>The same room when the address of alice and bob holds five connections.\<close>

definition demo_full :: state where
  "demo_full = demo_two_online\<lparr>ip_connections := [''10.0.0.1'' \<mapsto> 5]\<rparr>"

definition demo_prekey :: json where
  "demo_prekey =
     JObj [(''registration_id'', JInt 7), (''identity'', JStr ''AQID''),
           (''signed_prekey'', JStr ''BA==''), (''signed_prekey_sig'', JStr ''BQY=''),
           (''one_time_prekey'', JStr [])]"


definition join_body :: "string \<Rightarrow> json \<Rightarrow> json \<Rightarrow> json" where
  "join_body presented user_id prekey =
     JObj [(''join_token'', JStr presented), (''user_id'', user_id),
           (''prekey_bundle'', prekey)]"

definition demo_join :: json where
  "demo_join = join_body ''secret'' (JStr ''carol'') demo_prekey"

text \<open>
  Arguments for the runs: \<open>only_fails w0\<close> is the world in which the peer of socket
  \<open>w0\<close> has vanished and every other socket takes a frame; \<open>no_int_of_str\<close> parses
  no string as a number; \<open>whole_float_repr\<close> writes a float that is a whole number
  (the requests below hold no other).
\<close>

definition only_fails :: "ws \<Rightarrow> ws \<Rightarrow> bool" where
  "only_fails w0 w = (w = w0)"

definition no_int_of_str :: "string \<Rightarrow> int option" where
  "no_int_of_str s = None"

definition whole_float_repr :: "real \<Rightarrow> string" where
  "whole_float_repr r = py_int_str \<lfloor>r\<rfloor> @ ''.0''"

definition demo_group :: json where
  "demo_group = JObj [(''type'', JStr ''group''), (''text'', JStr ''hi'')]"

text \<open>
  Two long group frames: one whose text is 5000 letters, and one whose text is 2100
  double quotes, each of which takes two bytes in any JSON text and one character
  under \<open>str\<close>.
\<close>

definition demo_long :: json where
  "demo_long = JObj [(''type'', JStr ''group''), (''text'', JStr (replicate 5000 (CHR ''x'')))]"

definition demo_quotes :: json where
  "demo_quotes = JObj [(''type'', JStr ''group''), (''text'', JStr (replicate 2100 (CHR 34)))]"

text \<open>
  Private frames: one for bob, one whose \<open>to\<close> is a list, one whose \<open>to\<close> is a
  number, one for nobody known; and a frame of a type the relay does not know.
\<close>

definition demo_private :: json where
  "demo_private = JObj [(''type'', JStr ''private''), (''to'', JStr ''bob''), (''text'', JStr ''psst'')]"

definition demo_private_list :: json where
  "demo_private_list = JObj [(''type'', JStr ''private''), (''to'', JArr [JInt 1])]"

definition demo_private_number :: json where
  "demo_private_number = JObj [(''type'', JStr ''private''), (''to'', JInt 7)]"

definition demo_private_absent :: json where
  "demo_private_absent = JObj [(''type'', JStr ''private''), (''to'', JStr ''zoe'')]"

definition demo_typing :: json where
  "demo_typing = JObj [(''type'', JStr ''typing'')]"

text \<open>
  The start of a process with nothing stored, the room created from it, and runs of
  joins into that room: mallory with a guessed join token, then carol, then dave; and a
  join under the id \<open>a.b\<close> followed by one under the id \<open>a\<close>.
\<close>

definition demo_empty :: state where
  "demo_empty =
     \<lparr>servers_col = Map.empty, member_tokens_col = Map.empty, connected = Map.empty,
      rate_limits = Map.empty, ip_connections = Map.empty\<rparr>"





text \<open>Six connection attempts with alice's token from one address, on sockets 1 to 6.\<close>

definition demo_connect :: "ws \<Rightarrow> connect_call" where
  "demo_connect w =
     \<lparr>cc_ws = w, cc_now = 10, cc_server_id = ''room'', cc_token = ''tok-a'',
      cc_ip = ''10.0.0.1''\<rparr>"

definition demo_connects :: "connect_call list" where
  "demo_connects = map demo_connect [1, 2, 3, 4, 5, 6]"

subsection \<open>Notions used in the properties\<close>

text \<open>
  A user id that is one field name for the database: not empty, without a dot and a
  NUL character, and not starting with a dollar sign. And a \<open>members\<close> sub-document
  all of whose entries the \<open>others\<close> loop can encode.
\<close>

definition plain_id :: "string \<Rightarrow> bool" where
  "plain_id uid =
     (uid \<noteq> [] \<and> CHR ''.'' \<notin> set uid \<and> hd uid \<noteq> CHR ''$'' \<and> \<not> has_nul uid)"

fun is_Inr :: "'a + 'b \<Rightarrow> bool" where
  "is_Inr (Inr x) = True"
| "is_Inr (Inl e) = False"

definition encodable :: "(string \<times> bson) list \<Rightarrow> bool" where
  "encodable ms = list_all (\<lambda>(u, v). is_Inr (encode_member v)) ms"

text \<open>Writing a room document and a token document (or none) into the state.\<close>

definition put_server :: "string \<Rightarrow> server_doc \<Rightarrow> state \<Rightarrow> state" where
  "put_server server_id d s = s\<lparr>servers_col := (servers_col s)(server_id \<mapsto> d)\<rparr>"

definition put_tokens :: "string \<Rightarrow> tokens_doc option \<Rightarrow> state \<Rightarrow> state" where
  "put_tokens server_id td s = s\<lparr>member_tokens_col := (member_tokens_col s)(server_id := td)\<rparr>"

text \<open>What the store holds for a user of a room: the member entry and the token.\<close>

definition member_of :: "state \<Rightarrow> string \<Rightarrow> string \<Rightarrow> bson option" where
  "member_of s server_id user_id =
     (case servers_col s server_id of None \<Rightarrow> None | Some d \<Rightarrow> map_of (members d) user_id)"

definition token_of :: "state \<Rightarrow> string \<Rightarrow> string \<Rightarrow> bson option" where
  "token_of s server_id user_id =
     (case member_tokens_col s server_id of None \<Rightarrow> None | Some d \<Rightarrow> map_of (tokens d) user_id)"


text \<open>
  Reading the admin of a room. Whether a join request gets as far as having its update
  of the room document carried out, and then under which \<open>user_id\<close>. The first
  request of a run that does so for a given room.
\<close>

definition admin_of :: "state \<Rightarrow> string \<Rightarrow> json option" where
  "admin_of s server_id = map_option admin_user_id (servers_col s server_id)"

definition join_stored ::
  "(real \<Rightarrow> string) \<Rightarrow> (string \<Rightarrow> int option) \<Rightarrow> string \<Rightarrow> json option \<Rightarrow> state \<Rightarrow> json option" where
  "join_stored float_repr int_of_str server_id request_json s =
     (case request_json of
        None \<Rightarrow> None
      | Some body \<Rightarrow>
          (case servers_col s server_id of
             None \<Rightarrow> None
           | Some server \<Rightarrow>
               (case join_checks int_of_str body server of
                  Returned (user_id, bundle) \<Rightarrow>
                    (case servers_update (py_str float_repr user_id) user_id bundle server of
                       Inl e \<Rightarrow> None
                     | Inr server' \<Rightarrow> Some user_id)
                | _ \<Rightarrow> None)))"



fun is_returned :: "'a outcome \<Rightarrow> bool" where
  "is_returned (Returned r) = True"
| "is_returned _ = False"

section \<open>Properties\<close>

subsection \<open>Dictionaries, stamps and sends\<close>

lemma map_of_dict_set: "map_of (dict_set k v d) k' = (if k' = k then Some v else map_of d k')"
  by (induction d) auto

lemma map_of_dict_set_same: "map_of (dict_set k v d) k = Some v"
  by (simp add: map_of_dict_set)

lemma map_of_dict_del: "map_of (dict_del k d) k' = (if k' = k then None else map_of d k')"
  by (induction d) auto

lemma servers_col_update_activity:
  "servers_col (update_activity sid now s) sid' =
     (if sid' = sid then map_option (\<lambda>d. d\<lparr>last_activity := now\<rparr>) (servers_col s sid)
      else servers_col s sid')"
  by (simp add: update_activity_def split: option.splits)

lemma member_tokens_col_update_activity:
  "member_tokens_col (update_activity sid now s) sid' =
     (if sid' = sid then map_option (\<lambda>d. d\<lparr>t_last_activity := now\<rparr>) (member_tokens_col s sid)
      else member_tokens_col s sid')"
  by (simp add: update_activity_def split: option.splits)

lemma runtime_update_activity:
  "connected (update_activity sid now s) = connected s"
  "rate_limits (update_activity sid now s) = rate_limits s"
  "ip_connections (update_activity sid now s) = ip_connections s"
  by (simp_all add: update_activity_def)

lemma send_all_prefix:
  "send_all fails data wss =
     (\<not> list_ex fails wss, map (\<lambda>w. (w, data)) (takeWhile (\<lambda>w. \<not> fails w) wss))"
  by (induction wss) auto

lemma send_all_ok:
  "\<not> list_ex fails wss \<Longrightarrow> send_all fails data wss = (True, map (\<lambda>w. (w, data)) wss)"
  by (induction wss) auto

lemma send_all_targets:
  "set (snd (send_all fails data wss)) \<subseteq> (\<lambda>w. (w, data)) ` set wss"
  by (induction wss) (auto simp: split_beta)

subsection \<open>Rate limiter\<close>


lemma filter_window_all:
  "\<forall>t\<in>set ms. now - t < WINDOW_SEC \<Longrightarrow> filter (\<lambda>t. now - t < WINDOW_SEC) ms = ms"
  by (induction ms) auto

lemma is_rate_limited_accept:
  assumes "rl key = Some ms" "\<forall>t\<in>set ms. now - t < WINDOW_SEC" "length ms < MESSAGE_LIMIT"
  shows "is_rate_limited key now rl = (False, rl(key \<mapsto> ms @ [now]))"
  using assms by (simp add: is_rate_limited_def filter_window_all)

lemma is_rate_limited_fresh:
  assumes "rl key = None"
  shows "is_rate_limited key now rl = (False, rl(key \<mapsto> [now]))"
  using assms by (simp add: is_rate_limited_def MESSAGE_LIMIT_def)

lemma rate_checks_window:
  assumes "rl key = Some ms" "sorted (ms @ ts)" "ms \<noteq> []"
    "\<forall>t\<in>set ts. t - hd ms < WINDOW_SEC" "length ms + length ts \<le> MESSAGE_LIMIT"
  shows "rate_checks key ts rl = (replicate (length ts) False, rl(key \<mapsto> ms @ ts))"
  using assms
proof (induction ts arbitrary: ms rl)
  case Nil
  then show ?case by (simp add: fun_upd_idem)
next
  case (Cons t ts)
  have hd_le: "\<forall>m\<in>set ms. hd ms \<le> m"
    using Cons.prems(2,3) by (cases ms) (auto simp: sorted_append)
  have "\<forall>m\<in>set ms. t - m < WINDOW_SEC"
  proof
    fix m assume "m \<in> set ms"
    with hd_le have "hd ms \<le> m" by blast
    moreover have "t - hd ms < WINDOW_SEC" using Cons.prems(4) by simp
    ultimately show "t - m < WINDOW_SEC" by linarith
  qed
  moreover have "length ms < MESSAGE_LIMIT" using Cons.prems(5) by simp
  ultimately have step: "is_rate_limited key t rl = (False, rl(key \<mapsto> ms @ [t]))"
    using Cons.prems(1) by (rule_tac is_rate_limited_accept) auto
  have "rate_checks key ts (rl(key \<mapsto> ms @ [t])) =
          (replicate (length ts) False, (rl(key \<mapsto> ms @ [t]))(key \<mapsto> (ms @ [t]) @ ts))"
  proof (rule Cons.IH)
    show "(rl(key \<mapsto> ms @ [t])) key = Some (ms @ [t])" by simp
    show "sorted ((ms @ [t]) @ ts)" using Cons.prems(2) by simp
    show "ms @ [t] \<noteq> []" by simp
    show "\<forall>t'\<in>set ts. t' - hd (ms @ [t]) < WINDOW_SEC" using Cons.prems(3,4) by simp
    show "length (ms @ [t]) + length ts \<le> MESSAGE_LIMIT" using Cons.prems(5) by simp
  qed
  with step show ?case by (simp add: fun_eq_iff)
qed

lemma rate_checks_fresh:
  assumes "rl key = None" "sorted ts" "ts \<noteq> []" "last ts - hd ts < WINDOW_SEC"
    "length ts \<le> MESSAGE_LIMIT"
  shows "rate_checks key ts rl = (replicate (length ts) False, rl(key \<mapsto> ts))"
proof -
  obtain t ts' where ts: "ts = t # ts'" using assms(3) by (cases ts) auto
  have le_last: "\<forall>x\<in>set ts'. x \<le> last ts"
    using assms(2) ts by (auto simp: sorted_iff_nth_mono last_conv_nth in_set_conv_nth)
  have bound: "\<forall>x\<in>set ts'. x - hd [t] < WINDOW_SEC"
  proof
    fix x assume "x \<in> set ts'"
    with le_last have "x \<le> last ts" by blast
    with assms(4) ts show "x - hd [t] < WINDOW_SEC" by simp
  qed
  have "rate_checks key ts' (rl(key \<mapsto> [t])) =
          (replicate (length ts') False, (rl(key \<mapsto> [t]))(key \<mapsto> [t] @ ts'))"
    by (rule rate_checks_window) (use assms ts bound in auto)
  then show ?thesis
    using ts assms(1) is_rate_limited_fresh [of rl key t] by (simp add: fun_eq_iff)
qed

lemma sorted_hd_le: "sorted ts \<Longrightarrow> t \<in> set ts \<Longrightarrow> hd ts \<le> (t::real)"
  by (cases ts) auto

lemma is_rate_limited_full:
  assumes "length ts = MESSAGE_LIMIT" "sorted ts" "now - hd ts < WINDOW_SEC"
  shows "is_rate_limited key now (rl(key \<mapsto> ts)) = (True, rl(key \<mapsto> ts))"
proof -
  have "\<forall>t\<in>set ts. now - t < WINDOW_SEC"
  proof
    fix t assume "t \<in> set ts"
    then have "hd ts \<le> t" using assms(2) by (rule_tac sorted_hd_le)
    with assms(3) show "now - t < WINDOW_SEC" by linarith
  qed
  then have "filter (\<lambda>t. now - t < WINDOW_SEC) ts = ts" by (rule filter_window_all)
  with assms(1) show ?thesis by (simp add: is_rate_limited_def)
qed

lemma is_rate_limited_after_window:
  assumes "length ts = MESSAGE_LIMIT" "WINDOW_SEC < now - hd ts"
  shows "\<not> fst (is_rate_limited key now (rl(key \<mapsto> ts)))"
proof -
  have "ts \<noteq> []" using assms(1) by (auto simp: MESSAGE_LIMIT_def)
  then have "hd ts \<in> set ts" by simp
  moreover have "\<not> now - hd ts < WINDOW_SEC" using assms(2) by simp
  ultimately have "length (filter (\<lambda>t. now - t < WINDOW_SEC) ts) < length ts"
    by (rule length_filter_less)
  with assms(1) show ?thesis by (simp add: is_rate_limited_def)
qed

text \<open>
  Claim C3. A check of a key at time \<open>now\<close> first drops every recorded timestamp of
  age \<open>WINDOW_SEC\<close> or more; with \<open>MESSAGE_LIMIT\<close> or more left it answers "limited"
  and stores only the purged list; otherwise it appends \<open>now\<close> and answers "allowed".
  So ten events inside one window on a fresh key are all allowed, an eleventh check
  while the first event is younger than the window is refused and records nothing, and
  a check more than \<open>WINDOW_SEC\<close> after the first event is allowed again.
\<close>

theorem rate_limiter_window:
  "is_rate_limited key now rl =
     (let kept = filter (\<lambda>t. \<not> WINDOW_SEC \<le> now - t) (case rl key of None \<Rightarrow> [] | Some m \<Rightarrow> m)
      in if MESSAGE_LIMIT \<le> length kept then (True, rl(key \<mapsto> kept))
         else (False, rl(key \<mapsto> kept @ [now])))
   \<and> (rl key = None \<and> length ts = MESSAGE_LIMIT \<and> sorted ts \<and> last ts - hd ts < WINDOW_SEC \<longrightarrow>
        rate_checks key ts rl = (replicate MESSAGE_LIMIT False, rl(key \<mapsto> ts))
        \<and> (\<forall>t11. t11 - hd ts < WINDOW_SEC \<longrightarrow>
              is_rate_limited key t11 (rl(key \<mapsto> ts)) = (True, rl(key \<mapsto> ts)))
        \<and> (\<forall>t'. WINDOW_SEC < t' - hd ts \<longrightarrow>
              \<not> fst (is_rate_limited key t' (rl(key \<mapsto> ts)))))"
proof (intro conjI impI allI)
  show "is_rate_limited key now rl =
     (let kept = filter (\<lambda>t. \<not> WINDOW_SEC \<le> now - t) (case rl key of None \<Rightarrow> [] | Some m \<Rightarrow> m)
      in if MESSAGE_LIMIT \<le> length kept then (True, rl(key \<mapsto> kept))
         else (False, rl(key \<mapsto> kept @ [now])))"
    by (simp add: is_rate_limited_def Let_def not_le)
next
  assume h: "rl key = None \<and> length ts = MESSAGE_LIMIT \<and> sorted ts \<and> last ts - hd ts < WINDOW_SEC"
  then have "ts \<noteq> []" by (auto simp: MESSAGE_LIMIT_def)
  with h have "rate_checks key ts rl = (replicate (length ts) False, rl(key \<mapsto> ts))"
    by (intro rate_checks_fresh) auto
  with h show "rate_checks key ts rl = (replicate MESSAGE_LIMIT False, rl(key \<mapsto> ts))" by simp
next
  fix t11
  assume "rl key = None \<and> length ts = MESSAGE_LIMIT \<and> sorted ts \<and> last ts - hd ts < WINDOW_SEC"
    and "t11 - hd ts < WINDOW_SEC"
  then show "is_rate_limited key t11 (rl(key \<mapsto> ts)) = (True, rl(key \<mapsto> ts))"
    by (intro is_rate_limited_full) auto
next
  fix t'
  assume "rl key = None \<and> length ts = MESSAGE_LIMIT \<and> sorted ts \<and> last ts - hd ts < WINDOW_SEC"
    and "WINDOW_SEC < t' - hd ts"
  then show "\<not> fst (is_rate_limited key t' (rl(key \<mapsto> ts)))"
    by (intro is_rate_limited_after_window) auto
qed

theorem rate_limiter_window_witness:
  "(Map.empty :: rate_limits) ''u'' = None
   \<and> length [0, 1, 2, 3, 4, 5, 6, 7, 8, 9 :: real] = MESSAGE_LIMIT
   \<and> sorted [0, 1, 2, 3, 4, 5, 6, 7, 8, 9 :: real]
   \<and> last [0, 1, 2, 3, 4, 5, 6, 7, 8, 9 :: real] - hd [0, 1, 2, 3, 4, 5, 6, 7, 8, 9 :: real] < WINDOW_SEC
   \<and> 59 - hd [0, 1, 2, 3, 4, 5, 6, 7, 8, 9 :: real] < WINDOW_SEC
   \<and> WINDOW_SEC < 61 - hd [0, 1, 2, 3, 4, 5, 6, 7, 8, 9 :: real]
   \<and> rate_checks ''u'' [0, 1, 2, 3, 4, 5, 6, 7, 8, 9] Map.empty =
       (replicate MESSAGE_LIMIT False, [''u'' \<mapsto> [0, 1, 2, 3, 4, 5, 6, 7, 8, 9]])
   \<and> is_rate_limited ''u'' 59 [''u'' \<mapsto> [0, 1, 2, 3, 4, 5, 6, 7, 8, 9]] =
       (True, [''u'' \<mapsto> [0, 1, 2, 3, 4, 5, 6, 7, 8, 9]])
   \<and> \<not> fst (is_rate_limited ''u'' 61 [''u'' \<mapsto> [0, 1, 2, 3, 4, 5, 6, 7, 8, 9]])"
proof -
  let ?ts = "[0, 1, 2, 3, 4, 5, 6, 7, 8, 9 :: real]"
  have h: "(Map.empty :: rate_limits) ''u'' = None \<and> length ?ts = MESSAGE_LIMIT \<and> sorted ?ts
        \<and> last ?ts - hd ?ts < WINDOW_SEC"
    by (simp add: MESSAGE_LIMIT_def WINDOW_SEC_def)
  have a: "59 - hd ?ts < WINDOW_SEC" and b: "WINDOW_SEC < 61 - hd ?ts"
    by (simp_all add: WINDOW_SEC_def)
  from rate_limiter_window [of "''u''" 0 Map.empty ?ts] h
  have c: "rate_checks ''u'' ?ts Map.empty = (replicate MESSAGE_LIMIT False, [''u'' \<mapsto> ?ts])
        \<and> (\<forall>t11. t11 - hd ?ts < WINDOW_SEC \<longrightarrow>
              is_rate_limited ''u'' t11 [''u'' \<mapsto> ?ts] = (True, [''u'' \<mapsto> ?ts]))
        \<and> (\<forall>t'. WINDOW_SEC < t' - hd ?ts \<longrightarrow> \<not> fst (is_rate_limited ''u'' t' [''u'' \<mapsto> ?ts]))"
    by blast
  from c a have d: "is_rate_limited ''u'' 59 [''u'' \<mapsto> ?ts] = (True, [''u'' \<mapsto> ?ts])" by blast
  from c b have e: "\<not> fst (is_rate_limited ''u'' 61 [''u'' \<mapsto> ?ts])" by blast
  from h a b c d e show ?thesis by blast
qed

subsection \<open>Admission per address\<close>

lemma try_admit_refuse:
  "ipc ip = Some c \<Longrightarrow> CONN_LIMIT_PER_IP \<le> c \<Longrightarrow> try_admit ip ipc = (False, ipc)"
  by (simp add: try_admit_def)

lemma try_admit_accept:
  "(case ipc ip of None \<Rightarrow> 0 | Some c \<Rightarrow> c) < CONN_LIMIT_PER_IP \<Longrightarrow>
     try_admit ip ipc = (True, ipc(ip \<mapsto> (case ipc ip of None \<Rightarrow> 0 | Some c \<Rightarrow> c) + 1))"
  by (cases "ipc ip") (simp_all add: try_admit_def)

lemma admit_times_sixth:
  "ipc ip = None \<Longrightarrow>
     admit_times 6 ip ipc = ([True, True, True, True, True, False], ipc(ip \<mapsto> CONN_LIMIT_PER_IP))"
  by (simp add: eval_nat_numeral try_admit_def CONN_LIMIT_PER_IP_def)

lemma try_admit_other:
  "ip' \<noteq> ip \<Longrightarrow> snd (try_admit ip ipc) ip' = ipc ip'"
  by (simp add: try_admit_def Let_def)

lemma try_admit_fst_cong:
  "ipc1 ip = ipc2 ip \<Longrightarrow> fst (try_admit ip ipc1) = fst (try_admit ip ipc2)"
  by (simp add: try_admit_def Let_def)

lemma release_Some:
  "ipc ip = Some c \<Longrightarrow>
     release ip ipc = Inr (if c = 1 then ipc(ip := None) else ipc(ip \<mapsto> c - 1))"
  by (simp add: release_def)

lemma ws_connect_auth:
  assumes "servers_col s sid = Some srv" "member_tokens_col s sid = Some td"
    "find_user (tokens td) tok = Some u"
  shows "ws_connect w now sid tok ip s =
     (if fst (try_admit ip (ip_connections s))
      then (Accepted u,
            registry_put sid u w
              ((update_activity sid now s)\<lparr>ip_connections := snd (try_admit ip (ip_connections s))\<rparr>))
      else (Closed 1013,
            (update_activity sid now s)\<lparr>ip_connections := snd (try_admit ip (ip_connections s))\<rparr>))"
  using assms
  by (simp add: ws_connect_def servers_col_update_activity member_tokens_col_update_activity
      runtime_update_activity split_beta Let_def)

lemma ws_connect_refused:
  assumes "servers_col s sid = Some srv" "member_tokens_col s sid = Some td"
    "find_user (tokens td) tok = Some u" "ip_connections s ip = Some c" "CONN_LIMIT_PER_IP \<le> c"
  shows "ws_connect w now sid tok ip s = (Closed 1013, update_activity sid now s)"
proof -
  have "(update_activity sid now s)\<lparr>ip_connections := ip_connections s\<rparr> = update_activity sid now s"
    by (simp add: update_activity_def)
  then show ?thesis
    using assms by (simp add: ws_connect_auth try_admit_refuse)
qed

lemma ws_connect_accepted:
  assumes "servers_col s sid = Some srv" "member_tokens_col s sid = Some td"
    "find_user (tokens td) tok = Some u"
    "(case ip_connections s ip of None \<Rightarrow> 0 | Some c \<Rightarrow> c) < CONN_LIMIT_PER_IP"
  shows "ws_connect w now sid tok ip s =
     (Accepted u,
      registry_put sid u w
        ((update_activity sid now s)\<lparr>ip_connections :=
           (ip_connections s)(ip \<mapsto> (case ip_connections s ip of None \<Rightarrow> 0 | Some c \<Rightarrow> c) + 1)\<rparr>))"
  using assms by (simp add: ws_connect_auth try_admit_accept)

lemma ip_connections_registry_put:
  "ip_connections (registry_put sid u w s) = ip_connections s"
  by (simp add: registry_put_def)

lemma ip_connections_registry_remove:
  "ip_connections (registry_remove sid u s) = ip_connections s"
  by (simp add: registry_remove_def split: option.splits)

lemma ws_teardown_release:
  assumes "ip_connections s ip = Some c"
  shows "ws_teardown sid u ip s =
     (None, (registry_remove sid u s)\<lparr>ip_connections :=
        (if c = 1 then (ip_connections s)(ip := None) else (ip_connections s)(ip \<mapsto> c - 1))\<rparr>)"
  using assms by (simp add: ws_teardown_def ip_connections_registry_remove release_Some)

lemma ip_connections_handle_frame:
  "ip_connections (fst (snd (handle_frame fails fr now utc sid u ip data s))) = ip_connections s"
  by (simp add: handle_frame_def split_beta Let_def runtime_update_activity)

lemma ip_connections_ws_loop:
  "ip_connections (fst (snd (ws_loop fails fr sid u ip frames s))) = ip_connections s"
proof (induction frames arbitrary: s)
  case Nil
  then show ?case by simp
next
  case (Cons f frames)
  obtain data now utc where f: "f = (data, now, utc)" by (cases f)
  show ?case
    by (simp add: f split_beta Cons.IH ip_connections_handle_frame)
qed

lemma websocket_endpoint_count:
  assumes "servers_col s sid = Some srv" "member_tokens_col s sid = Some td"
    "find_user (tokens td) tok = Some u"
    "(case ip_connections s ip of None \<Rightarrow> 0 | Some c \<Rightarrow> c) < CONN_LIMIT_PER_IP"
  shows "fst (websocket_endpoint fails fr w now sid tok ip frames s) = Accepted u
       \<and> ip_connections (fst (snd (websocket_endpoint fails fr w now sid tok ip frames s))) =
           (if (case ip_connections s ip of None \<Rightarrow> 0 | Some c \<Rightarrow> c) = 0
            then (ip_connections s)(ip := None) else ip_connections s)"
proof -
  let ?n = "case ip_connections s ip of None \<Rightarrow> 0 | Some c \<Rightarrow> c"
  let ?s1 = "registry_put sid u w
        ((update_activity sid now s)\<lparr>ip_connections := (ip_connections s)(ip \<mapsto> ?n + 1)\<rparr>)"
  let ?s2 = "fst (snd (ws_loop fails fr sid u ip frames ?s1))"
  have c: "ws_connect w now sid tok ip s = (Accepted u, ?s1)"
    using assms by (rule ws_connect_accepted)
  have i2: "ip_connections ?s2 = (ip_connections s)(ip \<mapsto> ?n + 1)"
    by (simp add: ip_connections_ws_loop ip_connections_registry_put)
  then have "ip_connections ?s2 ip = Some (?n + 1)" by simp
  then have t: "ws_teardown sid u ip ?s2 =
     (None, (registry_remove sid u ?s2)\<lparr>ip_connections :=
        (if ?n + 1 = 1 then (ip_connections ?s2)(ip := None)
         else (ip_connections ?s2)(ip \<mapsto> ?n + 1 - 1))\<rparr>)"
    by (rule ws_teardown_release)
  have e: "websocket_endpoint fails fr w now sid tok ip frames s =
      (Accepted u, snd (ws_teardown sid u ip ?s2), snd (snd (ws_loop fails fr sid u ip frames ?s1)))"
    by (simp add: websocket_endpoint_def c split_beta)
  have "(ip_connections s)(ip \<mapsto> ?n) = ip_connections s" if "?n \<noteq> 0"
    using that by (cases "ip_connections s ip") (auto simp: fun_upd_idem)
  then show ?thesis
    unfolding e t
    by (simp add: ip_connections_ws_loop ip_connections_registry_put runtime_update_activity)
qed

lemma connect_all_admit:
  assumes "servers_col s sid = Some srv" "member_tokens_col s sid = Some td"
    and "\<forall>c \<in> set cs. cc_server_id c = sid \<and> cc_ip c = ip
            \<and> find_user (tokens td) (cc_token c) \<noteq> None"
  shows "fst (connect_all cs s) =
           map (\<lambda>(c, ok). if ok then Accepted (the (find_user (tokens td) (cc_token c)))
                           else Closed 1013)
             (zip cs (fst (admit_times (length cs) ip (ip_connections s))))
       \<and> ip_connections (snd (connect_all cs s)) =
           snd (admit_times (length cs) ip (ip_connections s))"
  using assms
proof (induction cs arbitrary: s srv td)
  case Nil
  then show ?case by simp
next
  case (Cons c cs)
  from Cons.prems(3) obtain u where u: "find_user (tokens td) (cc_token c) = Some u"
    and c: "cc_server_id c = sid" "cc_ip c = ip"
    by auto
  let ?r = "ws_connect (cc_ws c) (cc_now c) sid (cc_token c) ip s"
  have w: "?r =
     (if fst (try_admit ip (ip_connections s))
      then (Accepted u,
            registry_put sid u (cc_ws c)
              ((update_activity sid (cc_now c) s)\<lparr>ip_connections := snd (try_admit ip (ip_connections s))\<rparr>))
      else (Closed 1013,
            (update_activity sid (cc_now c) s)\<lparr>ip_connections := snd (try_admit ip (ip_connections s))\<rparr>))"
    using Cons.prems(1,2) u by (rule ws_connect_auth)
  have s1: "servers_col (snd ?r) sid = Some (srv\<lparr>last_activity := cc_now c\<rparr>)"
    and s2: "member_tokens_col (snd ?r) sid = Some (td\<lparr>t_last_activity := cc_now c\<rparr>)"
    and s3: "ip_connections (snd ?r) = snd (try_admit ip (ip_connections s))"
    and s4: "fst ?r = (if fst (try_admit ip (ip_connections s)) then Accepted u else Closed 1013)"
    using Cons.prems(1,2)
    by (simp_all add: w registry_put_def servers_col_update_activity
        member_tokens_col_update_activity)
  have rest: "\<forall>x \<in> set cs. cc_server_id x = sid \<and> cc_ip x = ip
            \<and> find_user (tokens (td\<lparr>t_last_activity := cc_now c\<rparr>)) (cc_token x) \<noteq> None"
    using Cons.prems(3) by simp
  note IH = Cons.IH [OF s1 s2 rest]
  show ?case
    using IH by (simp add: c split_beta s3 s4 u)
qed

text \<open>
  Claim C5. At a count of \<open>CONN_LIMIT_PER_IP\<close> or more the admission test refuses and
  leaves every count as it was; below the limit it admits and adds one; a refusal
  changes neither the count nor the admission of another address. The handler does the
  same to its state: a client with a valid token is closed with 1013 at a full count,
  nothing but the activity stamp having changed, and is accepted below it, the count
  of its address being one more in the state that the handler goes on with. So of six
  connection attempts in a row from an address without a count, each with a valid
  token of the room, the first five are accepted and the sixth is closed with 1013,
  the count being five. The release subtracts one and deletes the entry when that
  gives zero; the \<open>finally\<close> block does so in the handler's state; and after a whole
  accepted connection has ended the count of the address is what it was before.
\<close>

theorem admission_control:
  "(ipc ip = Some c \<and> CONN_LIMIT_PER_IP \<le> c \<longrightarrow> try_admit ip ipc = (False, ipc))
   \<and> ((case ipc ip of None \<Rightarrow> 0 | Some c \<Rightarrow> c) < CONN_LIMIT_PER_IP \<longrightarrow>
        try_admit ip ipc = (True, ipc(ip \<mapsto> (case ipc ip of None \<Rightarrow> 0 | Some c \<Rightarrow> c) + 1)))
   \<and> (ipc ip = None \<longrightarrow>
        admit_times 6 ip ipc =
          ([True, True, True, True, True, False], ipc(ip \<mapsto> CONN_LIMIT_PER_IP)))
   \<and> (ip' \<noteq> ip \<longrightarrow>
        snd (try_admit ip ipc) ip' = ipc ip'
        \<and> fst (try_admit ip' (snd (try_admit ip ipc))) = fst (try_admit ip' ipc))
   \<and> (servers_col s sid = Some srv \<and> member_tokens_col s sid = Some td
        \<and> find_user (tokens td) tok = Some u
        \<and> ip_connections s ip = Some c \<and> CONN_LIMIT_PER_IP \<le> c \<longrightarrow>
        ws_connect w now sid tok ip s = (Closed 1013, update_activity sid now s))
   \<and> (servers_col s sid = Some srv \<and> member_tokens_col s sid = Some td
        \<and> find_user (tokens td) tok = Some u
        \<and> (case ip_connections s ip of None \<Rightarrow> 0 | Some c \<Rightarrow> c) < CONN_LIMIT_PER_IP \<longrightarrow>
        ws_connect w now sid tok ip s =
          (Accepted u,
           registry_put sid u w
             ((update_activity sid now s)\<lparr>ip_connections :=
                (ip_connections s)(ip \<mapsto>
                   (case ip_connections s ip of None \<Rightarrow> 0 | Some c \<Rightarrow> c) + 1)\<rparr>))
        \<and> fst (websocket_endpoint fails fr w now sid tok ip frames s) = Accepted u
        \<and> ip_connections (fst (snd (websocket_endpoint fails fr w now sid tok ip frames s))) =
            (if (case ip_connections s ip of None \<Rightarrow> 0 | Some c \<Rightarrow> c) = 0
             then (ip_connections s)(ip := None) else ip_connections s))
   \<and> (servers_col s sid = Some srv \<and> member_tokens_col s sid = Some td
        \<and> (\<forall>c \<in> set cs. cc_server_id c = sid \<and> cc_ip c = ip
               \<and> find_user (tokens td) (cc_token c) \<noteq> None) \<longrightarrow>
        fst (connect_all cs s) =
           map (\<lambda>(c, ok). if ok then Accepted (the (find_user (tokens td) (cc_token c)))
                           else Closed 1013)
             (zip cs (fst (admit_times (length cs) ip (ip_connections s))))
        \<and> ip_connections (snd (connect_all cs s)) =
            snd (admit_times (length cs) ip (ip_connections s)))
   \<and> (ipc ip = Some c \<longrightarrow>
        release ip ipc = Inr (if c = 1 then ipc(ip := None) else ipc(ip \<mapsto> c - 1)))
   \<and> (ip_connections s ip = Some c \<longrightarrow>
        ws_teardown sid u ip s =
          (None, (registry_remove sid u s)\<lparr>ip_connections :=
             (if c = 1 then (ip_connections s)(ip := None)
              else (ip_connections s)(ip \<mapsto> c - 1))\<rparr>))"
proof (intro conjI impI)
  show "try_admit ip ipc = (False, ipc)" if "ipc ip = Some c \<and> CONN_LIMIT_PER_IP \<le> c"
    using that by (simp add: try_admit_refuse)
  show "try_admit ip ipc = (True, ipc(ip \<mapsto> (case ipc ip of None \<Rightarrow> 0 | Some c \<Rightarrow> c) + 1))"
    if "(case ipc ip of None \<Rightarrow> 0 | Some c \<Rightarrow> c) < CONN_LIMIT_PER_IP"
    using that by (rule try_admit_accept)
  show "admit_times 6 ip ipc =
          ([True, True, True, True, True, False], ipc(ip \<mapsto> CONN_LIMIT_PER_IP))"
    if "ipc ip = None"
    using that by (rule admit_times_sixth)
  show "snd (try_admit ip ipc) ip' = ipc ip'" if "ip' \<noteq> ip"
    using that by (rule try_admit_other)
  show "fst (try_admit ip' (snd (try_admit ip ipc))) = fst (try_admit ip' ipc)" if "ip' \<noteq> ip"
    using that by (intro try_admit_fst_cong try_admit_other)
  show "ws_connect w now sid tok ip s = (Closed 1013, update_activity sid now s)"
    if "servers_col s sid = Some srv \<and> member_tokens_col s sid = Some td
        \<and> find_user (tokens td) tok = Some u
        \<and> ip_connections s ip = Some c \<and> CONN_LIMIT_PER_IP \<le> c"
    using that by (intro ws_connect_refused) auto
  show "release ip ipc = Inr (if c = 1 then ipc(ip := None) else ipc(ip \<mapsto> c - 1))"
    if "ipc ip = Some c"
    using that by (rule release_Some)
  show "ws_teardown sid u ip s =
          (None, (registry_remove sid u s)\<lparr>ip_connections :=
             (if c = 1 then (ip_connections s)(ip := None)
              else (ip_connections s)(ip \<mapsto> c - 1))\<rparr>)"
    if "ip_connections s ip = Some c"
    using that by (rule ws_teardown_release)
next
  assume h: "servers_col s sid = Some srv \<and> member_tokens_col s sid = Some td
        \<and> find_user (tokens td) tok = Some u
        \<and> (case ip_connections s ip of None \<Rightarrow> 0 | Some c \<Rightarrow> c) < CONN_LIMIT_PER_IP"
  then have a: "servers_col s sid = Some srv" and b: "member_tokens_col s sid = Some td"
    and c: "find_user (tokens td) tok = Some u"
    and d: "(case ip_connections s ip of None \<Rightarrow> 0 | Some c \<Rightarrow> c) < CONN_LIMIT_PER_IP"
    by blast+
  show "ws_connect w now sid tok ip s =
          (Accepted u,
           registry_put sid u w
             ((update_activity sid now s)\<lparr>ip_connections :=
                (ip_connections s)(ip \<mapsto>
                   (case ip_connections s ip of None \<Rightarrow> 0 | Some c \<Rightarrow> c) + 1)\<rparr>))"
    using a b c d by (rule ws_connect_accepted)
  show "fst (websocket_endpoint fails fr w now sid tok ip frames s) = Accepted u"
    using websocket_endpoint_count [OF a b c d] by blast
  show "ip_connections (fst (snd (websocket_endpoint fails fr w now sid tok ip frames s))) =
            (if (case ip_connections s ip of None \<Rightarrow> 0 | Some c \<Rightarrow> c) = 0
             then (ip_connections s)(ip := None) else ip_connections s)"
    using websocket_endpoint_count [OF a b c d] by blast
next
  assume h: "servers_col s sid = Some srv \<and> member_tokens_col s sid = Some td
        \<and> (\<forall>c \<in> set cs. cc_server_id c = sid \<and> cc_ip c = ip
               \<and> find_user (tokens td) (cc_token c) \<noteq> None)"
  then have a: "servers_col s sid = Some srv" and b: "member_tokens_col s sid = Some td"
    and c: "\<forall>c \<in> set cs. cc_server_id c = sid \<and> cc_ip c = ip
               \<and> find_user (tokens td) (cc_token c) \<noteq> None"
    by blast+
  note R = connect_all_admit [OF a b c]
  show "fst (connect_all cs s) =
           map (\<lambda>(c, ok). if ok then Accepted (the (find_user (tokens td) (cc_token c)))
                           else Closed 1013)
             (zip cs (fst (admit_times (length cs) ip (ip_connections s))))"
    using R by blast
  show "ip_connections (snd (connect_all cs s)) =
            snd (admit_times (length cs) ip (ip_connections s))"
    using R by blast
qed

lemma demo_state_auth:
  "servers_col demo_state ''room'' =
     Some \<lparr>join_token = ''secret'', admin_user_id = JStr ''alice'',
           members = [(''alice'', bundle_doc demo_bundle)], created_at = 0, last_activity = 0\<rparr>
   \<and> member_tokens_col demo_state ''room'' =
       Some \<lparr>tokens = [(''alice'', BStr ''tok-a'')], t_created_at = 0, t_last_activity = 0\<rparr>
   \<and> ip_connections demo_state = Map.empty"
  by (simp add: demo_state_def)

lemma demo_full_auth:
  "servers_col demo_full ''room'' =
     Some \<lparr>join_token = ''secret'', admin_user_id = JStr ''alice'',
           members = [(''alice'', bundle_doc demo_bundle), (''bob'', bundle_doc demo_bundle)],
           created_at = 0, last_activity = 0\<rparr>
   \<and> member_tokens_col demo_full ''room'' =
       Some \<lparr>tokens = [(''alice'', BStr ''tok-a''), (''bob'', BStr ''tok-b'')],
             t_created_at = 0, t_last_activity = 0\<rparr>
   \<and> ip_connections demo_full = [''10.0.0.1'' \<mapsto> 5]"
  by (simp add: demo_full_def demo_two_online_def)

theorem admission_control_witness:
  "try_admit ''a'' [''a'' \<mapsto> 5] = (False, [''a'' \<mapsto> 5])
   \<and> try_admit ''a'' Map.empty = (True, [''a'' \<mapsto> 1])
   \<and> admit_times 6 ''a'' Map.empty =
       ([True, True, True, True, True, False], [''a'' \<mapsto> CONN_LIMIT_PER_IP])
   \<and> fst (try_admit ''b'' (snd (try_admit ''a'' [''a'' \<mapsto> 5]))) = fst (try_admit ''b'' [''a'' \<mapsto> 5])
   \<and> ws_connect 7 100 ''room'' ''tok-b'' ''10.0.0.1'' demo_full =
       (Closed 1013, update_activity ''room'' 100 demo_full)
   \<and> fst (ws_connect 1 10 ''room'' ''tok-a'' ''10.0.0.1'' demo_state) = Accepted ''alice''
   \<and> ip_connections (snd (ws_connect 1 10 ''room'' ''tok-a'' ''10.0.0.1'' demo_state)) =
       [''10.0.0.1'' \<mapsto> 1]
   \<and> fst (websocket_endpoint (only_fails 9) whole_float_repr 1 10 ''room'' ''tok-a'' ''10.0.0.1''
             [(demo_group, 5, 50)] demo_state) = Accepted ''alice''
   \<and> ip_connections (fst (snd (websocket_endpoint (only_fails 9) whole_float_repr 1 10 ''room''
             ''tok-a'' ''10.0.0.1'' [(demo_group, 5, 50)] demo_state))) = Map.empty
   \<and> fst (connect_all demo_connects demo_state) =
       [Accepted ''alice'', Accepted ''alice'', Accepted ''alice'', Accepted ''alice'',
        Accepted ''alice'', Closed 1013]
   \<and> ip_connections (snd (connect_all demo_connects demo_state)) = [''10.0.0.1'' \<mapsto> 5]
   \<and> release ''a'' [''a'' \<mapsto> 5] = Inr [''a'' \<mapsto> 4]
   \<and> release ''a'' [''a'' \<mapsto> 1] = Inr Map.empty
   \<and> fst (ws_teardown ''room'' ''bob'' ''10.0.0.1'' demo_full) = None
   \<and> ip_connections (snd (ws_teardown ''room'' ''bob'' ''10.0.0.1'' demo_full)) =
       [''10.0.0.1'' \<mapsto> 4]"
proof -
  let ?srv = "\<lparr>join_token = ''secret'', admin_user_id = JStr ''alice'',
           members = [(''alice'', bundle_doc demo_bundle)], created_at = 0, last_activity = 0\<rparr>"
  let ?td = "\<lparr>tokens = [(''alice'', BStr ''tok-a'')], t_created_at = 0, t_last_activity = 0\<rparr>"
  let ?srv2 = "\<lparr>join_token = ''secret'', admin_user_id = JStr ''alice'',
           members = [(''alice'', bundle_doc demo_bundle), (''bob'', bundle_doc demo_bundle)],
           created_at = 0, last_activity = 0\<rparr>"
  let ?td2 = "\<lparr>tokens = [(''alice'', BStr ''tok-a''), (''bob'', BStr ''tok-b'')],
             t_created_at = 0, t_last_activity = 0\<rparr>"
  have full: "[''a'' \<mapsto> 5::int] ''a'' = Some 5 \<and> CONN_LIMIT_PER_IP \<le> 5"
    by (simp add: CONN_LIMIT_PER_IP_def)
  have ne: "''b'' \<noteq> ''a''" by simp
  have fresh: "(Map.empty :: ip_connections) ''a'' = None" by simp
  have low: "(case (Map.empty :: ip_connections) ''a'' of None \<Rightarrow> 0 | Some c \<Rightarrow> c) < CONN_LIMIT_PER_IP"
    by (simp add: CONN_LIMIT_PER_IP_def)
  have one: "[''a'' \<mapsto> 1::int] ''a'' = Some 1" by simp
  have auth_full: "servers_col demo_full ''room'' = Some ?srv2
      \<and> member_tokens_col demo_full ''room'' = Some ?td2
      \<and> find_user (tokens ?td2) ''tok-b'' = Some ''bob''
      \<and> ip_connections demo_full ''10.0.0.1'' = Some 5 \<and> CONN_LIMIT_PER_IP \<le> 5"
    using demo_full_auth by (simp add: CONN_LIMIT_PER_IP_def)
  have auth: "servers_col demo_state ''room'' = Some ?srv
      \<and> member_tokens_col demo_state ''room'' = Some ?td
      \<and> find_user (tokens ?td) ''tok-a'' = Some ''alice''
      \<and> (case ip_connections demo_state ''10.0.0.1'' of None \<Rightarrow> 0 | Some c \<Rightarrow> c)
            < CONN_LIMIT_PER_IP"
    using demo_state_auth by (simp add: CONN_LIMIT_PER_IP_def)
  have calls: "servers_col demo_state ''room'' = Some ?srv
      \<and> member_tokens_col demo_state ''room'' = Some ?td
      \<and> (\<forall>c \<in> set demo_connects. cc_server_id c = ''room'' \<and> cc_ip c = ''10.0.0.1''
             \<and> find_user (tokens ?td) (cc_token c) \<noteq> None)"
    using demo_state_auth by (simp add: demo_connects_def demo_connect_def)
  have cnt: "ip_connections demo_full ''10.0.0.1'' = Some 5"
    using demo_full_auth by simp
  note A = admission_control [where ipc = "[''a'' \<mapsto> 5]" and ip = "''a''" and c = 5
      and ip' = "''b''"]
  note B = admission_control [where ipc = Map.empty and ip = "''a''" and ip' = "''b''"]
  note C = admission_control [where ipc = "[''a'' \<mapsto> 1]" and ip = "''a''" and c = 1]
  note D = admission_control [where s = demo_full and ip = "''10.0.0.1''" and c = 5
      and sid = "''room''" and srv = ?srv2 and td = ?td2 and tok = "''tok-b''"
      and u = "''bob''" and w = 7 and now = 100]
  note E = admission_control [where s = demo_state and ip = "''10.0.0.1''"
      and sid = "''room''" and srv = ?srv and td = ?td and tok = "''tok-a''"
      and u = "''alice''" and w = 1 and now = 10 and fails = "only_fails 9"
      and fr = whole_float_repr and frames = "[(demo_group, 5, 50)]" and cs = demo_connects]
  have 1: "try_admit ''a'' [''a'' \<mapsto> 5] = (False, [''a'' \<mapsto> 5])" using A full by blast
  have 2: "try_admit ''a'' Map.empty = (True, [''a'' \<mapsto> 1])" using B low by simp
  have 3: "admit_times 6 ''a'' Map.empty =
       ([True, True, True, True, True, False], [''a'' \<mapsto> CONN_LIMIT_PER_IP])"
    using B fresh by blast
  have 4: "fst (try_admit ''b'' (snd (try_admit ''a'' [''a'' \<mapsto> 5]))) = fst (try_admit ''b'' [''a'' \<mapsto> 5])"
    using A ne by blast
  have 5: "ws_connect 7 100 ''room'' ''tok-b'' ''10.0.0.1'' demo_full =
       (Closed 1013, update_activity ''room'' 100 demo_full)"
    using D auth_full by blast
  have 6: "release ''a'' [''a'' \<mapsto> 5] = Inr [''a'' \<mapsto> 4]" using A full by simp
  have 7: "release ''a'' [''a'' \<mapsto> 1] = Inr Map.empty" using C one by simp
  have "ws_connect 1 10 ''room'' ''tok-a'' ''10.0.0.1'' demo_state =
          (Accepted ''alice'',
           registry_put ''room'' ''alice'' 1
             ((update_activity ''room'' 10 demo_state)\<lparr>ip_connections :=
                (ip_connections demo_state)(''10.0.0.1'' \<mapsto>
                   (case ip_connections demo_state ''10.0.0.1'' of None \<Rightarrow> 0 | Some c \<Rightarrow> c) + 1)\<rparr>))"
    using E auth by blast
  then have 8: "fst (ws_connect 1 10 ''room'' ''tok-a'' ''10.0.0.1'' demo_state) = Accepted ''alice''"
    and 9: "ip_connections (snd (ws_connect 1 10 ''room'' ''tok-a'' ''10.0.0.1'' demo_state)) =
       [''10.0.0.1'' \<mapsto> 1]"
    using demo_state_auth by (simp_all add: ip_connections_registry_put)
  have 10: "fst (websocket_endpoint (only_fails 9) whole_float_repr 1 10 ''room'' ''tok-a'' ''10.0.0.1''
             [(demo_group, 5, 50)] demo_state) = Accepted ''alice''"
    using E auth by blast
  have "ip_connections (fst (snd (websocket_endpoint (only_fails 9) whole_float_repr 1 10 ''room''
             ''tok-a'' ''10.0.0.1'' [(demo_group, 5, 50)] demo_state))) =
            (if (case ip_connections demo_state ''10.0.0.1'' of None \<Rightarrow> 0 | Some c \<Rightarrow> c) = 0
             then (ip_connections demo_state)(''10.0.0.1'' := None) else ip_connections demo_state)"
    using E auth by blast
  then have 11: "ip_connections (fst (snd (websocket_endpoint (only_fails 9) whole_float_repr 1 10
             ''room'' ''tok-a'' ''10.0.0.1'' [(demo_group, 5, 50)] demo_state))) = Map.empty"
    using demo_state_auth by simp
  have run: "fst (connect_all demo_connects demo_state) =
           map (\<lambda>(c, ok). if ok then Accepted (the (find_user (tokens ?td) (cc_token c)))
                           else Closed 1013)
             (zip demo_connects
                (fst (admit_times (length demo_connects) ''10.0.0.1'' (ip_connections demo_state))))
        \<and> ip_connections (snd (connect_all demo_connects demo_state)) =
            snd (admit_times (length demo_connects) ''10.0.0.1'' (ip_connections demo_state))"
    using E calls by blast
  have six: "length demo_connects = 6"
    by (simp add: demo_connects_def)
  have adm: "admit_times 6 ''10.0.0.1'' (ip_connections demo_state) =
       ([True, True, True, True, True, False], [''10.0.0.1'' \<mapsto> 5])"
    using demo_state_auth admit_times_sixth [of Map.empty "''10.0.0.1''"]
    by (simp add: CONN_LIMIT_PER_IP_def)
  have 12: "fst (connect_all demo_connects demo_state) =
       [Accepted ''alice'', Accepted ''alice'', Accepted ''alice'', Accepted ''alice'',
        Accepted ''alice'', Closed 1013]"
    using run unfolding six adm by (simp add: demo_connects_def demo_connect_def)
  have 13: "ip_connections (snd (connect_all demo_connects demo_state)) = [''10.0.0.1'' \<mapsto> 5]"
    using run unfolding six adm by simp
  have td: "ws_teardown ''room'' ''bob'' ''10.0.0.1'' demo_full =
          (None, (registry_remove ''room'' ''bob'' demo_full)\<lparr>ip_connections :=
             (if (5::int) = 1 then (ip_connections demo_full)(''10.0.0.1'' := None)
              else (ip_connections demo_full)(''10.0.0.1'' \<mapsto> 5 - 1))\<rparr>)"
    using D cnt by blast
  have 14: "fst (ws_teardown ''room'' ''bob'' ''10.0.0.1'' demo_full) = None"
    and 15: "ip_connections (snd (ws_teardown ''room'' ''bob'' ''10.0.0.1'' demo_full)) =
       [''10.0.0.1'' \<mapsto> 4]"
    using demo_full_auth by (simp_all add: td)
  from 1 2 3 4 5 6 7 8 9 10 11 12 13 14 15 show ?thesis by blast
qed

subsection \<open>Connection registry\<close>


lemma registry_get_remove:
  "registry_get (registry_remove sid uid s) sid' uid' =
     (if sid' = sid \<and> uid' = uid then None else registry_get s sid' uid')"
  by (auto simp: registry_get_def registry_remove_def map_of_dict_del split: option.splits)

lemma registry_get_put:
  "registry_get (registry_put sid uid w s) sid' uid' =
     (if sid' = sid \<and> uid' = uid then Some w else registry_get s sid' uid')"
  by (auto simp: registry_get_def registry_put_def map_of_dict_set split: option.splits)

lemma connected_ws_teardown:
  "connected (snd (ws_teardown sid uid ip s)) = connected (registry_remove sid uid s)"
  by (simp add: ws_teardown_def Let_def split: sum.splits)

lemma registry_get_teardown:
  "registry_get (snd (ws_teardown sid uid ip s)) sid' uid' =
     registry_get (registry_remove sid uid s) sid' uid'"
  by (simp add: registry_get_def connected_ws_teardown)

text \<open>
  Claim C1, as the code has it. The teardown deletes the registry entry of its
  (room, member) key whichever socket is stored there (no handle is compared), so the
  entry is gone afterwards also when a newer connection of the same member had replaced
  the one being torn down. Every other entry of the registry is left as it was.
\<close>

theorem teardown_removes_by_key:
  "registry_get (snd (ws_teardown sid uid ip s)) sid uid = None
   \<and> (sid' \<noteq> sid \<or> uid' \<noteq> uid \<longrightarrow>
        registry_get (snd (ws_teardown sid uid ip s)) sid' uid' = registry_get s sid' uid')"
  by (auto simp: registry_get_teardown registry_get_remove)

lemma demo_reconnected_connected:
  "connected demo_reconnected = [''room'' \<mapsto> [(''alice'', 2)]]"
  by (simp add: demo_reconnected_def demo_state_def ws_connect_def update_activity_def
      try_admit_def CONN_LIMIT_PER_IP_def registry_put_def)

text \<open>
  Against claim C1 as stated: alice's registry entry holds socket 2, which replaced
  socket 1; the teardown of the handler of socket 1 deletes that entry all the same.
\<close>

theorem stale_teardown_counterexample:
  "registry_get demo_reconnected ''room'' ''alice'' = Some 2 \<and> (2::ws) \<noteq> 1
   \<and> registry_get (snd (ws_teardown ''room'' ''alice'' ''10.0.0.1'' demo_reconnected))
        ''room'' ''alice'' = None"
  by (simp add: registry_get_def connected_ws_teardown registry_remove_def
      demo_reconnected_connected)

theorem teardown_removes_by_key_witness:
  "''bob'' \<noteq> ''alice''
   \<and> registry_get (snd (ws_teardown ''room'' ''alice'' ''10.0.0.1'' demo_reconnected))
        ''room'' ''alice'' = None
   \<and> registry_get (snd (ws_teardown ''room'' ''alice'' ''10.0.0.1'' demo_reconnected))
        ''room'' ''bob'' = registry_get demo_reconnected ''room'' ''bob''"
  using teardown_removes_by_key [of "''room''" "''alice''" "''10.0.0.1''" demo_reconnected
      "''room''" "''bob''"]
  by simp

subsection \<open>Base64 round trip\<close>





















subsection \<open>Join: the stages of the handler\<close>

lemma split_dots_plain: "CHR ''.'' \<notin> set uid \<Longrightarrow> split_dots uid = [uid]"
  by (induction uid) (auto split: list.splits)

lemma mongo_set_plain: "plain_id uid \<Longrightarrow> mongo_set uid v d = Some (dict_set uid v d)"
  by (simp add: plain_id_def mongo_set_def split_dots_plain valid_field_def)

lemma join_checks_stamp:
  "join_checks ios body (srv\<lparr>last_activity := now\<rparr>) = join_checks ios body srv"
  by (simp add: join_checks_def split: sum.splits)

lemma servers_update_stamp:
  "servers_update key u b (srv\<lparr>last_activity := now\<rparr>) =
     (case servers_update key u b srv of
        Inl e \<Rightarrow> Inl e
      | Inr srv' \<Rightarrow> Inr (srv'\<lparr>last_activity := now\<rparr>))"
  by (simp add: servers_update_def split: option.splits)

lemma member_tokens_update_stamp:
  "member_tokens_update key tok (map_option (\<lambda>d. d\<lparr>t_last_activity := now\<rparr>) td) =
     (case member_tokens_update key tok td of
        Inl e \<Rightarrow> Inl e
      | Inr td' \<Rightarrow> Inr (map_option (\<lambda>d. d\<lparr>t_last_activity := now\<rparr>) td'))"
  by (simp add: member_tokens_update_def split: option.splits)

lemma join_server_no_json:
  "join_server fails fr ios tok now sid None s =
     (Raised JSONDecodeError, update_activity sid now s, [])"
  by (simp add: join_server_def)

lemma join_server_no_room:
  "servers_col s sid = None \<Longrightarrow>
     join_server fails fr ios tok now sid (Some body) s =
       (HTTPException 404 ''Server not found'', update_activity sid now s, [])"
  by (simp add: join_server_def servers_col_update_activity)

lemma join_server_room:
  assumes "servers_col s sid = Some srv"
  shows "join_server fails fr ios tok now sid (Some body) s =
    (case join_checks ios body srv of
       HTTPException code detail \<Rightarrow> (HTTPException code detail, update_activity sid now s, [])
     | Raised e \<Rightarrow> (Raised e, update_activity sid now s, [])
     | Returned (user_id, b) \<Rightarrow>
        (case servers_update (py_str fr user_id) user_id b srv of
           Inl e \<Rightarrow> (Raised e, update_activity sid now s, [])
         | Inr srv' \<Rightarrow>
            (case member_tokens_update (py_str fr user_id) tok (member_tokens_col s sid) of
               Inl e \<Rightarrow>
                 (Raised e,
                  put_server sid (srv'\<lparr>last_activity := now\<rparr>) (update_activity sid now s), [])
             | Inr td' \<Rightarrow>
                 (case others_of user_id (members srv') of
                    Inl e \<Rightarrow>
                      (Raised e,
                       put_tokens sid (map_option (\<lambda>d. d\<lparr>t_last_activity := now\<rparr>) td')
                         (put_server sid (srv'\<lparr>last_activity := now\<rparr>)
                            (update_activity sid now s)), [])
                  | Inr os \<Rightarrow>
                      (if fst (case connected s sid of
                                 None \<Rightarrow> (True, [])
                               | Some d \<Rightarrow> send_all fails (join_notification user_id) (map snd d))
                       then Returned \<lparr>member_token = tok, others = os,
                                      r_admin_user_id = admin_user_id srv'\<rparr>
                       else Raised SendError,
                       put_tokens sid (map_option (\<lambda>d. d\<lparr>t_last_activity := now\<rparr>) td')
                         (put_server sid (srv'\<lparr>last_activity := now\<rparr>)
                            (update_activity sid now s)),
                       snd (case connected s sid of
                              None \<Rightarrow> (True, [])
                            | Some d \<Rightarrow> send_all fails (join_notification user_id) (map snd d)))))))"
proof (cases "join_checks ios body srv")
  case (HTTPException code detail)
  then show ?thesis
    using assms by (simp add: join_server_def servers_col_update_activity join_checks_stamp)
next
  case (Raised e)
  then show ?thesis
    using assms by (simp add: join_server_def servers_col_update_activity join_checks_stamp)
next
  case (Returned p)
  obtain user_id b where p: "p = (user_id, b)" by (cases p)
  let ?s1 = "update_activity sid now s"
  show ?thesis
  proof (cases "servers_update (py_str fr user_id) user_id b srv")
    case (Inl e)
    then show ?thesis
      using assms Returned p
      by (simp add: join_server_def servers_col_update_activity join_checks_stamp
          servers_update_stamp)
  next
    case (Inr srv')
    have m: "member_tokens_col (?s1\<lparr>servers_col := (servers_col ?s1)(sid \<mapsto> srv'\<lparr>last_activity := now\<rparr>)\<rparr>) sid
        = map_option (\<lambda>d. d\<lparr>t_last_activity := now\<rparr>) (member_tokens_col s sid)"
      by (simp add: member_tokens_col_update_activity)
    show ?thesis
    proof (cases "member_tokens_update (py_str fr user_id) tok (member_tokens_col s sid)")
      case (Inl e)
      then show ?thesis
        using assms Returned p Inr
        by (simp add: join_server_def servers_col_update_activity join_checks_stamp
            servers_update_stamp member_tokens_col_update_activity member_tokens_update_stamp put_server_def Let_def)
    next
      case td: (Inr td')
      show ?thesis
      proof (cases "others_of user_id (members srv')")
        case (Inl e)
        then show ?thesis
          using assms Returned p Inr td
          by (simp add: join_server_def servers_col_update_activity join_checks_stamp
              servers_update_stamp member_tokens_col_update_activity member_tokens_update_stamp put_server_def put_tokens_def Let_def)
      next
        case os: (Inr os)
        then show ?thesis
          using assms Returned p Inr td
          by (simp add: join_server_def servers_col_update_activity join_checks_stamp
              servers_update_stamp member_tokens_col_update_activity member_tokens_update_stamp put_server_def put_tokens_def Let_def
              runtime_update_activity split_beta)
      qed
    qed
  qed
qed

lemma join_checks_valid:
  assumes "py_get body ''join_token'' = Inr (JStr (join_token srv))"
    and "py_get body ''user_id'' = Inr user_id" and "py_truthy user_id"
    and "py_get body ''prekey_bundle'' = Inr pk" and "py_truthy pk"
    and "decode_bundle ios pk = Some b"
  shows "join_checks ios body srv = Returned (user_id, b)"
  using assms by (simp add: join_checks_def)

lemma bson_error_JStr: "bson_error (JStr u) = None"
  by simp

lemma servers_update_plain:
  assumes "plain_id uid" "int64_ok (registration_id b)"
  shows "servers_update uid (JStr uid) b srv =
     Inr (srv\<lparr>members := dict_set uid (bundle_doc b) (members srv),
              admin_user_id := (if admin_user_id srv = JNull then JStr uid
                                else admin_user_id srv)\<rparr>)"
  using assms by (simp add: servers_update_def mongo_set_plain) (simp add: plain_id_def)

lemma member_tokens_update_plain:
  assumes "plain_id uid"
  shows "member_tokens_update uid tok td =
     Inr (map_option (\<lambda>d. d\<lparr>tokens := dict_set uid (BStr tok) (tokens d)\<rparr>) td)"
proof -
  have "list_all valid_field (split_dots uid)"
    using assms by (simp add: plain_id_def split_dots_plain valid_field_def)
  then show ?thesis
    using assms by (simp add: member_tokens_update_def mongo_set_plain plain_id_def split: option.splits)
qed

lemma b64_field_bundle_doc:
  "b64_field
     [(''registration_id'', BInt r), (''identity'', BBytes i), (''signed_prekey'', BBytes sp),
      (''signed_prekey_sig'', BBytes sg), (''one_time_prekey'', BBytes ot)] k =
   (if k = ''identity'' then Inr (b64encode i)
    else if k = ''signed_prekey'' then Inr (b64encode sp)
    else if k = ''signed_prekey_sig'' then Inr (b64encode sg)
    else if k = ''one_time_prekey'' then Inr (b64encode ot)
    else if k = ''registration_id'' then Inl TypeError
    else Inl KeyError)"
  by (simp add: b64_field_def)

lemma encode_member_bundle_doc:
  "encode_member (bundle_doc b) =
     Inr \<lparr>w_registration_id = BInt (registration_id b),
          w_identity = b64encode (identity b),
          w_signed_prekey = b64encode (signed_prekey b),
          w_signed_prekey_sig = b64encode (signed_prekey_sig b),
          w_one_time_prekey = b64encode (one_time_prekey b)\<rparr>"
  by (simp add: bundle_doc_def b64_field_bundle_doc)


lemma others_of_encodable:
  "encodable ms \<Longrightarrow> \<exists>os. others_of u ms = Inr os"
proof (induction ms)
  case Nil
  then show ?case by simp
next
  case (Cons m ms)
  obtain k v where m: "m = (k, v)" by (cases m)
  from Cons.prems obtain w where w: "encode_member v = Inr w"
    by (cases "encode_member v") (auto simp: encodable_def m)
  from Cons obtain os where "others_of u ms = Inr os"
    by (auto simp: encodable_def)
  then show ?case by (simp add: m w)
qed

lemma encodable_dict_set:
  "encodable ms \<Longrightarrow> encodable (dict_set uid (bundle_doc b) ms)"
  by (induction ms) (auto simp: encodable_def encode_member_bundle_doc)

lemma join_server_plain:
  assumes "servers_col s sid = Some srv"
    and "py_get body ''join_token'' = Inr (JStr (join_token srv))"
    and "py_get body ''user_id'' = Inr (JStr uid)" and "plain_id uid"
    and "py_get body ''prekey_bundle'' = Inr pk" and "py_truthy pk"
    and "decode_bundle ios pk = Some b" and "int64_ok (registration_id b)"
    and "encodable (members srv)"
  shows "\<exists>os. others_of (JStr uid) (dict_set uid (bundle_doc b) (members srv)) = Inr os
     \<and> join_server fails fr ios tok now sid (Some body) s =
     (if fst (case connected s sid of
                None \<Rightarrow> (True, [])
              | Some d \<Rightarrow> send_all fails (join_notification (JStr uid)) (map snd d))
      then Returned \<lparr>member_token = tok, others = os,
                     r_admin_user_id = (if admin_user_id srv = JNull then JStr uid
                                        else admin_user_id srv)\<rparr>
      else Raised SendError,
      put_tokens sid
        (map_option (\<lambda>d. d\<lparr>tokens := dict_set uid (BStr tok) (tokens d), t_last_activity := now\<rparr>)
           (member_tokens_col s sid))
        (put_server sid
           (srv\<lparr>members := dict_set uid (bundle_doc b) (members srv),
                admin_user_id := (if admin_user_id srv = JNull then JStr uid
                                  else admin_user_id srv),
                last_activity := now\<rparr>)
           (update_activity sid now s)),
      snd (case connected s sid of
             None \<Rightarrow> (True, [])
           | Some d \<Rightarrow> send_all fails (join_notification (JStr uid)) (map snd d)))"
proof -
  from assms(4) have t: "py_truthy (JStr uid)" by (simp add: plain_id_def)
  have c: "join_checks ios body srv = Returned (JStr uid, b)"
    using assms(2,3) t assms(5,6,7) by (rule join_checks_valid)
  obtain os where os: "others_of (JStr uid) (dict_set uid (bundle_doc b) (members srv)) = Inr os"
    using others_of_encodable [OF encodable_dict_set [OF assms(9)]] by blast
  have "join_server fails fr ios tok now sid (Some body) s =
     (if fst (case connected s sid of
                None \<Rightarrow> (True, [])
              | Some d \<Rightarrow> send_all fails (join_notification (JStr uid)) (map snd d))
      then Returned \<lparr>member_token = tok, others = os,
                     r_admin_user_id = (if admin_user_id srv = JNull then JStr uid
                                        else admin_user_id srv)\<rparr>
      else Raised SendError,
      put_tokens sid
        (map_option (\<lambda>d. d\<lparr>tokens := dict_set uid (BStr tok) (tokens d), t_last_activity := now\<rparr>)
           (member_tokens_col s sid))
        (put_server sid
           (srv\<lparr>members := dict_set uid (bundle_doc b) (members srv),
                admin_user_id := (if admin_user_id srv = JNull then JStr uid
                                  else admin_user_id srv),
                last_activity := now\<rparr>)
           (update_activity sid now s)),
      snd (case connected s sid of
             None \<Rightarrow> (True, [])
           | Some d \<Rightarrow> send_all fails (join_notification (JStr uid)) (map snd d)))"
    unfolding join_server_room [OF assms(1)]
    by (simp add: c servers_update_plain [OF assms(4,8)] member_tokens_update_plain [OF assms(4)] os
        option.map_comp comp_def)
  with os show ?thesis by blast
qed

lemma join_plain_state:
  assumes "servers_col s sid = Some srv"
    and "py_get body ''join_token'' = Inr (JStr (join_token srv))"
    and "py_get body ''user_id'' = Inr (JStr uid)" and "plain_id uid"
    and "py_get body ''prekey_bundle'' = Inr pk" and "py_truthy pk"
    and "decode_bundle ios pk = Some b" and "int64_ok (registration_id b)"
    and "encodable (members srv)"
  shows "fst (snd (join_server fails fr ios tok now sid (Some body) s)) =
      put_tokens sid
        (map_option (\<lambda>d. d\<lparr>tokens := dict_set uid (BStr tok) (tokens d), t_last_activity := now\<rparr>)
           (member_tokens_col s sid))
        (put_server sid
           (srv\<lparr>members := dict_set uid (bundle_doc b) (members srv),
                admin_user_id := (if admin_user_id srv = JNull then JStr uid
                                  else admin_user_id srv),
                last_activity := now\<rparr>)
           (update_activity sid now s))"
  using join_server_plain [OF assms, of fails fr tok now] by auto

lemma join_plain_stored:
  assumes "servers_col s sid = Some srv"
    and "py_get body ''join_token'' = Inr (JStr (join_token srv))"
    and "py_get body ''user_id'' = Inr (JStr uid)" and "plain_id uid"
    and "py_get body ''prekey_bundle'' = Inr pk" and "py_truthy pk"
    and "decode_bundle ios pk = Some b" and "int64_ok (registration_id b)"
    and "encodable (members srv)"
  shows "member_of (fst (snd (join_server fails fr ios tok now sid (Some body) s))) sid uid =
           Some (bundle_doc b)"
    and "token_of (fst (snd (join_server fails fr ios tok now sid (Some body) s))) sid uid =
           (if member_tokens_col s sid = None then None else Some (BStr tok))"
    and "admin_of (fst (snd (join_server fails fr ios tok now sid (Some body) s))) sid =
           Some (if admin_user_id srv = JNull then JStr uid else admin_user_id srv)"
  unfolding join_plain_state [OF assms]
  by (auto simp: member_of_def token_of_def admin_of_def put_tokens_def put_server_def
      map_of_dict_set_same)

lemma demo_decode: "decode_bundle no_int_of_str demo_prekey = Some demo_bundle"
  by (simp add: decode_bundle_def demo_prekey_def demo_bundle_def b64decode_def
      table_a2b_base64_def b64_alphabet_def)

lemma py_get_join_body:
  "py_get (join_body presented user_id prekey) ''join_token'' = Inr (JStr presented)"
  "py_get (join_body presented user_id prekey) ''user_id'' = Inr user_id"
  "py_get (join_body presented user_id prekey) ''prekey_bundle'' = Inr prekey"
  by (simp_all add: join_body_def)

lemma demo_prekey_truthy: "py_truthy demo_prekey"
  by (simp add: demo_prekey_def)

lemma demo_bundle_int64: "int64_ok (registration_id demo_bundle)"
  by (simp add: demo_bundle_def int64_ok_def)

lemma demo_plain: "plain_id ''carol''" "plain_id ''dave''" "plain_id ''a''"
  by (simp_all add: plain_id_def has_nul_def)

lemma demo_two_online_room:
  "servers_col demo_two_online ''room'' =
     Some \<lparr>join_token = ''secret'', admin_user_id = JStr ''alice'',
           members = [(''alice'', bundle_doc demo_bundle), (''bob'', bundle_doc demo_bundle)],
           created_at = 0, last_activity = 0\<rparr>"
  "connected demo_two_online ''room'' = Some [(''alice'', 1), (''bob'', 2)]"
  "member_tokens_col demo_two_online ''room'' =
     Some \<lparr>tokens = [(''alice'', BStr ''tok-a''), (''bob'', BStr ''tok-b'')],
           t_created_at = 0, t_last_activity = 0\<rparr>"
  "rate_limits demo_two_online = Map.empty"
  by (simp_all add: demo_two_online_def)

lemma demo_encodable:
  "encodable [(''alice'', bundle_doc demo_bundle), (''bob'', bundle_doc demo_bundle)]"
  "encodable [(''alice'', bundle_doc demo_bundle)]"
  "encodable []"
  by (simp_all add: encodable_def encode_member_bundle_doc)

lemma demo_group_short: "\<not> SIZE_LIMIT < length (py_str whole_float_repr demo_group)"
  by (simp add: demo_group_def SIZE_LIMIT_def py_repr_str_def py_repr_char_def Let_def)

lemma demo_join_valid:
  "py_get demo_join ''join_token'' =
        Inr (JStr (join_token \<lparr>join_token = ''secret'', admin_user_id = JStr ''alice'',
           members = [(''alice'', bundle_doc demo_bundle), (''bob'', bundle_doc demo_bundle)],
           created_at = 0, last_activity = 0\<rparr>))"
  "py_get demo_join ''user_id'' = Inr (JStr ''carol'')"
  "py_get demo_join ''prekey_bundle'' = Inr demo_prekey"
  "encodable (members \<lparr>join_token = ''secret'', admin_user_id = JStr ''alice'',
           members = [(''alice'', bundle_doc demo_bundle), (''bob'', bundle_doc demo_bundle)],
           created_at = 0, last_activity = 0\<rparr>)"
  by (simp_all add: demo_join_def py_get_join_body demo_encodable)

subsection \<open>Broadcasts and failing sends\<close>

lemma join_server_reaches_broadcast:
  assumes "servers_col s sid = Some srv"
    and "join_checks ios body srv = Returned (user_id, b)"
    and "servers_update (py_str fr user_id) user_id b srv = Inr srv'"
    and "member_tokens_update (py_str fr user_id) tok (member_tokens_col s sid) = Inr td'"
    and "others_of user_id (members srv') = Inr os"
    and "connected s sid = Some d"
  shows "join_server fails fr ios tok now sid (Some body) s =
     (if list_ex fails (map snd d) then Raised SendError
      else Returned \<lparr>member_token = tok, others = os, r_admin_user_id = admin_user_id srv'\<rparr>,
      put_tokens sid (map_option (\<lambda>d. d\<lparr>t_last_activity := now\<rparr>) td')
        (put_server sid (srv'\<lparr>last_activity := now\<rparr>) (update_activity sid now s)),
      map (\<lambda>w. (w, join_notification user_id)) (takeWhile (\<lambda>w. \<not> fails w) (map snd d)))"
  unfolding join_server_room [OF assms(1)]
  using assms(2-6) by (simp add: send_all_prefix)

lemma join_plain_deliveries:
  assumes "servers_col s sid = Some srv"
    and "py_get body ''join_token'' = Inr (JStr (join_token srv))"
    and "py_get body ''user_id'' = Inr (JStr uid)" and "plain_id uid"
    and "py_get body ''prekey_bundle'' = Inr pk" and "py_truthy pk"
    and "decode_bundle ios pk = Some b" and "int64_ok (registration_id b)"
    and "encodable (members srv)" and "connected s sid = Some d"
  shows "snd (snd (join_server fails fr ios tok now sid (Some body) s)) =
          map (\<lambda>w. (w, join_notification (JStr uid))) (takeWhile (\<lambda>w. \<not> fails w) (map snd d))"
    and "list_ex fails (map snd d) \<Longrightarrow>
          fst (join_server fails fr ios tok now sid (Some body) s) = Raised SendError"
    and "\<not> list_ex fails (map snd d) \<Longrightarrow>
          \<exists>r. fst (join_server fails fr ios tok now sid (Some body) s) = Returned r"
proof -
  from join_server_plain [OF assms(1-9), of fails fr tok now]
  obtain os where j: "join_server fails fr ios tok now sid (Some body) s =
     (if fst (case connected s sid of
                None \<Rightarrow> (True, [])
              | Some d \<Rightarrow> send_all fails (join_notification (JStr uid)) (map snd d))
      then Returned \<lparr>member_token = tok, others = os,
                     r_admin_user_id = (if admin_user_id srv = JNull then JStr uid
                                        else admin_user_id srv)\<rparr>
      else Raised SendError,
      put_tokens sid
        (map_option (\<lambda>d. d\<lparr>tokens := dict_set uid (BStr tok) (tokens d), t_last_activity := now\<rparr>)
           (member_tokens_col s sid))
        (put_server sid
           (srv\<lparr>members := dict_set uid (bundle_doc b) (members srv),
                admin_user_id := (if admin_user_id srv = JNull then JStr uid
                                  else admin_user_id srv),
                last_activity := now\<rparr>)
           (update_activity sid now s)),
      snd (case connected s sid of
             None \<Rightarrow> (True, [])
           | Some d \<Rightarrow> send_all fails (join_notification (JStr uid)) (map snd d)))"
    by blast
  show "snd (snd (join_server fails fr ios tok now sid (Some body) s)) =
          map (\<lambda>w. (w, join_notification (JStr uid))) (takeWhile (\<lambda>w. \<not> fails w) (map snd d))"
    by (simp add: j assms(10) send_all_prefix)
  show "fst (join_server fails fr ios tok now sid (Some body) s) = Raised SendError"
    if "list_ex fails (map snd d)"
    using that by (simp add: j assms(10) send_all_prefix)
  show "\<exists>r. fst (join_server fails fr ios tok now sid (Some body) s) = Returned r"
    if "\<not> list_ex fails (map snd d)"
    using that by (simp add: j assms(10) send_all_prefix)
qed

lemma servers_col_put:
  "servers_col (put_tokens sid td (put_server sid d s)) sid = Some d"
  by (simp add: put_tokens_def put_server_def)

lemma dispatch_broadcast:
  assumes "py_get data ''type'' = Inr (JStr ''group'')
           \<or> py_get data ''type'' = Inr (JStr ''join_notification'')"
    and "connected s sid = Some d"
  shows "dispatch fails sid data s =
     (if list_ex fails (map snd d) then Some SendError else None,
      map (\<lambda>w. (w, data)) (takeWhile (\<lambda>w. \<not> fails w) (map snd d)))"
  using assms by (auto simp: dispatch_def send_all_prefix)

lemma ws_loop_error:
  "fst (handle_frame fails fr now utc sid uid ip data s) \<noteq> None \<Longrightarrow>
     ws_loop fails fr sid uid ip ((data, now, utc) # frames) s =
       handle_frame fails fr now utc sid uid ip data s"
  by (simp add: split_beta)

text \<open>
  Claim C2, as the code has it. A broadcast sends to the registered sockets in registry
  order and stops at the first send that raises: the sockets before it have the frame,
  the ones after it get no attempt, and the exception leaves the handler. A Join that
  gets as far as its notification broadcast and meets a failing socket therefore ends
  in that exception and returns no response, its bundle being stored all the same; with
  no failing socket every registered socket is notified and the Join returns its
  response. This is stated for a well-formed request under a user id that is one field
  name, in a room whose members can all be encoded, and then for every request whose
  checks, two updates and \<open>others\<close> loop go through. In the receive loop a failing
  relay ends the loop of the sending connection.
\<close>

theorem broadcast_stops_at_first_failure:
  "send_all fails data wss =
     (\<not> list_ex fails wss, map (\<lambda>w. (w, data)) (takeWhile (\<lambda>w. \<not> fails w) wss))
   \<and> (servers_col s sid = Some srv \<and> py_get body ''join_token'' = Inr (JStr (join_token srv))
        \<and> py_get body ''user_id'' = Inr (JStr uid) \<and> plain_id uid
        \<and> py_get body ''prekey_bundle'' = Inr pk \<and> py_truthy pk
        \<and> decode_bundle ios pk = Some b \<and> int64_ok (registration_id b)
        \<and> encodable (members srv) \<and> connected s sid = Some d \<longrightarrow>
        snd (snd (join_server fails fr ios tok now sid (Some body) s)) =
          map (\<lambda>w. (w, join_notification (JStr uid))) (takeWhile (\<lambda>w. \<not> fails w) (map snd d))
        \<and> (list_ex fails (map snd d) \<longrightarrow>
              fst (join_server fails fr ios tok now sid (Some body) s) = Raised SendError)
        \<and> (\<not> list_ex fails (map snd d) \<longrightarrow>
              (\<exists>r. fst (join_server fails fr ios tok now sid (Some body) s) = Returned r))
        \<and> (\<exists>srv'. servers_col (fst (snd (join_server fails fr ios tok now sid (Some body) s))) sid
                     = Some srv'
                   \<and> map_of (members srv') uid = Some (bundle_doc b)))
   \<and> (servers_col s sid = Some srv \<and> join_checks ios body srv = Returned (user_id, b)
        \<and> servers_update (py_str fr user_id) user_id b srv = Inr srv'
        \<and> member_tokens_update (py_str fr user_id) tok (member_tokens_col s sid) = Inr td'
        \<and> others_of user_id (members srv') = Inr os \<and> connected s sid = Some d \<longrightarrow>
        join_server fails fr ios tok now sid (Some body) s =
          (if list_ex fails (map snd d) then Raised SendError
           else Returned \<lparr>member_token = tok, others = os,
                          r_admin_user_id = admin_user_id srv'\<rparr>,
           put_tokens sid (map_option (\<lambda>d. d\<lparr>t_last_activity := now\<rparr>) td')
             (put_server sid (srv'\<lparr>last_activity := now\<rparr>) (update_activity sid now s)),
           map (\<lambda>w. (w, join_notification user_id))
             (takeWhile (\<lambda>w. \<not> fails w) (map snd d))))
   \<and> ((py_get data ''type'' = Inr (JStr ''group'')
         \<or> py_get data ''type'' = Inr (JStr ''join_notification''))
        \<and> connected s sid = Some d \<longrightarrow>
        dispatch fails sid data s =
          (if list_ex fails (map snd d) then Some SendError else None,
           map (\<lambda>w. (w, data)) (takeWhile (\<lambda>w. \<not> fails w) (map snd d))))
   \<and> (fst (handle_frame fails fr t utc sid me ip data s) \<noteq> None \<longrightarrow>
        ws_loop fails fr sid me ip ((data, t, utc) # frames) s =
          handle_frame fails fr t utc sid me ip data s)"
proof (intro conjI impI)
  show "send_all fails data wss =
     (\<not> list_ex fails wss, map (\<lambda>w. (w, data)) (takeWhile (\<lambda>w. \<not> fails w) wss))"
    by (rule send_all_prefix)
next
  assume h: "servers_col s sid = Some srv \<and> py_get body ''join_token'' = Inr (JStr (join_token srv))
        \<and> py_get body ''user_id'' = Inr (JStr uid) \<and> plain_id uid
        \<and> py_get body ''prekey_bundle'' = Inr pk \<and> py_truthy pk
        \<and> decode_bundle ios pk = Some b \<and> int64_ok (registration_id b)
        \<and> encodable (members srv) \<and> connected s sid = Some d"
  then have 1: "servers_col s sid = Some srv"
    and 2: "py_get body ''join_token'' = Inr (JStr (join_token srv))"
    and 3: "py_get body ''user_id'' = Inr (JStr uid)" and 4: "plain_id uid"
    and 5: "py_get body ''prekey_bundle'' = Inr pk" and 6: "py_truthy pk"
    and 7: "decode_bundle ios pk = Some b" and 8: "int64_ok (registration_id b)"
    and 9: "encodable (members srv)" and c: "connected s sid = Some d"
    by blast+
  from join_server_plain [OF 1 2 3 4 5 6 7 8 9, of fails fr tok now]
  obtain os where j: "join_server fails fr ios tok now sid (Some body) s =
     (if fst (case connected s sid of
                None \<Rightarrow> (True, [])
              | Some d \<Rightarrow> send_all fails (join_notification (JStr uid)) (map snd d))
      then Returned \<lparr>member_token = tok, others = os,
                     r_admin_user_id = (if admin_user_id srv = JNull then JStr uid
                                        else admin_user_id srv)\<rparr>
      else Raised SendError,
      put_tokens sid
        (map_option (\<lambda>d. d\<lparr>tokens := dict_set uid (BStr tok) (tokens d), t_last_activity := now\<rparr>)
           (member_tokens_col s sid))
        (put_server sid
           (srv\<lparr>members := dict_set uid (bundle_doc b) (members srv),
                admin_user_id := (if admin_user_id srv = JNull then JStr uid
                                  else admin_user_id srv),
                last_activity := now\<rparr>)
           (update_activity sid now s)),
      snd (case connected s sid of
             None \<Rightarrow> (True, [])
           | Some d \<Rightarrow> send_all fails (join_notification (JStr uid)) (map snd d)))"
    by blast
  show "snd (snd (join_server fails fr ios tok now sid (Some body) s)) =
          map (\<lambda>w. (w, join_notification (JStr uid))) (takeWhile (\<lambda>w. \<not> fails w) (map snd d))"
    using 1 2 3 4 5 6 7 8 9 c by (rule join_plain_deliveries(1))
  show "fst (join_server fails fr ios tok now sid (Some body) s) = Raised SendError"
    if "list_ex fails (map snd d)"
    using 1 2 3 4 5 6 7 8 9 c that by (rule join_plain_deliveries(2))
  show "\<exists>r. fst (join_server fails fr ios tok now sid (Some body) s) = Returned r"
    if "\<not> list_ex fails (map snd d)"
    using 1 2 3 4 5 6 7 8 9 c that by (rule join_plain_deliveries(3))
  show "\<exists>srv'. servers_col (fst (snd (join_server fails fr ios tok now sid (Some body) s))) sid
                     = Some srv'
                   \<and> map_of (members srv') uid = Some (bundle_doc b)"
    by (simp add: j servers_col_put map_of_dict_set_same)
next
  assume h: "servers_col s sid = Some srv \<and> join_checks ios body srv = Returned (user_id, b)
        \<and> servers_update (py_str fr user_id) user_id b srv = Inr srv'
        \<and> member_tokens_update (py_str fr user_id) tok (member_tokens_col s sid) = Inr td'
        \<and> others_of user_id (members srv') = Inr os \<and> connected s sid = Some d"
  then have 1: "servers_col s sid = Some srv"
    and 2: "join_checks ios body srv = Returned (user_id, b)"
    and 3: "servers_update (py_str fr user_id) user_id b srv = Inr srv'"
    and 4: "member_tokens_update (py_str fr user_id) tok (member_tokens_col s sid) = Inr td'"
    and 5: "others_of user_id (members srv') = Inr os" and 6: "connected s sid = Some d"
    by blast+
  show "join_server fails fr ios tok now sid (Some body) s =
          (if list_ex fails (map snd d) then Raised SendError
           else Returned \<lparr>member_token = tok, others = os,
                          r_admin_user_id = admin_user_id srv'\<rparr>,
           put_tokens sid (map_option (\<lambda>d. d\<lparr>t_last_activity := now\<rparr>) td')
             (put_server sid (srv'\<lparr>last_activity := now\<rparr>) (update_activity sid now s)),
           map (\<lambda>w. (w, join_notification user_id))
             (takeWhile (\<lambda>w. \<not> fails w) (map snd d)))"
    using 1 2 3 4 5 6 by (rule join_server_reaches_broadcast)
next
  assume "(py_get data ''type'' = Inr (JStr ''group'')
         \<or> py_get data ''type'' = Inr (JStr ''join_notification''))
        \<and> connected s sid = Some d"
  then show "dispatch fails sid data s =
          (if list_ex fails (map snd d) then Some SendError else None,
           map (\<lambda>w. (w, data)) (takeWhile (\<lambda>w. \<not> fails w) (map snd d)))"
    by (intro dispatch_broadcast) auto
next
  assume "fst (handle_frame fails fr t utc sid me ip data s) \<noteq> None"
  then show "ws_loop fails fr sid me ip ((data, t, utc) # frames) s =
          handle_frame fails fr t utc sid me ip data s"
    by (rule ws_loop_error)
qed

text \<open>
  Against claim C2 as stated: carol joins while alice (socket 1) and bob (socket 2) are
  registered and only socket 1 raises on send. Bob's socket gets no notification, and
  the join ends in the uncaught exception instead of its response.
\<close>

theorem join_broadcast_counterexample:
  "registry_get demo_two_online ''room'' ''bob'' = Some 2 \<and> \<not> only_fails 1 2
   \<and> snd (snd (join_server (only_fails 1) whole_float_repr no_int_of_str ''tok-c'' 50 ''room''
                  (Some demo_join) demo_two_online)) = []
   \<and> fst (join_server (only_fails 1) whole_float_repr no_int_of_str ''tok-c'' 50 ''room''
             (Some demo_join) demo_two_online) = Raised SendError"
proof -
  have p: "py_get demo_join ''join_token'' =
        Inr (JStr (join_token \<lparr>join_token = ''secret'', admin_user_id = JStr ''alice'',
           members = [(''alice'', bundle_doc demo_bundle), (''bob'', bundle_doc demo_bundle)],
           created_at = 0, last_activity = 0\<rparr>))"
    and u: "py_get demo_join ''user_id'' = Inr (JStr ''carol'')"
    and k: "py_get demo_join ''prekey_bundle'' = Inr demo_prekey"
    and e: "encodable (members \<lparr>join_token = ''secret'', admin_user_id = JStr ''alice'',
           members = [(''alice'', bundle_doc demo_bundle), (''bob'', bundle_doc demo_bundle)],
           created_at = 0, last_activity = 0\<rparr>)"
    by (simp_all add: demo_join_def py_get_join_body demo_encodable)
  note J = join_plain_deliveries [OF demo_two_online_room(1) p u demo_plain(1) k
      demo_prekey_truthy demo_decode demo_bundle_int64 e demo_two_online_room(2),
      of "only_fails 1" whole_float_repr "''tok-c''" 50]
  have f: "list_ex (only_fails 1) (map snd [(''alice'', 1), (''bob'', 2 :: ws)])"
    by (simp add: only_fails_def)
  show ?thesis
    using J(1) J(2) [OF f]
    by (simp add: only_fails_def registry_get_def demo_two_online_room)
qed

lemma demo_frame_fails:
  "fst (handle_frame (only_fails 2) whole_float_repr 5 50 ''room'' ''alice'' ''10.0.0.1''
          demo_group demo_two_online) = Some SendError"
  using demo_group_short
  by (simp add: handle_frame_def is_rate_limited_def
      MESSAGE_LIMIT_def demo_two_online_def update_activity_def dispatch_def demo_group_def
      only_fails_def)

theorem broadcast_stops_at_first_failure_witness:
  "decode_bundle no_int_of_str demo_prekey = Some demo_bundle
   \<and> connected demo_two_online ''room'' = Some [(''alice'', 1), (''bob'', 2)]
   \<and> list_ex (only_fails 2) (map snd [(''alice'', 1), (''bob'', 2 :: ws)])
   \<and> \<not> list_ex (only_fails 9) (map snd [(''alice'', 1), (''bob'', 2 :: ws)])
   \<and> py_get demo_group ''type'' = Inr (JStr ''group'')
   \<and> snd (snd (join_server (only_fails 2) whole_float_repr no_int_of_str ''tok-c'' 50 ''room''
                  (Some demo_join) demo_two_online)) = [(1, join_notification (JStr ''carol''))]
   \<and> fst (join_server (only_fails 2) whole_float_repr no_int_of_str ''tok-c'' 50 ''room''
             (Some demo_join) demo_two_online) = Raised SendError
   \<and> snd (snd (join_server (only_fails 9) whole_float_repr no_int_of_str ''tok-c'' 50 ''room''
                  (Some demo_join) demo_two_online)) =
        [(1, join_notification (JStr ''carol'')), (2, join_notification (JStr ''carol''))]
   \<and> (\<exists>r. fst (join_server (only_fails 9) whole_float_repr no_int_of_str ''tok-c'' 50 ''room''
                  (Some demo_join) demo_two_online) = Returned r)
   \<and> dispatch (only_fails 2) ''room'' demo_group demo_two_online =
        (Some SendError, [(1, demo_group)])
   \<and> ws_loop (only_fails 2) whole_float_repr ''room'' ''alice'' ''10.0.0.1''
        [(demo_group, 5, 50), (demo_group, 6, 60)] demo_two_online =
       handle_frame (only_fails 2) whole_float_repr 5 50 ''room'' ''alice'' ''10.0.0.1''
         demo_group demo_two_online"
proof -
  let ?srv = "\<lparr>join_token = ''secret'', admin_user_id = JStr ''alice'',
           members = [(''alice'', bundle_doc demo_bundle), (''bob'', bundle_doc demo_bundle)],
           created_at = 0, last_activity = 0\<rparr>"
  let ?d = "[(''alice'', 1), (''bob'', 2 :: ws)]"
  have valid: "servers_col demo_two_online ''room'' = Some ?srv
      \<and> py_get demo_join ''join_token'' = Inr (JStr (join_token ?srv))
      \<and> py_get demo_join ''user_id'' = Inr (JStr ''carol'') \<and> plain_id ''carol''
      \<and> py_get demo_join ''prekey_bundle'' = Inr demo_prekey \<and> py_truthy demo_prekey
      \<and> decode_bundle no_int_of_str demo_prekey = Some demo_bundle
      \<and> int64_ok (registration_id demo_bundle)
      \<and> encodable (members ?srv)
      \<and> connected demo_two_online ''room'' = Some ?d"
    using demo_decode demo_two_online_room demo_plain demo_prekey_truthy demo_bundle_int64
      demo_encodable
    by (simp add: demo_join_def py_get_join_body)
  have f2: "list_ex (only_fails 2) (map snd ?d)" and f9: "\<not> list_ex (only_fails 9) (map snd ?d)"
    by (simp_all add: only_fails_def)
  have ty: "py_get demo_group ''type'' = Inr (JStr ''group'')"
    by (simp add: demo_group_def)
  have hf: "fst (handle_frame (only_fails 2) whole_float_repr 5 50 ''room'' ''alice'' ''10.0.0.1''
                  demo_group demo_two_online) \<noteq> None"
    by (simp add: demo_frame_fails)
  note A = broadcast_stops_at_first_failure [where fails = "only_fails 2" and s = demo_two_online
      and sid = "''room''" and srv = ?srv and body = demo_join and uid = "''carol''"
      and pk = demo_prekey and ios = no_int_of_str and b = demo_bundle and d = ?d
      and tok = "''tok-c''" and now = 50 and data = demo_group and fr = whole_float_repr
      and t = 5 and utc = 50 and me = "''alice''" and ip = "''10.0.0.1''"
      and frames = "[(demo_group, 6, 60)]"]
  note B = broadcast_stops_at_first_failure [where fails = "only_fails 9" and s = demo_two_online
      and sid = "''room''" and srv = ?srv and body = demo_join and uid = "''carol''"
      and pk = demo_prekey and ios = no_int_of_str and b = demo_bundle and d = ?d
      and tok = "''tok-c''" and now = 50 and fr = whole_float_repr]
  have 1: "snd (snd (join_server (only_fails 2) whole_float_repr no_int_of_str ''tok-c'' 50 ''room''
                  (Some demo_join) demo_two_online)) = [(1, join_notification (JStr ''carol''))]"
    using A valid by (simp add: only_fails_def)
  have 2: "fst (join_server (only_fails 2) whole_float_repr no_int_of_str ''tok-c'' 50 ''room''
             (Some demo_join) demo_two_online) = Raised SendError"
    using A valid f2 by blast
  have 3: "snd (snd (join_server (only_fails 9) whole_float_repr no_int_of_str ''tok-c'' 50 ''room''
                  (Some demo_join) demo_two_online)) =
        [(1, join_notification (JStr ''carol'')), (2, join_notification (JStr ''carol''))]"
    using B valid by (simp add: only_fails_def)
  have 4: "\<exists>r. fst (join_server (only_fails 9) whole_float_repr no_int_of_str ''tok-c'' 50 ''room''
                  (Some demo_join) demo_two_online) = Returned r"
    using B valid f9 by blast
  have 5: "dispatch (only_fails 2) ''room'' demo_group demo_two_online =
        (Some SendError, [(1, demo_group)])"
    using A valid ty by (simp add: only_fails_def)
  have 6: "ws_loop (only_fails 2) whole_float_repr ''room'' ''alice'' ''10.0.0.1''
        [(demo_group, 5, 50), (demo_group, 6, 60)] demo_two_online =
       handle_frame (only_fails 2) whole_float_repr 5 50 ''room'' ''alice'' ''10.0.0.1''
         demo_group demo_two_online"
    using A hf by blast
  from valid f2 f9 ty 1 2 3 4 5 6 show ?thesis by blast
qed

subsection \<open>The receive loop: size limit and routing\<close>

lemma handle_frame_oversized:
  "SIZE_LIMIT < length (py_str fr data) \<Longrightarrow>
     handle_frame fails fr now utc sid uid ip data s = (None, s, [])"
  by (simp add: handle_frame_def)

lemma dispatch_cong:
  "connected s' = connected s \<Longrightarrow> dispatch fails sid data s' = dispatch fails sid data s"
  unfolding dispatch_def by presburger

lemma handle_frame_accepted:
  assumes "\<not> SIZE_LIMIT < length (py_str fr data)"
    and "\<not> fst (is_rate_limited uid now (rate_limits s))"
    and "\<not> fst (is_rate_limited ip now (snd (is_rate_limited uid now (rate_limits s))))"
  shows "handle_frame fails fr now utc sid uid ip data s =
     (fst (dispatch fails sid data s),
      update_activity sid utc
        (s\<lparr>rate_limits := snd (is_rate_limited ip now (snd (is_rate_limited uid now (rate_limits s))))\<rparr>),
      snd (dispatch fails sid data s))"
proof -
  have "connected (update_activity sid utc (s\<lparr>rate_limits := r\<rparr>)) = connected s" for r
    by (simp add: update_activity_def)
  then have d: "dispatch fails sid data (update_activity sid utc (s\<lparr>rate_limits := r\<rparr>)) =
        dispatch fails sid data s" for r
    by (rule dispatch_cong)
  show ?thesis using assms by (simp add: handle_frame_def split_beta Let_def d)
qed

text \<open>Lengths and sizes of the text of a string made of one repeated character.\<close>

lemma length_concat_replicate:
  "length (concat (map f (replicate n c))) = n * length (f c)"
  by (induction n) auto

lemma utf8_size_append: "utf8_size (xs @ ys) = utf8_size xs + utf8_size ys"
  by (simp add: utf8_size_def)

lemma utf8_size_Nil: "utf8_size [] = 0"
  by (simp add: utf8_size_def)

lemma utf8_size_concat_replicate:
  "utf8_size (concat (map f (replicate n c))) = n * utf8_size (f c)"
  by (induction n) (auto simp: utf8_size_append utf8_size_Nil)

lemma utf8_size_Cons:
  "utf8_size (c # cs) = (if (of_char c :: nat) < 128 then 1 else 2) + utf8_size cs"
  by (simp add: utf8_size_def)



lemma length_py_repr_str_letters:
  "length (py_repr_str (replicate n (CHR ''x''))) = n + 2"
proof -
  have "py_repr_char (CHR 39) (CHR ''x'') = [CHR ''x'']"
    by (simp add: py_repr_char_def)
  moreover have "CHR 39 \<notin> set (replicate n (CHR ''x''))"
    by auto
  ultimately show ?thesis
    using length_concat_replicate [of "py_repr_char (CHR 39)" n "CHR ''x''"]
    by (simp add: py_repr_str_def Let_def)
qed

lemma length_py_repr_str_quotes:
  "length (py_repr_str (replicate n (CHR 34))) = n + 2"
proof -
  have "py_repr_char (CHR 39) (CHR 34) = [CHR 34]"
    by (simp add: py_repr_char_def)
  moreover have "CHR 39 \<notin> set (replicate n (CHR 34))"
    by auto
  ultimately show ?thesis
    using length_concat_replicate [of "py_repr_char (CHR 39)" n "CHR 34"]
    by (simp add: py_repr_str_def Let_def)
qed

lemma utf8_size_json_str_quotes:
  "utf8_size (json_str (replicate n (CHR 34))) = 2 * n + 2"
proof -
  have "json_char (CHR 34) = [CHR 92, CHR 34]"
    by (simp add: json_char_def)
  then have "utf8_size (json_char (CHR 34)) = 2"
    by (simp add: utf8_size_Cons utf8_size_Nil)
  then show ?thesis
    using utf8_size_concat_replicate [of json_char n "CHR 34"]
    by (simp add: json_str_def utf8_size_Cons utf8_size_Nil utf8_size_append)
qed

lemma demo_long_str: "length (py_str whole_float_repr demo_long) = 5029"
  using length_py_repr_str_letters [of 5000]
  by (simp add: demo_long_def py_repr_str_def [of "''type''"] py_repr_str_def [of "''group''"]
      py_repr_str_def [of "''text''"] py_repr_char_def Let_def)

lemma demo_quotes_str: "length (py_str whole_float_repr demo_quotes) = 2129"
  using length_py_repr_str_quotes [of 2100]
  by (simp add: demo_quotes_def py_repr_str_def [of "''type''"] py_repr_str_def [of "''group''"]
      py_repr_str_def [of "''text''"] py_repr_char_def Let_def)

lemma demo_quotes_json: "json_size whole_float_repr demo_quotes = 4226"
  using utf8_size_json_str_quotes [of 2100]
  by (simp add: json_size_def demo_quotes_def utf8_size_append utf8_size_Cons utf8_size_Nil
      json_str_def [of "''type''"] json_str_def [of "''group''"] json_str_def [of "''text''"]
      json_char_def Let_def)

lemma demo_not_limited:
  "\<not> fst (is_rate_limited ''alice'' 5 (rate_limits demo_two_online))
   \<and> \<not> fst (is_rate_limited ''10.0.0.1'' 5
              (snd (is_rate_limited ''alice'' 5 (rate_limits demo_two_online))))"
  by (simp add: is_rate_limited_def MESSAGE_LIMIT_def demo_two_online_def)

lemma demo_handle_frame:
  assumes "\<not> SIZE_LIMIT < length (py_str whole_float_repr data)"
  shows "fst (handle_frame fails whole_float_repr 5 50 ''room'' ''alice'' ''10.0.0.1'' data
                demo_two_online) = fst (dispatch fails ''room'' data demo_two_online)"
    and "snd (snd (handle_frame fails whole_float_repr 5 50 ''room'' ''alice'' ''10.0.0.1'' data
                demo_two_online)) = snd (dispatch fails ''room'' data demo_two_online)"
  using handle_frame_accepted [OF assms, of "''alice''" 5 demo_two_online "''10.0.0.1''" fails 50
      "''room''"] demo_not_limited
  by simp_all

text \<open>
  Claim C9, as the code has it. The size test is on \<open>str(data)\<close>: a frame whose
  \<open>str\<close> is longer than \<open>SIZE_LIMIT\<close> characters ends its turn of the loop at once:
  nothing is delivered, no exception is raised, the whole state (registry, rate
  windows, counts, store) is as before, and the loop goes on with the next frame.
\<close>

theorem oversized_frame_dropped:
  assumes "SIZE_LIMIT < length (py_str fr data)"
  shows "handle_frame fails fr now utc sid uid ip data s = (None, s, [])
       \<and> ws_loop fails fr sid uid ip ((data, now, utc) # frames) s =
           ws_loop fails fr sid uid ip frames s"
  using assms by (simp add: handle_frame_oversized split_beta)

text \<open>
  Against claim C9 as stated: a group frame whose text is 2100 double quotes takes more
  than \<open>SIZE_LIMIT\<close> bytes even in its most compact JSON text, while its \<open>str\<close> has
  2129 characters; it passes the size test and is relayed to alice and bob.
\<close>

theorem oversized_json_counterexample:
  "SIZE_LIMIT < json_size whole_float_repr demo_quotes
   \<and> fst (handle_frame (only_fails 9) whole_float_repr 5 50 ''room'' ''alice'' ''10.0.0.1''
             demo_quotes demo_two_online) = None
   \<and> snd (snd (handle_frame (only_fails 9) whole_float_repr 5 50 ''room'' ''alice'' ''10.0.0.1''
             demo_quotes demo_two_online)) = [(1, demo_quotes), (2, demo_quotes)]"
proof -
  have s: "\<not> SIZE_LIMIT < length (py_str whole_float_repr demo_quotes)"
    by (simp add: demo_quotes_str SIZE_LIMIT_def)
  have "py_get demo_quotes ''type'' = Inr (JStr ''group'')"
    by (simp add: demo_quotes_def)
  then have "dispatch (only_fails 9) ''room'' demo_quotes demo_two_online =
      (None, [(1, demo_quotes), (2, demo_quotes)])"
    using send_all_prefix [of "only_fails 9" demo_quotes "[1, 2]"]
    by (simp add: dispatch_def demo_two_online_room only_fails_def)
  then show ?thesis
    using demo_handle_frame [OF s, of "only_fails 9"]
    by (simp add: demo_quotes_json SIZE_LIMIT_def)
qed

theorem oversized_frame_dropped_witness:
  "SIZE_LIMIT < length (py_str whole_float_repr demo_long)
   \<and> handle_frame (only_fails 9) whole_float_repr 5 50 ''room'' ''alice'' ''10.0.0.1'' demo_long
        demo_two_online = (None, demo_two_online, [])
   \<and> ws_loop (only_fails 9) whole_float_repr ''room'' ''alice'' ''10.0.0.1''
        [(demo_long, 5, 50), (demo_group, 6, 60)] demo_two_online =
       ws_loop (only_fails 9) whole_float_repr ''room'' ''alice'' ''10.0.0.1''
        [(demo_group, 6, 60)] demo_two_online"
proof -
  have h: "SIZE_LIMIT < length (py_str whole_float_repr demo_long)"
    by (simp add: demo_long_str SIZE_LIMIT_def)
  from oversized_frame_dropped [where fr = whole_float_repr and data = demo_long
      and fails = "only_fails 9" and now = 5 and utc = 50 and sid = "''room''"
      and uid = "''alice''" and ip = "''10.0.0.1''" and s = demo_two_online
      and frames = "[(demo_group, 6, 60)]"] h
  show ?thesis by blast
qed

lemma dispatch_not_object:
  "\<nexists>kvs. data = JObj kvs \<Longrightarrow> dispatch fails sid data s = (Some AttributeError, [])"
  by (cases data) (simp_all add: dispatch_def)

lemma dispatch_private_present:
  assumes "map_of kvs ''type'' = Some (JStr ''private'')" "map_of kvs ''to'' = Some (JStr k)"
    "k \<noteq> []" "registry_get s sid k = Some w"
  shows "dispatch fails sid (JObj kvs) s =
     (if fails w then (Some SendError, []) else (None, [(w, JObj kvs)]))"
  using assms by (auto simp: dispatch_def registry_get_def split: option.splits)

lemma dispatch_private_no_to:
  assumes "map_of kvs ''type'' = Some (JStr ''private'')" "map_of kvs ''to'' = None"
  shows "dispatch fails sid (JObj kvs) s = (None, [])"
  using assms by (auto simp: dispatch_def)

lemma dispatch_private_dropped:
  assumes "map_of kvs ''type'' = Some (JStr ''private'')" "map_of kvs ''to'' = Some v"
    and "\<not> py_truthy v \<or> connected s sid = None \<or> (\<exists>n. v = JInt n) \<or> (\<exists>r. v = JFloat r)
         \<or> (\<exists>b. v = JBool b) \<or> (\<exists>k. v = JStr k \<and> registry_get s sid k = None)"
  shows "dispatch fails sid (JObj kvs) s = (None, [])"
  using assms by (auto simp: dispatch_def registry_get_def split: option.splits)

lemma dispatch_private_unhashable:
  assumes "map_of kvs ''type'' = Some (JStr ''private'')" "map_of kvs ''to'' = Some v"
    and "py_truthy v" and "(\<exists>xs. v = JArr xs) \<or> (\<exists>kvs'. v = JObj kvs')"
    and "connected s sid = Some d"
  shows "dispatch fails sid (JObj kvs) s = (Some TypeError, [])"
  using assms by (auto simp: dispatch_def)

lemma dispatch_no_registry:
  assumes "map_of kvs ''type'' = Some (JStr ''group'')
           \<or> map_of kvs ''type'' = Some (JStr ''join_notification'')"
    and "connected s sid = None"
  shows "dispatch fails sid (JObj kvs) s = (Some KeyError, [])"
  using assms by (auto simp: dispatch_def)

lemma dispatch_other_type:
  assumes "map_of kvs ''type'' \<noteq> Some (JStr ''private'')"
    "map_of kvs ''type'' \<noteq> Some (JStr ''group'')"
    "map_of kvs ''type'' \<noteq> Some (JStr ''join_notification'')"
  shows "dispatch fails sid (JObj kvs) s = (None, [])"
  using assms by (auto simp: dispatch_def split: option.splits)

lemma py_lookup_in: "py_lookup v d = Some w \<Longrightarrow> w \<in> snd ` set d"
  by (cases v) (auto dest!: map_of_SomeD intro: rev_image_eqI)

lemma dispatch_targets:
  "set (snd (dispatch fails sid data s)) \<subseteq>
     (\<lambda>w. (w, data)) ` (case connected s sid of None \<Rightarrow> {} | Some d \<Rightarrow> snd ` set d)"
proof (cases "connected s sid")
  case None
  then show ?thesis
    by (auto simp: dispatch_def split: sum.splits option.splits bool.splits)
next
  case (Some d)
  have "set (snd (send_all fails data (map snd d))) \<subseteq> (\<lambda>w. (w, data)) ` snd ` set d"
    using send_all_targets [of fails data "map snd d"] by simp
  with Some show ?thesis
    by (auto simp: dispatch_def split_beta dest: py_lookup_in
        split: sum.splits option.splits bool.splits if_splits)
qed

lemma dispatch_broadcast_receivers:
  assumes "map_of kvs ''type'' = Some (JStr ''group'')
           \<or> map_of kvs ''type'' = Some (JStr ''join_notification'')"
    and "connected s sid = Some d" and "\<not> list_ex fails (map snd d)"
  shows "((w, JObj kvs) \<in> set (snd (dispatch fails sid (JObj kvs) s))) = (w \<in> snd ` set d)"
proof -
  have "dispatch fails sid (JObj kvs) s = (None, map (\<lambda>w. (w, JObj kvs)) (map snd d))"
    using assms(1,2) send_all_ok [OF assms(3), of "JObj kvs"]
    by (auto simp: dispatch_def)
  then show ?thesis by auto
qed

text \<open>
  Claim C8, as the code has it. A turn that passes the size and rate checks delivers
  what the routing decides, and every delivery is the frame itself to a socket
  registered in the sender's room. A frame that is no JSON object raises. For an
  object: with type "private" and a non-empty string \<open>to\<close> registered in the room the
  frame goes to that socket, unless the send raises; with \<open>to\<close> missing, falsy, a
  number, a boolean or a string that is not registered, or with no registry for the
  room, nothing is sent and nothing raised; with \<open>to\<close> a non-empty list or object the
  membership test raises. With type "group" or "join_notification" the frame goes to the
  sockets registered in the room in registry order up to the first whose send raises,
  so to every one of them when none raises, and a socket has the frame then exactly
  when it is registered in the room, the sender's like any other; without a registry of
  the room the lookup raises. With any other type, or none, nothing is sent and nothing
  raised.
\<close>

theorem relay_routing:
  "(\<not> SIZE_LIMIT < length (py_str fr data) \<and> \<not> fst (is_rate_limited uid now (rate_limits s))
     \<and> \<not> fst (is_rate_limited ip now (snd (is_rate_limited uid now (rate_limits s)))) \<longrightarrow>
       fst (handle_frame fails fr now utc sid uid ip data s) = fst (dispatch fails sid data s)
       \<and> snd (snd (handle_frame fails fr now utc sid uid ip data s)) =
           snd (dispatch fails sid data s))
   \<and> set (snd (dispatch fails sid data s)) \<subseteq>
        (\<lambda>w. (w, data)) ` (case connected s sid of None \<Rightarrow> {} | Some d \<Rightarrow> snd ` set d)
   \<and> ((\<nexists>kvs. data = JObj kvs) \<longrightarrow> dispatch fails sid data s = (Some AttributeError, []))
   \<and> (map_of kvs ''type'' = Some (JStr ''private'') \<and> map_of kvs ''to'' = Some (JStr k)
        \<and> k \<noteq> [] \<and> registry_get s sid k = Some w \<longrightarrow>
        dispatch fails sid (JObj kvs) s =
          (if fails w then (Some SendError, []) else (None, [(w, JObj kvs)])))
   \<and> (map_of kvs ''type'' = Some (JStr ''private'')
        \<and> (map_of kvs ''to'' = None
            \<or> map_of kvs ''to'' = Some v
               \<and> (\<not> py_truthy v \<or> connected s sid = None \<or> (\<exists>n. v = JInt n)
                   \<or> (\<exists>r. v = JFloat r) \<or> (\<exists>b. v = JBool b)
                   \<or> (\<exists>k. v = JStr k \<and> registry_get s sid k = None))) \<longrightarrow>
        dispatch fails sid (JObj kvs) s = (None, []))
   \<and> (map_of kvs ''type'' = Some (JStr ''private'') \<and> map_of kvs ''to'' = Some v
        \<and> py_truthy v \<and> ((\<exists>xs. v = JArr xs) \<or> (\<exists>kvs'. v = JObj kvs'))
        \<and> connected s sid = Some d \<longrightarrow>
        dispatch fails sid (JObj kvs) s = (Some TypeError, []))
   \<and> ((map_of kvs ''type'' = Some (JStr ''group'')
         \<or> map_of kvs ''type'' = Some (JStr ''join_notification''))
        \<and> connected s sid = Some d \<longrightarrow>
        dispatch fails sid (JObj kvs) s =
          (if list_ex fails (map snd d) then Some SendError else None,
           map (\<lambda>w. (w, JObj kvs)) (takeWhile (\<lambda>w. \<not> fails w) (map snd d)))
        \<and> (\<not> list_ex fails (map snd d) \<longrightarrow>
             dispatch fails sid (JObj kvs) s = (None, map (\<lambda>w. (w, JObj kvs)) (map snd d))
             \<and> ((w, JObj kvs) \<in> set (snd (dispatch fails sid (JObj kvs) s)))
                 = (w \<in> snd ` set d)))
   \<and> ((map_of kvs ''type'' = Some (JStr ''group'')
         \<or> map_of kvs ''type'' = Some (JStr ''join_notification''))
        \<and> connected s sid = None \<longrightarrow>
        dispatch fails sid (JObj kvs) s = (Some KeyError, []))
   \<and> (map_of kvs ''type'' \<noteq> Some (JStr ''private'')
        \<and> map_of kvs ''type'' \<noteq> Some (JStr ''group'')
        \<and> map_of kvs ''type'' \<noteq> Some (JStr ''join_notification'') \<longrightarrow>
        dispatch fails sid (JObj kvs) s = (None, []))"
proof (intro conjI impI)
  assume "\<not> SIZE_LIMIT < length (py_str fr data) \<and> \<not> fst (is_rate_limited uid now (rate_limits s))
     \<and> \<not> fst (is_rate_limited ip now (snd (is_rate_limited uid now (rate_limits s))))"
  then have hf: "handle_frame fails fr now utc sid uid ip data s =
     (fst (dispatch fails sid data s),
      update_activity sid utc
        (s\<lparr>rate_limits := snd (is_rate_limited ip now (snd (is_rate_limited uid now (rate_limits s))))\<rparr>),
      snd (dispatch fails sid data s))"
    by (intro handle_frame_accepted) auto
  show "fst (handle_frame fails fr now utc sid uid ip data s) = fst (dispatch fails sid data s)"
    by (simp add: hf)
  show "snd (snd (handle_frame fails fr now utc sid uid ip data s)) =
           snd (dispatch fails sid data s)"
    by (simp add: hf)
next
  show "set (snd (dispatch fails sid data s)) \<subseteq>
        (\<lambda>w. (w, data)) ` (case connected s sid of None \<Rightarrow> {} | Some d \<Rightarrow> snd ` set d)"
    by (rule dispatch_targets)
next
  assume "\<nexists>kvs. data = JObj kvs"
  then show "dispatch fails sid data s = (Some AttributeError, [])"
    by (rule dispatch_not_object)
next
  assume "map_of kvs ''type'' = Some (JStr ''private'') \<and> map_of kvs ''to'' = Some (JStr k)
        \<and> k \<noteq> [] \<and> registry_get s sid k = Some w"
  then show "dispatch fails sid (JObj kvs) s =
          (if fails w then (Some SendError, []) else (None, [(w, JObj kvs)]))"
    by (intro dispatch_private_present [where k = k]) auto
next
  assume h: "map_of kvs ''type'' = Some (JStr ''private'')
        \<and> (map_of kvs ''to'' = None
            \<or> map_of kvs ''to'' = Some v
               \<and> (\<not> py_truthy v \<or> connected s sid = None \<or> (\<exists>n. v = JInt n)
                   \<or> (\<exists>r. v = JFloat r) \<or> (\<exists>b. v = JBool b)
                   \<or> (\<exists>k. v = JStr k \<and> registry_get s sid k = None)))"
  then have t: "map_of kvs ''type'' = Some (JStr ''private'')" by blast
  from h have "map_of kvs ''to'' = None
            \<or> map_of kvs ''to'' = Some v
               \<and> (\<not> py_truthy v \<or> connected s sid = None \<or> (\<exists>n. v = JInt n)
                   \<or> (\<exists>r. v = JFloat r) \<or> (\<exists>b. v = JBool b)
                   \<or> (\<exists>k. v = JStr k \<and> registry_get s sid k = None))"
    by (rule conjunct2)
  then show "dispatch fails sid (JObj kvs) s = (None, [])"
  proof
    assume "map_of kvs ''to'' = None"
    with t show ?thesis by (rule dispatch_private_no_to)
  next
    assume c: "map_of kvs ''to'' = Some v
               \<and> (\<not> py_truthy v \<or> connected s sid = None \<or> (\<exists>n. v = JInt n)
                   \<or> (\<exists>r. v = JFloat r) \<or> (\<exists>b. v = JBool b)
                   \<or> (\<exists>k. v = JStr k \<and> registry_get s sid k = None))"
    show ?thesis
      by (rule dispatch_private_dropped [OF t conjunct1 [OF c] conjunct2 [OF c]])
  qed
next
  assume "map_of kvs ''type'' = Some (JStr ''private'') \<and> map_of kvs ''to'' = Some v
        \<and> py_truthy v \<and> ((\<exists>xs. v = JArr xs) \<or> (\<exists>kvs'. v = JObj kvs'))
        \<and> connected s sid = Some d"
  then show "dispatch fails sid (JObj kvs) s = (Some TypeError, [])"
    by (intro dispatch_private_unhashable [where v = v and d = d]) auto
next
  assume h: "(map_of kvs ''type'' = Some (JStr ''group'')
         \<or> map_of kvs ''type'' = Some (JStr ''join_notification''))
        \<and> connected s sid = Some d"
  then have t: "map_of kvs ''type'' = Some (JStr ''group'')
         \<or> map_of kvs ''type'' = Some (JStr ''join_notification'')"
    and c: "connected s sid = Some d"
    by blast+
  from t have t': "py_get (JObj kvs) ''type'' = Inr (JStr ''group'')
           \<or> py_get (JObj kvs) ''type'' = Inr (JStr ''join_notification'')"
    by auto
  show b: "dispatch fails sid (JObj kvs) s =
          (if list_ex fails (map snd d) then Some SendError else None,
           map (\<lambda>w. (w, JObj kvs)) (takeWhile (\<lambda>w. \<not> fails w) (map snd d)))"
    using t' c by (rule dispatch_broadcast)
  show "dispatch fails sid (JObj kvs) s = (None, map (\<lambda>w. (w, JObj kvs)) (map snd d))"
    if "\<not> list_ex fails (map snd d)"
  proof -
    from that have "takeWhile (\<lambda>w. \<not> fails w) (map snd d) = map snd d"
      by (simp add: list_ex_iff)
    with b that show ?thesis by simp
  qed
  show "((w, JObj kvs) \<in> set (snd (dispatch fails sid (JObj kvs) s))) = (w \<in> snd ` set d)"
    if "\<not> list_ex fails (map snd d)"
    using t c that by (rule dispatch_broadcast_receivers)
next
  assume "(map_of kvs ''type'' = Some (JStr ''group'')
         \<or> map_of kvs ''type'' = Some (JStr ''join_notification''))
        \<and> connected s sid = None"
  then show "dispatch fails sid (JObj kvs) s = (Some KeyError, [])"
    by (intro dispatch_no_registry) auto
next
  assume "map_of kvs ''type'' \<noteq> Some (JStr ''private'')
        \<and> map_of kvs ''type'' \<noteq> Some (JStr ''group'')
        \<and> map_of kvs ''type'' \<noteq> Some (JStr ''join_notification'')"
  then show "dispatch fails sid (JObj kvs) s = (None, [])"
    by (intro dispatch_other_type) auto
qed

lemma demo_frames_short:
  "\<not> SIZE_LIMIT < length (py_str whole_float_repr demo_private_list)"
  "\<not> SIZE_LIMIT < length (py_str whole_float_repr (JArr []))"
  by (simp_all add: demo_private_list_def SIZE_LIMIT_def py_repr_str_def py_repr_char_def
      Let_def py_int_str_def dec_nat.simps)

lemma demo_evicted_room:
  "connected demo_evicted ''room'' = Some []"
  "rate_limits demo_evicted = Map.empty"
  by (simp_all add: demo_evicted_def demo_reconnected_def demo_state_def ws_connect_def
      update_activity_def try_admit_def CONN_LIMIT_PER_IP_def registry_put_def ws_teardown_def
      registry_remove_def release_def)

text \<open>
  Against claim C8 as stated, four frames that pass the size and rate checks. Alice
  sends a private frame whose \<open>to\<close> is a list: no connection is registered for that
  recipient, and the turn ends in a \<open>TypeError\<close> that leaves the receive loop, not in a
  silent drop. She sends a frame that is an empty list: the turn ends in an
  \<open>AttributeError\<close>. She sends a group frame while the send to socket 1 raises: bob,
  registered on socket 2, gets nothing. And after the handler of her replaced first
  socket has ended, a group frame that she sends on her second socket reaches no
  socket, her own included.
\<close>

theorem relay_routing_counterexample:
  "\<not> SIZE_LIMIT < length (py_str whole_float_repr demo_private_list)
   \<and> \<not> fst (is_rate_limited ''alice'' 5 (rate_limits demo_two_online))
   \<and> \<not> fst (is_rate_limited ''10.0.0.1'' 5
              (snd (is_rate_limited ''alice'' 5 (rate_limits demo_two_online))))
   \<and> py_get demo_private_list ''type'' = Inr (JStr ''private'')
   \<and> fst (handle_frame (only_fails 9) whole_float_repr 5 50 ''room'' ''alice'' ''10.0.0.1''
             demo_private_list demo_two_online) = Some TypeError
   \<and> \<not> SIZE_LIMIT < length (py_str whole_float_repr (JArr []))
   \<and> fst (handle_frame (only_fails 9) whole_float_repr 5 50 ''room'' ''alice'' ''10.0.0.1''
             (JArr []) demo_two_online) = Some AttributeError
   \<and> \<not> SIZE_LIMIT < length (py_str whole_float_repr demo_group)
   \<and> registry_get demo_two_online ''room'' ''bob'' = Some 2 \<and> \<not> only_fails 1 2
   \<and> snd (snd (handle_frame (only_fails 1) whole_float_repr 5 50 ''room'' ''alice'' ''10.0.0.1''
             demo_group demo_two_online)) = []
   \<and> registry_get demo_evicted ''room'' ''alice'' = None
   \<and> handle_frame (only_fails 9) whole_float_repr 5 50 ''room'' ''alice'' ''10.0.0.1''
        demo_group demo_evicted =
       (None, fst (snd (handle_frame (only_fails 9) whole_float_repr 5 50 ''room'' ''alice''
                          ''10.0.0.1'' demo_group demo_evicted)), [])"
proof -
  have 1: "dispatch (only_fails 9) ''room'' demo_private_list demo_two_online = (Some TypeError, [])"
    by (simp add: dispatch_def demo_private_list_def demo_two_online_room)
  have 2: "dispatch (only_fails 9) ''room'' (JArr []) demo_two_online = (Some AttributeError, [])"
    by (simp add: dispatch_def)
  have 3: "dispatch (only_fails 1) ''room'' demo_group demo_two_online = (Some SendError, [])"
    by (simp add: dispatch_def demo_group_def demo_two_online_room only_fails_def)
  have 4: "py_get demo_private_list ''type'' = Inr (JStr ''private'')"
    by (simp add: demo_private_list_def)
  have 5: "registry_get demo_two_online ''room'' ''bob'' = Some 2 \<and> \<not> only_fails 1 2"
    by (simp add: registry_get_def demo_two_online_room only_fails_def)
  have 6: "registry_get demo_evicted ''room'' ''alice'' = None"
    by (simp add: registry_get_def demo_evicted_room)
  have nl: "\<not> fst (is_rate_limited ''alice'' 5 (rate_limits demo_evicted))"
    "\<not> fst (is_rate_limited ''10.0.0.1'' 5
              (snd (is_rate_limited ''alice'' 5 (rate_limits demo_evicted))))"
    by (simp_all add: is_rate_limited_def MESSAGE_LIMIT_def demo_evicted_room)
  have "dispatch (only_fails 9) ''room'' demo_group demo_evicted = (None, [])"
    by (simp add: dispatch_def demo_group_def demo_evicted_room)
  then have 7: "handle_frame (only_fails 9) whole_float_repr 5 50 ''room'' ''alice'' ''10.0.0.1''
        demo_group demo_evicted =
       (None, fst (snd (handle_frame (only_fails 9) whole_float_repr 5 50 ''room'' ''alice''
                          ''10.0.0.1'' demo_group demo_evicted)), [])"
    using handle_frame_accepted [OF demo_group_short nl, of "only_fails 9" 50 "''room''"]
    by simp
  have 8: "fst (handle_frame (only_fails 9) whole_float_repr 5 50 ''room'' ''alice'' ''10.0.0.1''
             demo_private_list demo_two_online) = Some TypeError"
    using demo_handle_frame(1) [OF demo_frames_short(1), of "only_fails 9"] by (simp add: 1)
  have 9: "fst (handle_frame (only_fails 9) whole_float_repr 5 50 ''room'' ''alice'' ''10.0.0.1''
             (JArr []) demo_two_online) = Some AttributeError"
    using demo_handle_frame(1) [OF demo_frames_short(2), of "only_fails 9"] by (simp add: 2)
  have 10: "snd (snd (handle_frame (only_fails 1) whole_float_repr 5 50 ''room'' ''alice''
             ''10.0.0.1'' demo_group demo_two_online)) = []"
    using demo_handle_frame(2) [OF demo_group_short, of "only_fails 1"] by (simp only: 3 snd_conv)
  from demo_frames_short demo_group_short demo_not_limited 4 5 6 7 8 9 10
  show ?thesis by blast
qed

theorem relay_routing_witness:
  "\<not> SIZE_LIMIT < length (py_str whole_float_repr demo_group)
   \<and> registry_get demo_two_online ''room'' ''bob'' = Some 2
   \<and> registry_get demo_two_online ''room'' ''zoe'' = None
   \<and> connected demo_two_online ''room'' = Some [(''alice'', 1), (''bob'', 2)]
   \<and> connected demo_empty ''room'' = None
   \<and> handle_frame (only_fails 9) whole_float_repr 5 50 ''room'' ''alice'' ''10.0.0.1''
        demo_group demo_two_online =
       (None, fst (snd (handle_frame (only_fails 9) whole_float_repr 5 50 ''room'' ''alice''
                          ''10.0.0.1'' demo_group demo_two_online)),
        [(1, demo_group), (2, demo_group)])
   \<and> dispatch (only_fails 9) ''room'' (JArr []) demo_two_online = (Some AttributeError, [])
   \<and> dispatch (only_fails 9) ''room'' demo_private demo_two_online = (None, [(2, demo_private)])
   \<and> dispatch (only_fails 2) ''room'' demo_private demo_two_online = (Some SendError, [])
   \<and> dispatch (only_fails 9) ''room'' (JObj [(''type'', JStr ''private'')]) demo_two_online =
        (None, [])
   \<and> dispatch (only_fails 9) ''room'' demo_private_absent demo_two_online = (None, [])
   \<and> dispatch (only_fails 9) ''room'' demo_private_number demo_two_online = (None, [])
   \<and> dispatch (only_fails 9) ''room'' demo_private_list demo_two_online = (Some TypeError, [])
   \<and> dispatch (only_fails 9) ''room'' demo_group demo_two_online =
        (None, [(1, demo_group), (2, demo_group)])
   \<and> dispatch (only_fails 1) ''room'' demo_group demo_two_online = (Some SendError, [])
   \<and> (1, demo_group) \<in> set (snd (dispatch (only_fails 9) ''room'' demo_group demo_two_online))
   \<and> (3, demo_group) \<notin> set (snd (dispatch (only_fails 9) ''room'' demo_group demo_two_online))
   \<and> dispatch (only_fails 9) ''room'' demo_group demo_empty = (Some KeyError, [])
   \<and> dispatch (only_fails 9) ''room'' demo_typing demo_two_online = (None, [])"
proof -
  let ?d = "[(''alice'', 1), (''bob'', 2 :: ws)]"
  have reg: "registry_get demo_two_online ''room'' ''bob'' = Some 2"
    "registry_get demo_two_online ''room'' ''zoe'' = None"
    "connected demo_two_online ''room'' = Some ?d"
    by (simp_all add: registry_get_def demo_two_online_room)
  have emp: "connected demo_empty ''room'' = None"
    by (simp add: demo_empty_def)
  have nf: "\<not> only_fails 9 2" "\<not> list_ex (only_fails 9) (map snd ?d)"
    "only_fails 2 2" "list_ex (only_fails 1) (map snd ?d)"
    by (simp_all add: only_fails_def)
  have tw: "takeWhile (\<lambda>w. \<not> only_fails 1 w) (map snd ?d) = []"
    by (simp add: only_fails_def)
  have mem: "(1::ws) \<in> snd ` set ?d" "(3::ws) \<notin> snd ` set ?d"
    by simp_all
  note R = relay_routing [where sid = "''room''" and s = demo_two_online and d = ?d]
  have arr: "dispatch (only_fails 9) ''room'' (JArr []) demo_two_online = (Some AttributeError, [])"
    using R [where data = "JArr []" and fails = "only_fails 9"] by simp
  have p: "dispatch (only_fails 9) ''room'' demo_private demo_two_online = (None, [(2, demo_private)])"
    using R [where kvs = "[(''type'', JStr ''private''), (''to'', JStr ''bob''), (''text'', JStr ''psst'')]"
        and k = "''bob''" and w = 2 and fails = "only_fails 9"] reg nf
    by (simp add: demo_private_def)
  have pf: "dispatch (only_fails 2) ''room'' demo_private demo_two_online = (Some SendError, [])"
    using R [where kvs = "[(''type'', JStr ''private''), (''to'', JStr ''bob''), (''text'', JStr ''psst'')]"
        and k = "''bob''" and w = 2 and fails = "only_fails 2"] reg nf
    by (simp add: demo_private_def)
  have nt: "dispatch (only_fails 9) ''room'' (JObj [(''type'', JStr ''private'')]) demo_two_online =
        (None, [])"
    using R [where kvs = "[(''type'', JStr ''private'')]" and fails = "only_fails 9"]
    by simp
  have a: "dispatch (only_fails 9) ''room'' demo_private_absent demo_two_online = (None, [])"
    using R [where kvs = "[(''type'', JStr ''private''), (''to'', JStr ''zoe'')]"
        and v = "JStr ''zoe''" and fails = "only_fails 9"] reg
    by (simp add: demo_private_absent_def)
  have n: "dispatch (only_fails 9) ''room'' demo_private_number demo_two_online = (None, [])"
    using R [where kvs = "[(''type'', JStr ''private''), (''to'', JInt 7)]"
        and v = "JInt 7" and fails = "only_fails 9"]
    by (simp add: demo_private_number_def)
  have l: "dispatch (only_fails 9) ''room'' demo_private_list demo_two_online = (Some TypeError, [])"
    using R [where kvs = "[(''type'', JStr ''private''), (''to'', JArr [JInt 1])]"
        and v = "JArr [JInt 1]" and fails = "only_fails 9"] reg
    by (simp add: demo_private_list_def)
  note G = R [where kvs = "[(''type'', JStr ''group''), (''text'', JStr ''hi'')]"
        and fails = "only_fails 9"]
  have g: "dispatch (only_fails 9) ''room'' demo_group demo_two_online =
        (None, [(1, demo_group), (2, demo_group)])"
    using G reg nf by (simp add: demo_group_def)
  have gf: "dispatch (only_fails 1) ''room'' demo_group demo_two_online = (Some SendError, [])"
    using R [where kvs = "[(''type'', JStr ''group''), (''text'', JStr ''hi'')]"
        and fails = "only_fails 1"] reg nf tw
    by (simp add: demo_group_def)
  have m1: "(1, demo_group) \<in> set (snd (dispatch (only_fails 9) ''room'' demo_group demo_two_online))"
    using G [where w = 1] reg nf mem by (simp add: demo_group_def)
  have m3: "(3, demo_group) \<notin> set (snd (dispatch (only_fails 9) ''room'' demo_group demo_two_online))"
    using G [where w = 3] reg nf mem by (simp add: demo_group_def)
  have k: "dispatch (only_fails 9) ''room'' demo_group demo_empty = (Some KeyError, [])"
    using relay_routing [where sid = "''room''" and s = demo_empty
        and kvs = "[(''type'', JStr ''group''), (''text'', JStr ''hi'')]" and fails = "only_fails 9"]
      emp
    by (simp add: demo_group_def)
  have t: "dispatch (only_fails 9) ''room'' demo_typing demo_two_online = (None, [])"
    using R [where kvs = "[(''type'', JStr ''typing'')]" and fails = "only_fails 9"]
    by (simp add: demo_typing_def)
  have "fst (handle_frame (only_fails 9) whole_float_repr 5 50 ''room'' ''alice'' ''10.0.0.1''
          demo_group demo_two_online) = fst (dispatch (only_fails 9) ''room'' demo_group demo_two_online)
      \<and> snd (snd (handle_frame (only_fails 9) whole_float_repr 5 50 ''room'' ''alice'' ''10.0.0.1''
          demo_group demo_two_online)) = snd (dispatch (only_fails 9) ''room'' demo_group demo_two_online)"
    using R [where fr = whole_float_repr and data = demo_group and uid = "''alice''" and now = 5
        and ip = "''10.0.0.1''" and utc = 50 and fails = "only_fails 9"]
      demo_group_short demo_not_limited
    by blast
  then have h: "handle_frame (only_fails 9) whole_float_repr 5 50 ''room'' ''alice'' ''10.0.0.1''
        demo_group demo_two_online =
       (None, fst (snd (handle_frame (only_fails 9) whole_float_repr 5 50 ''room'' ''alice''
                          ''10.0.0.1'' demo_group demo_two_online)),
        [(1, demo_group), (2, demo_group)])"
    by (simp add: g prod_eq_iff)
  from demo_group_short reg emp arr p pf nt a n l g gf m1 m3 k t h show ?thesis by blast
qed

subsection \<open>Join: the error answers\<close>

lemma join_checks_not_object:
  "\<nexists>kvs. body = JObj kvs \<Longrightarrow> join_checks ios body srv = Raised AttributeError"
  by (cases body) (simp_all add: join_checks_def)

lemma join_checks_401:
  "py_get body ''join_token'' = Inr p \<Longrightarrow> p \<noteq> JStr (join_token srv) \<Longrightarrow>
     join_checks ios body srv = HTTPException 401 ''Invalid join token''"
  by (simp add: join_checks_def)

lemma py_get_object: "py_get body k = Inr v \<Longrightarrow> \<exists>v'. py_get body k' = Inr v'"
  by (cases body) auto

lemma join_checks_400_user:
  assumes "py_get body ''join_token'' = Inr (JStr (join_token srv))"
    and "py_get body ''user_id'' = Inr u" and "\<not> py_truthy u"
  shows "join_checks ios body srv = HTTPException 400 ''Missing user_id''"
  using assms by (simp add: join_checks_def)

lemma join_checks_400_prekey:
  assumes "py_get body ''join_token'' = Inr (JStr (join_token srv))"
    and "py_get body ''user_id'' = Inr u" and "py_truthy u"
    and "py_get body ''prekey_bundle'' = Inr pk" and "\<not> py_truthy pk"
  shows "join_checks ios body srv = HTTPException 400 ''Missing prekey_bundle''"
  using assms by (simp add: join_checks_def)

lemma join_checks_400_format:
  assumes "py_get body ''join_token'' = Inr (JStr (join_token srv))"
    and "py_get body ''user_id'' = Inr u" and "py_truthy u"
    and "py_get body ''prekey_bundle'' = Inr pk" and "py_truthy pk"
    and "decode_bundle ios pk = None"
  shows "join_checks ios body srv = HTTPException 400 ''Invalid prekey format''"
  using assms by (simp add: join_checks_def)

lemma decode_bundle_None:
  "decode_bundle ios pk = None \<longleftrightarrow>
     Option.bind (py_item pk ''registration_id'') (py_int ios) = None
     \<or> Option.bind (py_item pk ''identity'') b64decode_json = None
     \<or> Option.bind (py_item pk ''signed_prekey'') b64decode_json = None
     \<or> Option.bind (py_item pk ''signed_prekey_sig'') b64decode_json = None
     \<or> Option.bind (py_item pk ''one_time_prekey'') b64decode_json = None"
  by (auto simp: decode_bundle_def bind_eq_None_conv)

lemma update_activity_fields:
  "map_option members (servers_col (update_activity sid now s) sid') =
     map_option members (servers_col s sid')"
  "map_option admin_user_id (servers_col (update_activity sid now s) sid') =
     map_option admin_user_id (servers_col s sid')"
  "map_option join_token (servers_col (update_activity sid now s) sid') =
     map_option join_token (servers_col s sid')"
  "map_option tokens (member_tokens_col (update_activity sid now s) sid') =
     map_option tokens (member_tokens_col s sid')"
  by (simp_all add: servers_col_update_activity member_tokens_col_update_activity
      option.map_comp comp_def)

lemma join_server_not_stored:
  assumes "join_stored fr ios sid body s = None"
  shows "snd (join_server fails fr ios tok now sid body s) = (update_activity sid now s, [])"
proof (cases body)
  case None
  then show ?thesis by (simp add: join_server_no_json)
next
  case (Some bd)
  show ?thesis
  proof (cases "servers_col s sid")
    case None
    then show ?thesis by (simp add: Some join_server_no_room)
  next
    case srv: (Some srv)
    show ?thesis
      using assms unfolding Some join_server_room [OF srv]
      by (auto simp: join_stored_def srv split: outcome.splits sum.splits)
  qed
qed

lemma servers_update_Inr:
  assumes "servers_update key u b srv = Inr srv'"
  shows "\<not> has_nul key \<and> list_all valid_field (split_dots key)
       \<and> (\<exists>ms. mongo_set key (bundle_doc b) (members srv) = Some ms
              \<and> srv' = srv\<lparr>members := ms,
                            admin_user_id := (if admin_user_id srv = JNull then u
                                              else admin_user_id srv)\<rparr>)"
  using assms
  by (auto simp: servers_update_def mongo_set_def split: if_splits option.splits)

lemma member_tokens_update_Inl:
  "\<not> has_nul key \<Longrightarrow> member_tokens_update key tok td = Inl e \<Longrightarrow> e = WriteError"
  by (auto simp: member_tokens_update_def split: if_splits option.splits)

lemma b64_field_Inl: "b64_field d k = Inl e \<Longrightarrow> e = KeyError \<or> e = TypeError"
  by (auto simp: b64_field_def split: option.splits bson.splits)

lemma encode_member_Inl: "encode_member v = Inl e \<Longrightarrow> e = KeyError \<or> e = TypeError"
  by (cases v) (auto split: option.splits sum.splits dest: b64_field_Inl)

lemma others_of_Inl: "others_of u ms = Inl e \<Longrightarrow> e = KeyError \<or> e = TypeError"
proof (induction ms)
  case Nil
  then show ?case by simp
next
  case (Cons m ms)
  obtain k v where m: "m = (k, v)" by (cases m)
  from Cons show ?case
    by (auto simp: m split: if_splits sum.splits dest: encode_member_Inl)
qed

lemma join_server_stored:
  assumes "join_stored fr ios sid body s = Some u"
  shows "\<exists>bd srv b srv'. body = Some bd \<and> servers_col s sid = Some srv
       \<and> join_checks ios bd srv = Returned (u, b)
       \<and> servers_update (py_str fr u) u b srv = Inr srv'
       \<and> servers_col (fst (snd (join_server fails fr ios tok now sid body s))) sid =
           Some (srv'\<lparr>last_activity := now\<rparr>)
       \<and> (is_returned (fst (join_server fails fr ios tok now sid body s))
           \<or> fst (join_server fails fr ios tok now sid body s) = Raised WriteError
           \<or> fst (join_server fails fr ios tok now sid body s) = Raised KeyError
           \<or> fst (join_server fails fr ios tok now sid body s) = Raised TypeError
           \<or> fst (join_server fails fr ios tok now sid body s) = Raised SendError)"
proof -
  from assms obtain bd srv b srv' where bd: "body = Some bd" and srv: "servers_col s sid = Some srv"
    and c: "join_checks ios bd srv = Returned (u, b)"
    and su: "servers_update (py_str fr u) u b srv = Inr srv'"
    by (auto simp: join_stored_def split: option.splits outcome.splits sum.splits)
  from servers_update_Inr [OF su] have nn: "\<not> has_nul (py_str fr u)" by blast
  let ?J = "join_server fails fr ios tok now sid body s"
  have "servers_col (fst (snd ?J)) sid = Some (srv'\<lparr>last_activity := now\<rparr>)
       \<and> (is_returned (fst ?J) \<or> fst ?J = Raised WriteError \<or> fst ?J = Raised KeyError
           \<or> fst ?J = Raised TypeError \<or> fst ?J = Raised SendError)"
  proof (cases "member_tokens_update (py_str fr u) tok (member_tokens_col s sid)")
    case (Inl e)
    with member_tokens_update_Inl [OF nn Inl] show ?thesis
      unfolding bd join_server_room [OF srv]
      by (simp add: c su put_server_def)
  next
    case td: (Inr td')
    show ?thesis
    proof (cases "others_of u (members srv')")
      case (Inl e)
      with others_of_Inl [OF Inl] show ?thesis
        unfolding bd join_server_room [OF srv]
        by (auto simp: c su td put_server_def put_tokens_def)
    next
      case (Inr os)
      then show ?thesis
        unfolding bd join_server_room [OF srv]
        by (simp add: c su td put_server_def put_tokens_def)
    qed
  qed
  with bd srv c su show ?thesis by blast
qed

lemma join_server_early_failure:
  assumes "fst (join_server fails fr ios tok now sid body s) = HTTPException c m
         \<or> fst (join_server fails fr ios tok now sid body s) = Raised AttributeError
         \<or> fst (join_server fails fr ios tok now sid body s) = Raised JSONDecodeError
         \<or> fst (join_server fails fr ios tok now sid body s) = Raised OverflowError
         \<or> fst (join_server fails fr ios tok now sid body s) = Raised InvalidDocument"
  shows "join_stored fr ios sid body s = None"
proof (cases "join_stored fr ios sid body s")
  case None
  then show ?thesis .
next
  case (Some u)
  from join_server_stored [OF Some, of fails tok now] assms
  show ?thesis by auto
qed

text \<open>
  Claim C6, as the code has it. A request without a JSON body ends in the decoding
  error before the room is looked up. With a JSON body the checks come in this order:
  an unknown room is answered 404 whatever the body holds; in a known room a body that
  is no object ends in an \<open>AttributeError\<close>; a presented join token that is not the
  stored one, 401; then a missing or falsy user id, 400; then a missing or falsy key
  bundle, 400; then a bundle one of whose five fields is missing or does not decode,
  400. A join that ends in one of these ways, or in an error of the driver that
  encodes the update, has sent nothing and has left the members, the admin and the
  tokens of every room as they were. A join whose update of the room document is
  carried out has it stored whatever comes after, and can still fail: with a
  \<open>WriteError\<close>, a \<open>KeyError\<close>, a \<open>TypeError\<close> or a failing send.
\<close>

theorem join_errors:
  "join_server fails fr ios tok now sid None s =
     (Raised JSONDecodeError, update_activity sid now s, [])
   \<and> (servers_col s sid = None \<longrightarrow>
      fst (join_server fails fr ios tok now sid (Some body) s) =
        HTTPException 404 ''Server not found'')
   \<and> (servers_col s sid = Some srv \<and> (\<nexists>kvs. body = JObj kvs) \<longrightarrow>
      fst (join_server fails fr ios tok now sid (Some body) s) = Raised AttributeError)
   \<and> (servers_col s sid = Some srv \<and> py_get body ''join_token'' = Inr p
      \<and> p \<noteq> JStr (join_token srv) \<longrightarrow>
      fst (join_server fails fr ios tok now sid (Some body) s) =
        HTTPException 401 ''Invalid join token'')
   \<and> (servers_col s sid = Some srv \<and> py_get body ''join_token'' = Inr (JStr (join_token srv))
      \<and> py_get body ''user_id'' = Inr u \<and> \<not> py_truthy u \<longrightarrow>
      fst (join_server fails fr ios tok now sid (Some body) s) =
        HTTPException 400 ''Missing user_id'')
   \<and> (servers_col s sid = Some srv \<and> py_get body ''join_token'' = Inr (JStr (join_token srv))
      \<and> py_get body ''user_id'' = Inr u \<and> py_truthy u
      \<and> py_get body ''prekey_bundle'' = Inr pk \<and> \<not> py_truthy pk \<longrightarrow>
      fst (join_server fails fr ios tok now sid (Some body) s) =
        HTTPException 400 ''Missing prekey_bundle'')
   \<and> (servers_col s sid = Some srv \<and> py_get body ''join_token'' = Inr (JStr (join_token srv))
      \<and> py_get body ''user_id'' = Inr u \<and> py_truthy u
      \<and> py_get body ''prekey_bundle'' = Inr pk \<and> py_truthy pk
      \<and> decode_bundle ios pk = None \<longrightarrow>
      fst (join_server fails fr ios tok now sid (Some body) s) =
        HTTPException 400 ''Invalid prekey format'')
   \<and> (decode_bundle ios pk = None \<longleftrightarrow>
        Option.bind (py_item pk ''registration_id'') (py_int ios) = None
        \<or> Option.bind (py_item pk ''identity'') b64decode_json = None
        \<or> Option.bind (py_item pk ''signed_prekey'') b64decode_json = None
        \<or> Option.bind (py_item pk ''signed_prekey_sig'') b64decode_json = None
        \<or> Option.bind (py_item pk ''one_time_prekey'') b64decode_json = None)
   \<and> (fst (join_server fails fr ios tok now sid rq s) = HTTPException c m
        \<or> fst (join_server fails fr ios tok now sid rq s) = Raised AttributeError
        \<or> fst (join_server fails fr ios tok now sid rq s) = Raised JSONDecodeError
        \<or> fst (join_server fails fr ios tok now sid rq s) = Raised OverflowError
        \<or> fst (join_server fails fr ios tok now sid rq s) = Raised InvalidDocument \<longrightarrow>
        snd (join_server fails fr ios tok now sid rq s) = (update_activity sid now s, [])
        \<and> map_option members (servers_col (fst (snd (join_server fails fr ios tok now sid rq s))) sid')
            = map_option members (servers_col s sid')
        \<and> map_option admin_user_id
              (servers_col (fst (snd (join_server fails fr ios tok now sid rq s))) sid')
            = map_option admin_user_id (servers_col s sid')
        \<and> map_option tokens
              (member_tokens_col (fst (snd (join_server fails fr ios tok now sid rq s))) sid')
            = map_option tokens (member_tokens_col s sid'))
   \<and> (join_stored fr ios sid rq s = None \<longrightarrow>
        snd (join_server fails fr ios tok now sid rq s) = (update_activity sid now s, []))
   \<and> (join_stored fr ios sid rq s = Some u \<longrightarrow>
        (\<exists>bd srv b srv'. rq = Some bd \<and> servers_col s sid = Some srv
           \<and> join_checks ios bd srv = Returned (u, b)
           \<and> servers_update (py_str fr u) u b srv = Inr srv'
           \<and> servers_col (fst (snd (join_server fails fr ios tok now sid rq s))) sid =
               Some (srv'\<lparr>last_activity := now\<rparr>)
           \<and> (is_returned (fst (join_server fails fr ios tok now sid rq s))
               \<or> fst (join_server fails fr ios tok now sid rq s) = Raised WriteError
               \<or> fst (join_server fails fr ios tok now sid rq s) = Raised KeyError
               \<or> fst (join_server fails fr ios tok now sid rq s) = Raised TypeError
               \<or> fst (join_server fails fr ios tok now sid rq s) = Raised SendError)))"
proof (intro conjI impI)
  show "join_server fails fr ios tok now sid None s =
     (Raised JSONDecodeError, update_activity sid now s, [])"
    by (rule join_server_no_json)
  show "fst (join_server fails fr ios tok now sid (Some body) s) =
        HTTPException 404 ''Server not found''"
    if "servers_col s sid = None"
    using that by (simp add: join_server_no_room)
  show "fst (join_server fails fr ios tok now sid (Some body) s) = Raised AttributeError"
    if h: "servers_col s sid = Some srv \<and> (\<nexists>kvs. body = JObj kvs)"
  proof -
    from h have 1: "servers_col s sid = Some srv" and 2: "\<nexists>kvs. body = JObj kvs" by blast+
    show ?thesis
      unfolding join_server_room [OF 1] by (simp add: join_checks_not_object [OF 2])
  qed
  show "fst (join_server fails fr ios tok now sid (Some body) s) =
        HTTPException 401 ''Invalid join token''"
    if h: "servers_col s sid = Some srv \<and> py_get body ''join_token'' = Inr p
      \<and> p \<noteq> JStr (join_token srv)"
  proof -
    from h have 1: "servers_col s sid = Some srv" and 2: "py_get body ''join_token'' = Inr p"
      and 3: "p \<noteq> JStr (join_token srv)" by blast+
    show ?thesis
      unfolding join_server_room [OF 1] by (simp add: join_checks_401 [OF 2 3])
  qed
  show "fst (join_server fails fr ios tok now sid (Some body) s) =
        HTTPException 400 ''Missing user_id''"
    if h: "servers_col s sid = Some srv \<and> py_get body ''join_token'' = Inr (JStr (join_token srv))
      \<and> py_get body ''user_id'' = Inr u \<and> \<not> py_truthy u"
  proof -
    from h have 1: "servers_col s sid = Some srv"
      and 2: "py_get body ''join_token'' = Inr (JStr (join_token srv))"
      and 3: "py_get body ''user_id'' = Inr u" and 4: "\<not> py_truthy u" by blast+
    show ?thesis
      unfolding join_server_room [OF 1] by (simp add: join_checks_400_user [OF 2 3 4])
  qed
  show "fst (join_server fails fr ios tok now sid (Some body) s) =
        HTTPException 400 ''Missing prekey_bundle''"
    if h: "servers_col s sid = Some srv \<and> py_get body ''join_token'' = Inr (JStr (join_token srv))
      \<and> py_get body ''user_id'' = Inr u \<and> py_truthy u
      \<and> py_get body ''prekey_bundle'' = Inr pk \<and> \<not> py_truthy pk"
  proof -
    from h have 1: "servers_col s sid = Some srv"
      and 2: "py_get body ''join_token'' = Inr (JStr (join_token srv))"
      and 3: "py_get body ''user_id'' = Inr u" and 4: "py_truthy u"
      and 5: "py_get body ''prekey_bundle'' = Inr pk" and 6: "\<not> py_truthy pk" by blast+
    show ?thesis
      unfolding join_server_room [OF 1] by (simp add: join_checks_400_prekey [OF 2 3 4 5 6])
  qed
  show "fst (join_server fails fr ios tok now sid (Some body) s) =
        HTTPException 400 ''Invalid prekey format''"
    if h: "servers_col s sid = Some srv \<and> py_get body ''join_token'' = Inr (JStr (join_token srv))
      \<and> py_get body ''user_id'' = Inr u \<and> py_truthy u
      \<and> py_get body ''prekey_bundle'' = Inr pk \<and> py_truthy pk
      \<and> decode_bundle ios pk = None"
  proof -
    from h have 1: "servers_col s sid = Some srv"
      and 2: "py_get body ''join_token'' = Inr (JStr (join_token srv))"
      and 3: "py_get body ''user_id'' = Inr u" and 4: "py_truthy u"
      and 5: "py_get body ''prekey_bundle'' = Inr pk" and 6: "py_truthy pk"
      and 7: "decode_bundle ios pk = None" by blast+
    show ?thesis
      unfolding join_server_room [OF 1] by (simp add: join_checks_400_format [OF 2 3 4 5 6 7])
  qed
  show "decode_bundle ios pk = None \<longleftrightarrow>
        Option.bind (py_item pk ''registration_id'') (py_int ios) = None
        \<or> Option.bind (py_item pk ''identity'') b64decode_json = None
        \<or> Option.bind (py_item pk ''signed_prekey'') b64decode_json = None
        \<or> Option.bind (py_item pk ''signed_prekey_sig'') b64decode_json = None
        \<or> Option.bind (py_item pk ''one_time_prekey'') b64decode_json = None"
    by (rule decode_bundle_None)
  show "snd (join_server fails fr ios tok now sid rq s) = (update_activity sid now s, [])"
    if "join_stored fr ios sid rq s = None"
    using that by (rule join_server_not_stored)
  show "\<exists>bd srv b srv'. rq = Some bd \<and> servers_col s sid = Some srv
           \<and> join_checks ios bd srv = Returned (u, b)
           \<and> servers_update (py_str fr u) u b srv = Inr srv'
           \<and> servers_col (fst (snd (join_server fails fr ios tok now sid rq s))) sid =
               Some (srv'\<lparr>last_activity := now\<rparr>)
           \<and> (is_returned (fst (join_server fails fr ios tok now sid rq s))
               \<or> fst (join_server fails fr ios tok now sid rq s) = Raised WriteError
               \<or> fst (join_server fails fr ios tok now sid rq s) = Raised KeyError
               \<or> fst (join_server fails fr ios tok now sid rq s) = Raised TypeError
               \<or> fst (join_server fails fr ios tok now sid rq s) = Raised SendError)"
    if "join_stored fr ios sid rq s = Some u"
    using that by (rule join_server_stored)
next
  assume h: "fst (join_server fails fr ios tok now sid rq s) = HTTPException c m
        \<or> fst (join_server fails fr ios tok now sid rq s) = Raised AttributeError
        \<or> fst (join_server fails fr ios tok now sid rq s) = Raised JSONDecodeError
        \<or> fst (join_server fails fr ios tok now sid rq s) = Raised OverflowError
        \<or> fst (join_server fails fr ios tok now sid rq s) = Raised InvalidDocument"
  have st: "snd (join_server fails fr ios tok now sid rq s) = (update_activity sid now s, [])"
    using join_server_early_failure [OF h] by (rule join_server_not_stored)
  then have e: "fst (snd (join_server fails fr ios tok now sid rq s)) = update_activity sid now s"
    by simp
  show "snd (join_server fails fr ios tok now sid rq s) = (update_activity sid now s, [])"
    by (rule st)
  show "map_option members (servers_col (fst (snd (join_server fails fr ios tok now sid rq s))) sid')
            = map_option members (servers_col s sid')"
    unfolding e by (rule update_activity_fields)
  show "map_option admin_user_id
              (servers_col (fst (snd (join_server fails fr ios tok now sid rq s))) sid')
            = map_option admin_user_id (servers_col s sid')"
    unfolding e by (rule update_activity_fields)
  show "map_option tokens
              (member_tokens_col (fst (snd (join_server fails fr ios tok now sid rq s))) sid')
            = map_option tokens (member_tokens_col s sid')"
    unfolding e by (rule update_activity_fields)
qed

text \<open>
  Against claim C6 as stated. Carol joins while alice (socket 1) and bob (socket 2) are
  registered and the send to socket 2 raises: the join fails, and her bundle and her
  token are in the store. A join whose body is an empty list presents no join token
  and no user id and ends in an \<open>AttributeError\<close>, neither 401 nor 400. And a join
  without a JSON body into a room that does not exist ends in the decoding error, not
  in 404.
\<close>

theorem failing_join_counterexample:
  "member_of demo_two_online ''room'' ''carol'' = None
   \<and> token_of demo_two_online ''room'' ''carol'' = None
   \<and> fst (join_server (only_fails 2) whole_float_repr no_int_of_str ''tok-c'' 50 ''room''
             (Some demo_join) demo_two_online) = Raised SendError
   \<and> member_of (fst (snd (join_server (only_fails 2) whole_float_repr no_int_of_str ''tok-c'' 50
             ''room'' (Some demo_join) demo_two_online))) ''room'' ''carol'' =
        Some (bundle_doc demo_bundle)
   \<and> token_of (fst (snd (join_server (only_fails 2) whole_float_repr no_int_of_str ''tok-c'' 50
             ''room'' (Some demo_join) demo_two_online))) ''room'' ''carol'' =
        Some (BStr ''tok-c'')
   \<and> fst (join_server (only_fails 9) whole_float_repr no_int_of_str ''tok-c'' 50 ''room''
             (Some (JArr [])) demo_two_online) = Raised AttributeError
   \<and> servers_col demo_empty ''room'' = None
   \<and> fst (join_server (only_fails 9) whole_float_repr no_int_of_str ''tok-c'' 50 ''room''
             None demo_empty) = Raised JSONDecodeError"
proof -
  have 1: "member_of demo_two_online ''room'' ''carol'' = None"
    "token_of demo_two_online ''room'' ''carol'' = None"
    by (simp_all add: member_of_def token_of_def demo_two_online_room)
  have f: "list_ex (only_fails 2) (map snd [(''alice'', 1), (''bob'', 2 :: ws)])"
    by (simp add: only_fails_def)
  have 2: "fst (join_server (only_fails 2) whole_float_repr no_int_of_str ''tok-c'' 50 ''room''
             (Some demo_join) demo_two_online) = Raised SendError"
    using demo_two_online_room(1) demo_join_valid(1,2) demo_plain(1) demo_join_valid(3)
      demo_prekey_truthy demo_decode demo_bundle_int64 demo_join_valid(4)
      demo_two_online_room(2) f
    by (rule join_plain_deliveries(2))
  note S = join_plain_stored [OF demo_two_online_room(1) demo_join_valid(1,2) demo_plain(1)
      demo_join_valid(3) demo_prekey_truthy demo_decode demo_bundle_int64 demo_join_valid(4),
      of "only_fails 2" whole_float_repr "''tok-c''" 50]
  have 3: "member_of (fst (snd (join_server (only_fails 2) whole_float_repr no_int_of_str ''tok-c'' 50
             ''room'' (Some demo_join) demo_two_online))) ''room'' ''carol'' =
        Some (bundle_doc demo_bundle)"
    by (rule S(1))
  have 4: "token_of (fst (snd (join_server (only_fails 2) whole_float_repr no_int_of_str ''tok-c'' 50
             ''room'' (Some demo_join) demo_two_online))) ''room'' ''carol'' =
        Some (BStr ''tok-c'')"
    using S(2) by (simp add: demo_two_online_room)
  have 5: "fst (join_server (only_fails 9) whole_float_repr no_int_of_str ''tok-c'' 50 ''room''
             (Some (JArr [])) demo_two_online) = Raised AttributeError"
    unfolding join_server_room [OF demo_two_online_room(1)]
    by (simp add: join_checks_def)
  have 6: "servers_col demo_empty ''room'' = None"
    by (simp add: demo_empty_def)
  have 7: "fst (join_server (only_fails 9) whole_float_repr no_int_of_str ''tok-c'' 50 ''room''
             None demo_empty) = Raised JSONDecodeError"
    by (simp add: join_server_no_json)
  from 1 2 3 4 5 6 7 show ?thesis by blast
qed

theorem join_errors_witness:
  "servers_col demo_empty ''room'' = None
   \<and> fst (join_server (only_fails 9) whole_float_repr no_int_of_str ''t'' 50 ''room''
          (Some demo_join) demo_empty) = HTTPException 404 ''Server not found''
   \<and> fst (join_server (only_fails 9) whole_float_repr no_int_of_str ''t'' 50 ''room''
          (Some (JArr [])) demo_two_online) = Raised AttributeError
   \<and> fst (join_server (only_fails 9) whole_float_repr no_int_of_str ''t'' 50 ''room''
          (Some (join_body ''guess'' (JStr ''carol'') demo_prekey)) demo_two_online) =
        HTTPException 401 ''Invalid join token''
   \<and> fst (join_server (only_fails 9) whole_float_repr no_int_of_str ''t'' 50 ''room''
          (Some (join_body ''secret'' JNull demo_prekey)) demo_two_online) =
        HTTPException 400 ''Missing user_id''
   \<and> fst (join_server (only_fails 9) whole_float_repr no_int_of_str ''t'' 50 ''room''
          (Some (join_body ''secret'' (JStr ''carol'') JNull)) demo_two_online) =
        HTTPException 400 ''Missing prekey_bundle''
   \<and> fst (join_server (only_fails 9) whole_float_repr no_int_of_str ''t'' 50 ''room''
          (Some (join_body ''secret'' (JStr ''carol'') (JObj [(''registration_id'', JInt 7)])))
          demo_two_online) = HTTPException 400 ''Invalid prekey format''
   \<and> snd (join_server (only_fails 9) whole_float_repr no_int_of_str ''t'' 50 ''room''
          (Some (join_body ''guess'' (JStr ''carol'') demo_prekey)) demo_two_online) =
        (update_activity ''room'' 50 demo_two_online, [])
   \<and> join_stored whole_float_repr no_int_of_str ''room''
        (Some (join_body ''guess'' (JStr ''carol'') demo_prekey)) demo_two_online = None
   \<and> join_stored whole_float_repr no_int_of_str ''room'' (Some demo_join) demo_two_online =
        Some (JStr ''carol'')
   \<and> (\<exists>bd srv b srv'. Some demo_join = Some bd \<and> servers_col demo_two_online ''room'' = Some srv
           \<and> join_checks no_int_of_str bd srv = Returned (JStr ''carol'', b)
           \<and> servers_update (py_str whole_float_repr (JStr ''carol'')) (JStr ''carol'') b srv
                = Inr srv'
           \<and> servers_col (fst (snd (join_server (only_fails 2) whole_float_repr no_int_of_str
                 ''t'' 50 ''room'' (Some demo_join) demo_two_online))) ''room'' =
               Some (srv'\<lparr>last_activity := 50\<rparr>)
           \<and> (is_returned (fst (join_server (only_fails 2) whole_float_repr no_int_of_str
                 ''t'' 50 ''room'' (Some demo_join) demo_two_online))
               \<or> fst (join_server (only_fails 2) whole_float_repr no_int_of_str
                 ''t'' 50 ''room'' (Some demo_join) demo_two_online) = Raised WriteError
               \<or> fst (join_server (only_fails 2) whole_float_repr no_int_of_str
                 ''t'' 50 ''room'' (Some demo_join) demo_two_online) = Raised KeyError
               \<or> fst (join_server (only_fails 2) whole_float_repr no_int_of_str
                 ''t'' 50 ''room'' (Some demo_join) demo_two_online) = Raised TypeError
               \<or> fst (join_server (only_fails 2) whole_float_repr no_int_of_str
                 ''t'' 50 ''room'' (Some demo_join) demo_two_online) = Raised SendError))"
proof -
  let ?srv = "\<lparr>join_token = ''secret'', admin_user_id = JStr ''alice'',
           members = [(''alice'', bundle_doc demo_bundle), (''bob'', bundle_doc demo_bundle)],
           created_at = 0, last_activity = 0\<rparr>"
  let ?guess = "join_body ''guess'' (JStr ''carol'') demo_prekey"
  let ?nouser = "join_body ''secret'' JNull demo_prekey"
  let ?nokey = "join_body ''secret'' (JStr ''carol'') JNull"
  let ?badkey = "join_body ''secret'' (JStr ''carol'') (JObj [(''registration_id'', JInt 7)])"
  have room: "servers_col demo_two_online ''room'' = Some ?srv"
    by (rule demo_two_online_room)
  have none: "servers_col demo_empty ''room'' = None"
    by (simp add: demo_empty_def)
  have arr: "servers_col demo_two_online ''room'' = Some ?srv \<and> (\<nexists>kvs. JArr [] = JObj kvs)"
    using room by simp
  have g: "servers_col demo_two_online ''room'' = Some ?srv
      \<and> py_get ?guess ''join_token'' = Inr (JStr ''guess'')
      \<and> JStr ''guess'' \<noteq> JStr (join_token ?srv)"
    using room by (simp add: py_get_join_body)
  have nu: "servers_col demo_two_online ''room'' = Some ?srv
      \<and> py_get ?nouser ''join_token'' = Inr (JStr (join_token ?srv))
      \<and> py_get ?nouser ''user_id'' = Inr JNull \<and> \<not> py_truthy JNull"
    using room by (simp add: py_get_join_body)
  have nk: "servers_col demo_two_online ''room'' = Some ?srv
      \<and> py_get ?nokey ''join_token'' = Inr (JStr (join_token ?srv))
      \<and> py_get ?nokey ''user_id'' = Inr (JStr ''carol'') \<and> py_truthy (JStr ''carol'')
      \<and> py_get ?nokey ''prekey_bundle'' = Inr JNull \<and> \<not> py_truthy JNull"
    using room by (simp add: py_get_join_body)
  have bk: "servers_col demo_two_online ''room'' = Some ?srv
      \<and> py_get ?badkey ''join_token'' = Inr (JStr (join_token ?srv))
      \<and> py_get ?badkey ''user_id'' = Inr (JStr ''carol'') \<and> py_truthy (JStr ''carol'')
      \<and> py_get ?badkey ''prekey_bundle'' = Inr (JObj [(''registration_id'', JInt 7)])
      \<and> py_truthy (JObj [(''registration_id'', JInt 7)])
      \<and> decode_bundle no_int_of_str (JObj [(''registration_id'', JInt 7)]) = None"
    using room by (simp add: py_get_join_body decode_bundle_def)
  have ns: "join_stored whole_float_repr no_int_of_str ''room'' (Some ?guess) demo_two_online = None"
    by (simp add: join_stored_def room join_checks_def py_get_join_body)
  have c: "join_checks no_int_of_str demo_join ?srv = Returned (JStr ''carol'', demo_bundle)"
    using demo_join_valid(1,2) _ demo_join_valid(3) demo_prekey_truthy demo_decode
    by (rule join_checks_valid) simp
  have st: "join_stored whole_float_repr no_int_of_str ''room'' (Some demo_join) demo_two_online =
        Some (JStr ''carol'')"
    by (simp add: join_stored_def room c servers_update_plain [OF demo_plain(1) demo_bundle_int64])
  note E = join_errors [where fails = "only_fails 9" and fr = whole_float_repr
      and ios = no_int_of_str and tok = "''t''" and now = 50 and sid = "''room''"]
  have 1: "fst (join_server (only_fails 9) whole_float_repr no_int_of_str ''t'' 50 ''room''
          (Some demo_join) demo_empty) = HTTPException 404 ''Server not found''"
    by (rule E [where s = demo_empty and body = demo_join, THEN conjunct2, THEN conjunct1, THEN mp, OF none])
  have 2: "fst (join_server (only_fails 9) whole_float_repr no_int_of_str ''t'' 50 ''room''
          (Some (JArr [])) demo_two_online) = Raised AttributeError"
    by (rule E [where s = demo_two_online and body = "JArr []" and srv = ?srv, THEN conjunct2, THEN conjunct2, THEN conjunct1, THEN mp, OF arr])
  have 3: "fst (join_server (only_fails 9) whole_float_repr no_int_of_str ''t'' 50 ''room''
          (Some ?guess) demo_two_online) = HTTPException 401 ''Invalid join token''"
    by (rule E [where s = demo_two_online and body = ?guess and srv = ?srv and p = "JStr ''guess''",
        THEN conjunct2, THEN conjunct2, THEN conjunct2, THEN conjunct1, THEN mp, OF g])
  have 4: "fst (join_server (only_fails 9) whole_float_repr no_int_of_str ''t'' 50 ''room''
          (Some ?nouser) demo_two_online) = HTTPException 400 ''Missing user_id''"
    by (rule E [where s = demo_two_online and body = ?nouser and srv = ?srv and u = JNull,
        THEN conjunct2, THEN conjunct2, THEN conjunct2, THEN conjunct2, THEN conjunct1, THEN mp, OF nu])
  have 5: "fst (join_server (only_fails 9) whole_float_repr no_int_of_str ''t'' 50 ''room''
          (Some ?nokey) demo_two_online) = HTTPException 400 ''Missing prekey_bundle''"
    by (rule E [where s = demo_two_online and body = ?nokey and srv = ?srv and u = "JStr ''carol''"
        and pk = JNull, THEN conjunct2, THEN conjunct2, THEN conjunct2, THEN conjunct2, THEN conjunct2, THEN conjunct1, THEN mp, OF nk])
  have 6: "fst (join_server (only_fails 9) whole_float_repr no_int_of_str ''t'' 50 ''room''
          (Some ?badkey) demo_two_online) = HTTPException 400 ''Invalid prekey format''"
    by (rule E [where s = demo_two_online and body = ?badkey and srv = ?srv and u = "JStr ''carol''"
        and pk = "JObj [(''registration_id'', JInt 7)]", THEN conjunct2, THEN conjunct2, THEN conjunct2, THEN conjunct2, THEN conjunct2, THEN conjunct2, THEN conjunct1, THEN mp, OF bk])
  have 7: "snd (join_server (only_fails 9) whole_float_repr no_int_of_str ''t'' 50 ''room''
          (Some ?guess) demo_two_online) = (update_activity ''room'' 50 demo_two_online, [])"
    by (rule E [where s = demo_two_online and rq = "Some ?guess" and c = 401
        and m = "''Invalid join token''", THEN conjunct2, THEN conjunct2, THEN conjunct2, THEN conjunct2, THEN conjunct2, THEN conjunct2, THEN conjunct2, THEN conjunct2, THEN conjunct1, THEN mp, OF disjI1, OF 3, THEN conjunct1])
  have 8: "\<exists>bd srv b srv'. Some demo_join = Some bd \<and> servers_col demo_two_online ''room'' = Some srv
           \<and> join_checks no_int_of_str bd srv = Returned (JStr ''carol'', b)
           \<and> servers_update (py_str whole_float_repr (JStr ''carol'')) (JStr ''carol'') b srv
                = Inr srv'
           \<and> servers_col (fst (snd (join_server (only_fails 2) whole_float_repr no_int_of_str
                 ''t'' 50 ''room'' (Some demo_join) demo_two_online))) ''room'' =
               Some (srv'\<lparr>last_activity := 50\<rparr>)
           \<and> (is_returned (fst (join_server (only_fails 2) whole_float_repr no_int_of_str
                 ''t'' 50 ''room'' (Some demo_join) demo_two_online))
               \<or> fst (join_server (only_fails 2) whole_float_repr no_int_of_str
                 ''t'' 50 ''room'' (Some demo_join) demo_two_online) = Raised WriteError
               \<or> fst (join_server (only_fails 2) whole_float_repr no_int_of_str
                 ''t'' 50 ''room'' (Some demo_join) demo_two_online) = Raised KeyError
               \<or> fst (join_server (only_fails 2) whole_float_repr no_int_of_str
                 ''t'' 50 ''room'' (Some demo_join) demo_two_online) = Raised TypeError
               \<or> fst (join_server (only_fails 2) whole_float_repr no_int_of_str
                 ''t'' 50 ''room'' (Some demo_join) demo_two_online) = Raised SendError)"
    by (rule join_errors [where fails = "only_fails 2" and fr = whole_float_repr
      and ios = no_int_of_str and tok = "''t''" and now = 50 and sid = "''room''"
      and s = demo_two_online and rq = "Some demo_join" and u = "JStr ''carol''",
      THEN conjunct2, THEN conjunct2, THEN conjunct2, THEN conjunct2, THEN conjunct2,
      THEN conjunct2, THEN conjunct2, THEN conjunct2, THEN conjunct2, THEN conjunct2,
      THEN mp, OF st])
  show ?thesis
    by (intro conjI none 1 2 3 4 5 6 7 ns st 8)
qed

subsection \<open>Activity stamps\<close>

lemma member_tokens_update_Inr:
  "member_tokens_update key tok td = Inr td' \<Longrightarrow>
     map_option (\<lambda>d. now) td' = map_option (\<lambda>d. now) td"
  by (auto simp: member_tokens_update_def split: if_splits option.splits)

lemma join_server_stamp:
  "map_option last_activity
     (servers_col (fst (snd (join_server fails fr ios tok now sid rq s))) sid) =
   map_option (\<lambda>d. now) (servers_col s sid)
   \<and> map_option t_last_activity
     (member_tokens_col (fst (snd (join_server fails fr ios tok now sid rq s))) sid) =
   map_option (\<lambda>d. now) (member_tokens_col s sid)"
proof (cases "join_stored fr ios sid rq s")
  case None
  from join_server_not_stored [OF None, of fails tok now]
  have "fst (snd (join_server fails fr ios tok now sid rq s)) = update_activity sid now s"
    by simp
  then show ?thesis
    by (simp add: servers_col_update_activity member_tokens_col_update_activity
        option.map_comp comp_def)
next
  case (Some u)
  then obtain bd srv b srv' where bd: "rq = Some bd" and srv: "servers_col s sid = Some srv"
    and c: "join_checks ios bd srv = Returned (u, b)"
    and su: "servers_update (py_str fr u) u b srv = Inr srv'"
    by (auto simp: join_stored_def split: option.splits outcome.splits sum.splits)
  show ?thesis
  proof (cases "member_tokens_update (py_str fr u) tok (member_tokens_col s sid)")
    case (Inl e)
    then show ?thesis
      unfolding bd join_server_room [OF srv]
      by (simp add: c su put_server_def srv member_tokens_col_update_activity
          option.map_comp comp_def)
  next
    case td: (Inr td')
    have m: "map_option (\<lambda>d. now) td' = map_option (\<lambda>d. now) (member_tokens_col s sid)"
      using td by (rule member_tokens_update_Inr)
    show ?thesis
      unfolding bd join_server_room [OF srv]
      by (cases "others_of u (members srv')")
        (simp_all add: c su td put_server_def put_tokens_def srv option.map_comp comp_def m)
  qed
qed

lemma join_server_http_state:
  assumes "fst (join_server fails fr ios tok now sid rq s) = HTTPException c m"
  shows "fst (snd (join_server fails fr ios tok now sid rq s)) = update_activity sid now s"
proof -
  have "join_stored fr ios sid rq s = None"
    by (rule join_server_early_failure) (use assms in blast)
  from join_server_not_stored [OF this, of fails tok now] show ?thesis by simp
qed

lemma get_prekey_state: "snd (get_prekey now sid uid s) = update_activity sid now s"
  by (simp add: get_prekey_def Let_def split: option.splits sum.splits)

lemma ws_connect_store:
  "servers_col (snd (ws_connect w now sid tok ip s)) = servers_col (update_activity sid now s)"
  "member_tokens_col (snd (ws_connect w now sid tok ip s)) =
     member_tokens_col (update_activity sid now s)"
  by (simp_all add: ws_connect_def Let_def registry_put_def split_beta split: option.splits)

lemma ws_connect_1008:
  "fst (ws_connect w now sid tok ip s) = Closed 1008 \<Longrightarrow>
     snd (ws_connect w now sid tok ip s) = update_activity sid now s"
  by (auto simp: ws_connect_def Let_def split_beta split: option.splits if_splits)

text \<open>
  Claim C10. \<open>update_activity\<close> replaces the activity stamp of the room's two documents
  and nothing else, and each of the three handlers calls it before it looks anything
  up. So after any join the stamps of an existing room are the time of the call; a join
  answered with an HTTP error, every \<open>get_prekey\<close>, and a connection closed with 1008
  leave exactly the state that \<open>update_activity\<close> alone gives; and no connection
  attempt changes the two collections beyond that.
\<close>

theorem activity_refreshed:
  "servers_col (update_activity sid now s) sid' =
     (if sid' = sid then map_option (\<lambda>d. d\<lparr>last_activity := now\<rparr>) (servers_col s sid)
      else servers_col s sid')
   \<and> member_tokens_col (update_activity sid now s) sid' =
     (if sid' = sid then map_option (\<lambda>d. d\<lparr>t_last_activity := now\<rparr>) (member_tokens_col s sid)
      else member_tokens_col s sid')
   \<and> map_option last_activity
        (servers_col (fst (snd (join_server fails fr ios tok now sid rq s))) sid) =
      map_option (\<lambda>d. now) (servers_col s sid)
   \<and> map_option t_last_activity
        (member_tokens_col (fst (snd (join_server fails fr ios tok now sid rq s))) sid) =
      map_option (\<lambda>d. now) (member_tokens_col s sid)
   \<and> (fst (join_server fails fr ios tok now sid rq s) = HTTPException c m \<longrightarrow>
        fst (snd (join_server fails fr ios tok now sid rq s)) = update_activity sid now s)
   \<and> snd (get_prekey now sid uid s) = update_activity sid now s
   \<and> servers_col (snd (ws_connect w now sid token ip s)) =
        servers_col (update_activity sid now s)
   \<and> member_tokens_col (snd (ws_connect w now sid token ip s)) =
        member_tokens_col (update_activity sid now s)
   \<and> (fst (ws_connect w now sid token ip s) = Closed 1008 \<longrightarrow>
        snd (ws_connect w now sid token ip s) = update_activity sid now s)"
proof (intro conjI impI)
  show "servers_col (update_activity sid now s) sid' =
     (if sid' = sid then map_option (\<lambda>d. d\<lparr>last_activity := now\<rparr>) (servers_col s sid)
      else servers_col s sid')"
    by (rule servers_col_update_activity)
  show "member_tokens_col (update_activity sid now s) sid' =
     (if sid' = sid then map_option (\<lambda>d. d\<lparr>t_last_activity := now\<rparr>) (member_tokens_col s sid)
      else member_tokens_col s sid')"
    by (rule member_tokens_col_update_activity)
  show "map_option last_activity
        (servers_col (fst (snd (join_server fails fr ios tok now sid rq s))) sid) =
      map_option (\<lambda>d. now) (servers_col s sid)"
    by (rule join_server_stamp [THEN conjunct1])
  show "map_option t_last_activity
        (member_tokens_col (fst (snd (join_server fails fr ios tok now sid rq s))) sid) =
      map_option (\<lambda>d. now) (member_tokens_col s sid)"
    by (rule join_server_stamp [THEN conjunct2])
  show "fst (snd (join_server fails fr ios tok now sid rq s)) = update_activity sid now s"
    if "fst (join_server fails fr ios tok now sid rq s) = HTTPException c m"
    using that by (rule join_server_http_state)
  show "snd (get_prekey now sid uid s) = update_activity sid now s"
    by (rule get_prekey_state)
  show "servers_col (snd (ws_connect w now sid token ip s)) =
        servers_col (update_activity sid now s)"
    by (rule ws_connect_store)
  show "member_tokens_col (snd (ws_connect w now sid token ip s)) =
        member_tokens_col (update_activity sid now s)"
    by (rule ws_connect_store)
  show "snd (ws_connect w now sid token ip s) = update_activity sid now s"
    if "fst (ws_connect w now sid token ip s) = Closed 1008"
    using that by (rule ws_connect_1008)
qed

theorem activity_refreshed_witness:
  "fst (join_server (only_fails 9) whole_float_repr no_int_of_str ''t'' 50 ''room''
          (Some (join_body ''guess'' (JStr ''carol'') demo_prekey)) demo_state)
     = HTTPException 401 ''Invalid join token''
   \<and> fst (snd (join_server (only_fails 9) whole_float_repr no_int_of_str ''t'' 50 ''room''
          (Some (join_body ''guess'' (JStr ''carol'') demo_prekey)) demo_state))
     = update_activity ''room'' 50 demo_state
   \<and> map_option last_activity (servers_col (update_activity ''room'' 50 demo_state) ''room'')
     = Some 50
   \<and> map_option t_last_activity (member_tokens_col (update_activity ''room'' 50 demo_state) ''room'')
     = Some 50
   \<and> fst (ws_connect 3 60 ''room'' ''bad'' ''10.0.0.1'' demo_state) = Closed 1008
   \<and> snd (ws_connect 3 60 ''room'' ''bad'' ''10.0.0.1'' demo_state)
     = update_activity ''room'' 60 demo_state"
proof -
  have r: "servers_col demo_state ''room'' =
     Some \<lparr>join_token = ''secret'', admin_user_id = JStr ''alice'',
           members = [(''alice'', bundle_doc demo_bundle)], created_at = 0, last_activity = 0\<rparr>"
    by (simp add: demo_state_def)
  have j: "fst (join_server (only_fails 9) whole_float_repr no_int_of_str ''t'' 50 ''room''
          (Some (join_body ''guess'' (JStr ''carol'') demo_prekey)) demo_state)
     = HTTPException 401 ''Invalid join token''"
    unfolding join_server_room [OF r]
    by (simp add: join_checks_def py_get_join_body)
  have c: "fst (ws_connect 3 60 ''room'' ''bad'' ''10.0.0.1'' demo_state) = Closed 1008"
    by (simp add: ws_connect_def demo_state_def update_activity_def)
  note A = activity_refreshed [where fails = "only_fails 9" and fr = whole_float_repr
      and ios = no_int_of_str
      and tok = "''t''" and now = 50 and sid = "''room''" and sid' = "''room''"
      and rq = "Some (join_body ''guess'' (JStr ''carol'') demo_prekey)" and s = demo_state
      and c = 401 and m = "''Invalid join token''"]
  note B = activity_refreshed [where now = 60 and sid = "''room''" and s = demo_state
      and w = 3 and token = "''bad''" and ip = "''10.0.0.1''"]
  have 1: "fst (snd (join_server (only_fails 9) whole_float_repr no_int_of_str ''t'' 50 ''room''
          (Some (join_body ''guess'' (JStr ''carol'') demo_prekey)) demo_state))
     = update_activity ''room'' 50 demo_state"
    using A j by blast
  have 2: "map_option last_activity (servers_col (update_activity ''room'' 50 demo_state) ''room'')
     = Some 50"
    using A by (simp add: demo_state_def)
  have 3: "map_option t_last_activity (member_tokens_col (update_activity ''room'' 50 demo_state) ''room'')
     = Some 50"
    using A by (simp add: demo_state_def)
  have 4: "snd (ws_connect 3 60 ''room'' ''bad'' ''10.0.0.1'' demo_state)
     = update_activity ''room'' 60 demo_state"
    using B c by blast
  from j c 1 2 3 4 show ?thesis by blast
qed

subsection \<open>Join: the other members' bundles\<close>
















subsection \<open>Join: the admin of a room\<close>















end
